theory Spec2Isabelle
  imports Complex_Main
begin

section \<open>Attention detector: evidence fusion, trackers, calibration and alarm escalation\<close>

text \<open>
  A shallow embedding of the attention detector (the hook \<open>useAttentionDetector\<close>, the
  classes \<open>HeadNodDetector\<close> and \<open>YawnDetector\<close>). JavaScript numbers are modelled as
  \<open>real\<close> (so rounding of IEEE doubles and NaN are outside the model), frame counters as
  \<open>nat\<close>, and \<open>Date.now()\<close> timestamps as \<open>int\<close> milliseconds.
\<close>

subsection \<open>Constants of the detector\<close>

abbreviation (input) BASE_EAR_THRESHOLD :: real where "BASE_EAR_THRESHOLD \<equiv> 0.20"
abbreviation (input) EYES_CLOSED_NOD_SEC :: real where "EYES_CLOSED_NOD_SEC \<equiv> 3.5"
abbreviation (input) EYES_CLOSED_SLEEP_SEC :: real where "EYES_CLOSED_SLEEP_SEC \<equiv> 5"
abbreviation (input) HEAD_TILT_THRESHOLD :: real where "HEAD_TILT_THRESHOLD \<equiv> 30"
abbreviation (input) HEAD_PITCH_THRESHOLD :: real where "HEAD_PITCH_THRESHOLD \<equiv> 10"
abbreviation (input) HEAD_PITCH_BACK_THRESHOLD :: real where "HEAD_PITCH_BACK_THRESHOLD \<equiv> 12"
abbreviation (input) FPS :: real where "FPS \<equiv> 30"
abbreviation (input) CALIBRATION_DURATION_MS :: int where "CALIBRATION_DURATION_MS \<equiv> 4000"
abbreviation (input) MIN_CALIBRATION_FRAMES :: nat where "MIN_CALIBRATION_FRAMES \<equiv> 90"
abbreviation (input) MIN_CLOSED_FRAMES :: nat where "MIN_CLOSED_FRAMES \<equiv> 15"

datatype AttentionState = Awake | NoddingOff | Sleeping

subsection \<open>Tracker outputs consumed by the fusion engine\<close>

datatype LeanDirection = Forward | Backward | Neutral

text \<open>The object returned by \<open>PostureTracker.update\<close>; durations are millisecond differences.\<close>

record PostureState =
  isPresent :: bool
  isSlouchingNow :: bool
  isSlouched :: bool
  slouchDuration :: int
  awayDuration :: int
  leanAngle :: real
  isLeaning :: bool
  leanDirection :: LeanDirection
  leanDuration :: int
  postureVertical :: real
  bodyPresence :: real

text \<open>The object returned by \<open>HeadNodDetector.update\<close>.\<close>

record NodState =
  isForwardNodding :: bool
  isBackwardTilting :: bool
  nodCount :: nat
  avgPitch :: real
  instantaneousPitch :: real
  windowMax :: real
  windowMin :: real

text \<open>
  Everything the evidence block of \<open>handleLandmarks\<close> reads: the consecutive closed-eye
  frame counter (after this frame's update), the tracker results of this frame, the latest
  posture reading (\<open>latestPostureStateRef\<close>, \<open>None\<close> for \<open>null\<close>) and whether the
  \<open>landmarks\<close> value captured by the callback is non-null.
\<close>

record FusionInputs =
  closedFrames :: nat
  nodState :: NodState
  isTilted :: bool
  currentIsYawning :: bool
  currentYawCount :: nat
  currentIsLookingAway :: bool
  currentLookAwayDuration :: real
  isAbnormalDistance :: bool
  postureState :: "PostureState option"
  landmarksNonNull :: bool

subsection \<open>Closed-eye duration\<close>

text \<open>
  \<open>let closedSec = 0; if (closedFrames >= MIN_CLOSED_FRAMES) closedSec = (closedFrames - MIN_CLOSED_FRAMES) / FPS\<close>
\<close>

definition closedSecOf :: "nat \<Rightarrow> real" where
  "closedSecOf frames =
     (if MIN_CLOSED_FRAMES \<le> frames then (real frames - real MIN_CLOSED_FRAMES) / FPS else 0)"

definition isDrowsyYawnRate :: "nat \<Rightarrow> bool" where
  "isDrowsyYawnRate yawnCount = (2 \<le> yawnCount)"

subsection \<open>The three evidence accumulators\<close>

record Evidence =
  sleepingEvidence :: real
  noddingEvidence :: real
  awakeEvidence :: real

definition addSleeping :: "real \<Rightarrow> Evidence \<Rightarrow> Evidence" where
  "addSleeping x e = e\<lparr>sleepingEvidence := sleepingEvidence e + x\<rparr>"

definition addNodding :: "real \<Rightarrow> Evidence \<Rightarrow> Evidence" where
  "addNodding x e = e\<lparr>noddingEvidence := noddingEvidence e + x\<rparr>"

definition addAwake :: "real \<Rightarrow> Evidence \<Rightarrow> Evidence" where
  "addAwake x e = e\<lparr>awakeEvidence := awakeEvidence e + x\<rparr>"

definition setAwake :: "real \<Rightarrow> Evidence \<Rightarrow> Evidence" where
  "setAwake x e = e\<lparr>awakeEvidence := x\<rparr>"

text \<open>\<open>sleepingEvidence *= k; noddingEvidence *= k; awakeEvidence *= k\<close>\<close>

definition scaleAll :: "real \<Rightarrow> Evidence \<Rightarrow> Evidence" where
  "scaleAll k e = \<lparr>sleepingEvidence = sleepingEvidence e * k,
                  noddingEvidence = noddingEvidence e * k,
                  awakeEvidence = awakeEvidence e * k\<rparr>"

text \<open>A guarded statement \<open>if (c) { stmt }\<close> with no else branch.\<close>

definition onlyIf :: "bool \<Rightarrow> (Evidence \<Rightarrow> Evidence) \<Rightarrow> Evidence \<Rightarrow> Evidence" where
  "onlyIf c stmt = (if c then stmt else id)"

text \<open>The closed-eye bands: \<open>if (d >= 5) ... else if (d >= 3.5) ... else if (d >= 2.0) ... else if (d >= 1.0) ...\<close>\<close>

definition eyeClosureRule :: "real \<Rightarrow> Evidence \<Rightarrow> Evidence" where
  "eyeClosureRule d =
     (if EYES_CLOSED_SLEEP_SEC \<le> d then addSleeping (2.0 + min ((d - EYES_CLOSED_SLEEP_SEC) / 2) 1.0)
      else if EYES_CLOSED_NOD_SEC \<le> d then addNodding 1.5
      else if 2.0 \<le> d then addNodding 0.8
      else if 1.0 \<le> d then addNodding 0.3
      else id)"

text \<open>\<open>if (isBackwardTilting) { nodding += 0.2; if (d >= 4) sleeping += 0.2 }\<close>\<close>

definition backwardTiltRule :: "bool \<Rightarrow> real \<Rightarrow> Evidence \<Rightarrow> Evidence" where
  "backwardTiltRule tilting d =
     (if tilting then (onlyIf (4 \<le> d) (addSleeping 0.2)) \<circ> addNodding 0.2 else id)"

text \<open>\<open>if (lookingAway && duration > 5) nodding += 0.15 else awake += 0.05\<close>\<close>

definition lookAwayRule :: "bool \<Rightarrow> real \<Rightarrow> Evidence \<Rightarrow> Evidence" where
  "lookAwayRule away dur = (if away \<and> 5 < dur then addNodding 0.15 else addAwake 0.05)"

text \<open>The block commented "Reduce awake evidence significantly when eyes are closed".\<close>

definition awakeEyeRule :: "real \<Rightarrow> Evidence \<Rightarrow> Evidence" where
  "awakeEyeRule d =
     (if d < 1 then addAwake 0.3
      else if d < 2.0 then addAwake 0.05
      else if d < EYES_CLOSED_NOD_SEC then setAwake 0
      else setAwake 0)"

text \<open>\<open>if (isSlouched) { if (slouchDuration > 10000) nodding += 0.3 else if (slouchDuration > 5000) nodding += 0.2 }\<close>\<close>

definition slouchRule :: "PostureState \<Rightarrow> Evidence \<Rightarrow> Evidence" where
  "slouchRule p =
     (if isSlouched p then
        (if 10000 < slouchDuration p then addNodding 0.3
         else if 5000 < slouchDuration p then addNodding 0.2
         else id)
      else id)"

text \<open>
  The statements before the posture block, in source order. \<open>forwardPeak\<close> and
  \<open>backwardPeak\<close> are \<open>nodState.windowMax ?? 0\<close> and \<open>nodState.windowMin ?? 0\<close>; both fields
  are always numbers, so the fallback never applies.
\<close>

definition faceRules :: "FusionInputs \<Rightarrow> (Evidence \<Rightarrow> Evidence) list" where
  "faceRules i =
     (let d = closedSecOf (closedFrames i);
          ns = nodState i;
          forwardPeak = windowMax ns;
          backwardPeak = windowMin ns;
          isFrequentYawning = isDrowsyYawnRate (currentYawCount i)
      in [eyeClosureRule d,
          onlyIf (isForwardNodding ns) (addNodding 0.3),
          onlyIf (HEAD_PITCH_THRESHOLD + 4 < forwardPeak) (addNodding 0.25),
          backwardTiltRule (isBackwardTilting ns) d,
          onlyIf (currentIsYawning i) (addNodding 0.15),
          onlyIf isFrequentYawning (addNodding 0.1),
          lookAwayRule (currentIsLookingAway i) (currentLookAwayDuration i),
          onlyIf (isAbnormalDistance i) (addNodding 0.1),
          onlyIf (\<not> isTilted i) (addAwake 0.1),
          onlyIf (\<not> isForwardNodding ns \<and> \<not> isBackwardTilting ns) (addAwake 0.2),
          onlyIf (\<bar>forwardPeak\<bar> < HEAD_PITCH_THRESHOLD \<and> \<bar>backwardPeak\<bar> < HEAD_PITCH_BACK_THRESHOLD)
                 (addAwake 0.05),
          onlyIf (\<not> currentIsYawning i \<and> currentYawCount i < 2) (addAwake 0.05),
          awakeEyeRule d])"

text \<open>The statements of the block \<open>if (postureState) { ... }\<close>, in source order.\<close>

definition postureRules :: "FusionInputs \<Rightarrow> PostureState \<Rightarrow> (Evidence \<Rightarrow> Evidence) list" where
  "postureRules i p =
     (let d = closedSecOf (closedFrames i)
      in [onlyIf (leanDirection p = Backward \<and> 5000 < leanDuration p \<and> 3 < d) (addSleeping 0.4),
          onlyIf (\<not> isPresent p \<and> 10000 < awayDuration p) (addSleeping 0.5),
          onlyIf (isSlouched p \<and> leanDirection p = Backward \<and> 4 < d) (addSleeping 0.3),
          slouchRule p,
          onlyIf (leanDirection p = Forward \<and> 3000 < leanDuration p \<and> 1.5 < d) (addNodding 0.25),
          onlyIf (leanDirection p = Backward \<and> 5000 < leanDuration p \<and> leanDuration p < 15000)
                 (addNodding 0.15),
          onlyIf (isLeaning p \<and> currentIsYawning i) (addNodding 0.1),
          onlyIf (\<not> isSlouched p \<and> \<not> isLeaning p \<and> isPresent p) (addAwake 0.25),
          onlyIf (isPresent p \<and> 0.7 < bodyPresence p \<and> \<not> isSlouched p) (addAwake 0.15),
          onlyIf (\<not> isSlouchingNow p \<and> slouchDuration p = 0 \<and> leanDirection p = Neutral) (addAwake 0.1),
          onlyIf (bodyPresence p < 0.5 \<and> landmarksNonNull i) (scaleAll 0.8)])"

definition initialEvidence :: Evidence where
  "initialEvidence = \<lparr>sleepingEvidence = 0, noddingEvidence = 0, awakeEvidence = 0.3\<rparr>"

definition runRules :: "(Evidence \<Rightarrow> Evidence) list \<Rightarrow> Evidence \<Rightarrow> Evidence" where
  "runRules rules e = foldl (\<lambda>acc stmt. stmt acc) e rules"

text \<open>The accumulators just before clamping.\<close>

definition accumulateEvidence :: "FusionInputs \<Rightarrow> Evidence" where
  "accumulateEvidence i =
     runRules (case postureState i of None \<Rightarrow> [] | Some p \<Rightarrow> postureRules i p)
       (runRules (faceRules i) initialEvidence)"

text \<open>
  \<open>sleeping = min(1, max(0, sleeping)); nodding = min(1, max(0, nodding)); awake = min(1, max(0.05, awake))\<close>
\<close>

definition clampEvidence :: "Evidence \<Rightarrow> Evidence" where
  "clampEvidence e = \<lparr>sleepingEvidence = min 1 (max 0 (sleepingEvidence e)),
                      noddingEvidence = min 1 (max 0 (noddingEvidence e)),
                      awakeEvidence = min 1 (max 0.05 (awakeEvidence e))\<rparr>"

definition fusedEvidence :: "FusionInputs \<Rightarrow> Evidence" where
  "fusedEvidence i = clampEvidence (accumulateEvidence i)"

record Probabilities =
  sleepingProb :: real
  noddingProb :: real
  awakeProb :: real

definition normalizeEvidence :: "Evidence \<Rightarrow> Probabilities" where
  "normalizeEvidence e =
     (let totalEvidence = sleepingEvidence e + noddingEvidence e + awakeEvidence e
      in \<lparr>sleepingProb = (if 0 < totalEvidence then sleepingEvidence e / totalEvidence else 0),
          noddingProb = (if 0 < totalEvidence then noddingEvidence e / totalEvidence else 0),
          awakeProb = (if 0 < totalEvidence then awakeEvidence e / totalEvidence else 1)\<rparr>)"

definition fusedProbabilities :: "FusionInputs \<Rightarrow> Probabilities" where
  "fusedProbabilities i = normalizeEvidence (fusedEvidence i)"

subsection \<open>HeadNodDetector\<close>

text \<open>
  The private fields of the class. \<open>HISTORY_SIZE = 18\<close>, \<open>FORWARD_HYSTERESIS = 3\<close>,
  \<open>BACKWARD_HYSTERESIS = 3\<close>.
\<close>

record HeadNodDetector =
  hn_pitchHistory :: "real list"
  hn_nodCount :: nat
  hn_wasForward :: bool
  hn_wasBackward :: bool

abbreviation (input) HN_HISTORY_SIZE :: nat where "HN_HISTORY_SIZE \<equiv> 18"
abbreviation (input) FORWARD_HYSTERESIS :: real where "FORWARD_HYSTERESIS \<equiv> 3"
abbreviation (input) BACKWARD_HYSTERESIS :: real where "BACKWARD_HYSTERESIS \<equiv> 3"

definition newHeadNodDetector :: HeadNodDetector where
  "newHeadNodDetector = \<lparr>hn_pitchHistory = [], hn_nodCount = 0, hn_wasForward = False,
     hn_wasBackward = False\<rparr>"

text \<open>\<open>history.push(x); if (history.length > limit) history.shift()\<close>\<close>

definition pushBounded :: "nat \<Rightarrow> 'a \<Rightarrow> 'a list \<Rightarrow> 'a list" where
  "pushBounded limit x history =
     (let pushed = history @ [x] in if limit < length pushed then tl pushed else pushed)"

text \<open>\<open>values.reduce((a, b) => a + b, 0) / values.length\<close>\<close>

definition meanOf :: "real list \<Rightarrow> real" where
  "meanOf values = sum_list values / real (length values)"

text \<open>
  \<open>HeadNodDetector.update(adjustedPitch, forwardThreshold, backwardThreshold)\<close>: the new
  detector and the returned object. The window is never empty after the push, so
  \<open>Math.max(...pitchHistory)\<close> and \<open>Math.min(...pitchHistory)\<close> are its greatest and least
  elements.
\<close>

definition headNodUpdate ::
  "real \<Rightarrow> real \<Rightarrow> real \<Rightarrow> HeadNodDetector \<Rightarrow> HeadNodDetector \<times> NodState" where
  "headNodUpdate adjustedPitch forwardThreshold backwardThreshold this =
     (let history = pushBounded HN_HISTORY_SIZE adjustedPitch (hn_pitchHistory this);
          avg = meanOf history;
          wMax = Max (set history);
          wMin = Min (set history);
          isForward = (forwardThreshold < wMax);
          isBackward = (wMin < - backwardThreshold);
          count = (if isForward \<and> \<not> hn_wasForward this then hn_nodCount this + 1
                   else hn_nodCount this);
          wasF = (if isForward \<and> \<not> hn_wasForward this then True
                  else if \<not> isForward \<and> wMax < forwardThreshold - FORWARD_HYSTERESIS then False
                  else hn_wasForward this);
          wasB = (if isBackward \<and> \<not> hn_wasBackward this then True
                  else if \<not> isBackward \<and> - (backwardThreshold - BACKWARD_HYSTERESIS) < wMin then False
                  else hn_wasBackward this)
      in (\<lparr>hn_pitchHistory = history, hn_nodCount = count, hn_wasForward = wasF,
            hn_wasBackward = wasB\<rparr>,
          \<lparr>isForwardNodding = isForward, isBackwardTilting = isBackward, nodCount = count,
            avgPitch = avg, instantaneousPitch = adjustedPitch, windowMax = wMax,
            windowMin = wMin\<rparr>))"

text \<open>Feeding a sequence of adjusted pitches with the thresholds \<open>handleLandmarks\<close> uses.\<close>

definition headNodFeed :: "real list \<Rightarrow> HeadNodDetector \<Rightarrow> HeadNodDetector" where
  "headNodFeed pitches this =
     foldl (\<lambda>det p. fst (headNodUpdate p HEAD_PITCH_THRESHOLD HEAD_PITCH_BACK_THRESHOLD det))
       this pitches"

subsection \<open>YawnDetector\<close>

record YawnDetector =
  yd_marHistory :: "real list"
  yd_yawnCount :: nat
  yd_yawnTimes :: "int list"
  yd_isCurrentlyYawning :: bool
  yd_yawnStartTime :: "int option"

record YawnState =
  isYawning :: bool
  avgMAR :: real
  yawnCount :: nat

abbreviation (input) YD_HISTORY_SIZE :: nat where "YD_HISTORY_SIZE \<equiv> 10"
abbreviation (input) MAR_THRESHOLD :: real where "MAR_THRESHOLD \<equiv> 0.6"
abbreviation (input) MIN_YAWN_DURATION_MS :: int where "MIN_YAWN_DURATION_MS \<equiv> 500"
abbreviation (input) MAX_YAWN_DURATION_MS :: int where "MAX_YAWN_DURATION_MS \<equiv> 3000"
abbreviation (input) YAWN_WINDOW_MS :: int where "YAWN_WINDOW_MS \<equiv> 60000"

definition newYawnDetector :: YawnDetector where
  "newYawnDetector = \<lparr>yd_marHistory = [], yd_yawnCount = 0, yd_yawnTimes = [],
     yd_isCurrentlyYawning = False, yd_yawnStartTime = None\<rparr>"

text \<open>JavaScript truthiness of a \<open>number | null\<close>: \<open>null\<close> and \<open>0\<close> are falsy.\<close>

definition truthyTime :: "int option \<Rightarrow> bool" where
  "truthyTime t = (case t of None \<Rightarrow> False | Some v \<Rightarrow> v \<noteq> 0)"

text \<open>
  \<open>YawnDetector.update(mar)\<close>; the value of \<open>Date.now()\<close> read at its start is the
  parameter \<open>now\<close>.
\<close>

definition yawnUpdate :: "real \<Rightarrow> int \<Rightarrow> YawnDetector \<Rightarrow> YawnDetector \<times> YawnState" where
  "yawnUpdate mar now this =
     (let history = pushBounded YD_HISTORY_SIZE mar (yd_marHistory this);
          avg = meanOf history;
          isMouthWideOpen = (MAR_THRESHOLD < avg);
          this1 = this\<lparr>yd_marHistory := history\<rparr>;
          this2 =
            (if isMouthWideOpen \<and> \<not> yd_isCurrentlyYawning this1 then
               this1\<lparr>yd_isCurrentlyYawning := True, yd_yawnStartTime := Some now\<rparr>
             else if \<not> isMouthWideOpen \<and> yd_isCurrentlyYawning this1
                     \<and> truthyTime (yd_yawnStartTime this1) then
               (let yawnDuration = now - the (yd_yawnStartTime this1);
                    counted =
                      (if MIN_YAWN_DURATION_MS \<le> yawnDuration \<and> yawnDuration \<le> MAX_YAWN_DURATION_MS
                       then this1\<lparr>yd_yawnCount := yd_yawnCount this1 + 1,
                                  yd_yawnTimes := yd_yawnTimes this1 @ [now]\<rparr>
                       else this1)
                in counted\<lparr>yd_isCurrentlyYawning := False, yd_yawnStartTime := None\<rparr>)
             else this1);
          this3 = this2\<lparr>yd_yawnTimes := filter (\<lambda>time. now - time \<le> YAWN_WINDOW_MS) (yd_yawnTimes this2)\<rparr>
      in (this3, \<lparr>isYawning = yd_isCurrentlyYawning this3, avgMAR = avg,
                   yawnCount = yd_yawnCount this3\<rparr>))"

text \<open>Feeding a sequence of \<open>(mar, now)\<close> frames.\<close>

definition yawnFeed :: "(real \<times> int) list \<Rightarrow> YawnDetector \<Rightarrow> YawnDetector" where
  "yawnFeed frames this = foldl (\<lambda>det (mar, now). fst (yawnUpdate mar now det)) this frames"

text \<open>
  The drowsy-yawning criterion of \<open>handleLandmarks\<close>:
  \<open>isFrequentYawning = isDrowsyYawnRate(yawnDetector.update(currentMAR).yawnCount)\<close>.
\<close>

definition isFrequentYawning :: "real \<Rightarrow> int \<Rightarrow> YawnDetector \<Rightarrow> bool" where
  "isFrequentYawning mar now this = isDrowsyYawnRate (yawnCount (snd (yawnUpdate mar now this)))"

text \<open>
  The criterion in the claim's words, for comparison with the code: at least 2 yawns in
  the rolling 60-second window, which the detector keeps in \<open>yawnTimes\<close>.
\<close>

definition drowsyYawningPerMinute :: "YawnDetector \<Rightarrow> bool" where
  "drowsyYawningPerMinute this = (2 \<le> length (yd_yawnTimes this))"

subsection \<open>Calibration helpers\<close>

record CalibrationBaselines =
  pitch :: real
  ear :: real
  tilt :: real
  faceWidth :: real

record CalibrationAccumulator =
  collecting :: bool
  startTimestamp :: "int option"
  pitchSamples :: "real list"
  earSamples :: "real list"
  tiltSamples :: "real list"
  faceWidthSamples :: "real list"

text \<open>
  \<open>median(values)\<close>: 0 for the empty array; otherwise sort numerically and take the middle
  element, or the mean of the two middle elements when the length is even.
\<close>

definition median :: "real list \<Rightarrow> real" where
  "median values =
     (if length values = 0 then 0
      else (let sorted = sort values; mid = length sorted div 2
            in if length sorted mod 2 = 0 then (sorted ! (mid - 1) + sorted ! mid) / 2
               else sorted ! mid))"

definition average :: "real list \<Rightarrow> real" where
  "average values = (if length values = 0 then 0 else sum_list values / real (length values))"

subsection \<open>Strings\<close>

text \<open>
  A string is a list of code units below 256 (the type \<open>char\<close>), that is, a JavaScript
  string over the Latin-1 range U+0000 to U+00FF; every text the program itself produces
  is of this kind. The string operations below are their JavaScript namesakes on that
  range. \<open>String(n)\<close> for a non-negative integer is its decimal numeral.
\<close>

definition digitChar :: "nat \<Rightarrow> char" where
  "digitChar d = ''0123456789'' ! d"

fun string_of_nat :: "nat \<Rightarrow> string" where
  "string_of_nat n =
     (if n < 10 then [digitChar n]
      else string_of_nat (n div 10) @ [digitChar (n mod 10)])"

declare string_of_nat.simps [simp del]

text \<open>\<open>s.padStart(targetLength, "0")\<close>\<close>

definition padStart :: "nat \<Rightarrow> string \<Rightarrow> string" where
  "padStart targetLength s = replicate (targetLength - length s) (CHR ''0'') @ s"

text \<open>
  The code units below 256 that \<open>trim\<close> strips: the white space TAB, VT, FF, SP and
  NBSP (U+00A0) and the line terminators LF and CR.
\<close>

definition isWhitespace :: "char \<Rightarrow> bool" where
  "isWhitespace c = ((of_char c :: nat) \<in> {9, 10, 11, 12, 13, 32, 160})"

text \<open>\<open>s.trim()\<close>: leading and trailing white space removed.\<close>

definition trim :: "string \<Rightarrow> string" where
  "trim s = rev (dropWhile isWhitespace (rev (dropWhile isWhitespace s)))"

text \<open>
  The upper-case mapping of one code unit below 256, as the code units of the result:
  a to z and the accented letters U+00E0 to U+00FE (but not the division sign U+00F7)
  move down by 32, the sharp s U+00DF becomes "SS", and the micro sign U+00B5 and the
  y with diaeresis U+00FF have their capitals U+039C and U+0178 outside the range.
\<close>

definition upperChar :: "char \<Rightarrow> nat list" where
  "upperChar c =
     (let n = (of_char c :: nat)
      in if 97 \<le> n \<and> n \<le> 122 then [n - 32]
         else if n = 181 then [924]
         else if n = 223 then [83, 83]
         else if 224 \<le> n \<and> n \<le> 254 \<and> n \<noteq> 247 then [n - 32]
         else if n = 255 then [376]
         else [n])"

text \<open>\<open>s.toUpperCase()\<close>, as the list of the code units of the result.\<close>

definition toUpperCase :: "string \<Rightarrow> nat list" where
  "toUpperCase s = concat (map upperChar s)"

text \<open>\<open>s.includes(sub)\<close>\<close>

fun includesStr :: "string \<Rightarrow> string \<Rightarrow> bool" where
  "includesStr [] sub = (sub = [])"
| "includesStr (c # cs) sub = (take (length sub) (c # cs) = sub \<or> includesStr cs sub)"

text \<open>\<open>s.split(' ')[0]\<close>: the text before the first space.\<close>

definition firstWord :: "string \<Rightarrow> string" where
  "firstWord s = takeWhile (\<lambda>c. c \<noteq> CHR '' '') s"

text \<open>JavaScript truthiness of a \<open>string | null\<close>: \<open>null\<close> and the empty string are falsy.\<close>

definition truthyString :: "string option \<Rightarrow> bool" where
  "truthyString s = (case s of None \<Rightarrow> False | Some v \<Rightarrow> v \<noteq> [])"

subsection \<open>Alarm library\<close>

datatype AlarmLevel = Warning | Critical

record AlarmDefinition =
  def_id :: string
  def_message :: string
  def_level :: AlarmLevel

record AttentionAlarm =
  alarm_id :: string
  alarm_message :: string
  alarm_level :: AlarmLevel
  triggeredAt :: int

definition BASE_NODDING_MESSAGES :: "string list" where
  "BASE_NODDING_MESSAGES =
     [''Time to stretch your neck'',
      ''Give your eyes a quick reset'',
      ''Take a deep breath and refocus'',
      ''Roll your shoulders back'',
      ''Straighten posture and re-engage'',
      ''Blink hard three times'',
      ''Sip some water now'',
      ''Shift your gaze to the horizon'',
      ''Stand up for a brief walk'',
      ''Adjust your seat position'']"

definition BASE_SLEEPING_MESSAGES :: "string list" where
  "BASE_SLEEPING_MESSAGES =
     [''Wake up immediately'',
      ''Stand up and move now'',
      ''Splash water on your face'',
      ''Take a 10-minute break'',
      ''Call a friend for a reset'',
      ''Do a quick physical check-in'',
      ''Walk around the room'',
      ''Step outside for fresh air'',
      ''Play energizing music'',
      ''Review your task list aloud'']"

text \<open>The two loops of \<open>createAlarmLibrary\<close>, \<open>for (let i = 0; i < 40; i++)\<close>.\<close>

definition noddingDefinition :: "nat \<Rightarrow> AlarmDefinition" where
  "noddingDefinition i =
     \<lparr>def_id = ''nodding-'' @ string_of_nat (i + 1),
      def_message = ''Nodding Alarm '' @ padStart 2 (string_of_nat (i + 1)) @ '': ''
         @ BASE_NODDING_MESSAGES ! (i mod length BASE_NODDING_MESSAGES)
         @ '' ('' @ string_of_nat (i + 1) @ '')'',
      def_level = Warning\<rparr>"

definition sleepingDefinition :: "nat \<Rightarrow> AlarmDefinition" where
  "sleepingDefinition i =
     \<lparr>def_id = ''sleeping-'' @ string_of_nat (i + 1),
      def_message = ''Sleep Alarm '' @ padStart 2 (string_of_nat (i + 1)) @ '': ''
         @ BASE_SLEEPING_MESSAGES ! (i mod length BASE_SLEEPING_MESSAGES)
         @ '' ('' @ string_of_nat (i + 1) @ '')'',
      def_level = Critical\<rparr>"

definition ALARM_LIBRARY_nodding :: "AlarmDefinition list" where
  "ALARM_LIBRARY_nodding = map noddingDefinition [0..<40]"

definition ALARM_LIBRARY_sleeping :: "AlarmDefinition list" where
  "ALARM_LIBRARY_sleeping = map sleepingDefinition [0..<40]"

datatype AlarmTier = NoddingTier | SleepingTier

subsection \<open>Challenges\<close>

datatype ChallengeType = Phrase | Math | Trivia

record Challenge =
  ch_type :: ChallengeType
  ch_phrase :: "string option"
  ch_prompt :: "string option"
  ch_answer :: "string option"

text \<open>
  The outcomes of the calls of \<open>Math.random()\<close> that one frame can make. An index field
  stands for \<open>Math.floor(Math.random() * n)\<close>, which ranges over \<open>0..n-1\<close>; it is reduced
  modulo \<open>n\<close> where it is used, so that every value of the field stands for a value in
  that range. \<open>rndCoin\<close> is \<open>Math.random() < 0.5\<close>. \<open>rndPhrase\<close> is the string returned by
  \<open>generateAlarmPhrase()\<close>, which draws words until it has four distinct indices.
\<close>

record Rnd =
  rndTypeIdx :: nat
  rndCoin :: bool
  rndA :: nat
  rndB :: nat
  rndC :: nat
  rndTriviaIdx :: nat
  rndPhrase :: string

text \<open>
  \<open>a = floor(10 + random * 90)\<close>, \<open>b = floor(10 + random * 90)\<close>, \<open>c = floor(1 + random * 9)\<close>;
  \<open>a + b - c\<close> is at least 11.
\<close>

definition generateMathChallenge :: "Rnd \<Rightarrow> string \<times> string" where
  "generateMathChallenge rnd =
     (let a = 10 + rndA rnd mod 90; b = 10 + rndB rnd mod 90; c = 1 + rndC rnd mod 9;
          result = a + b - c
      in (''Solve: '' @ string_of_nat a @ '' + '' @ string_of_nat b @ '' - '' @ string_of_nat c
            @ '' = ?'',
          string_of_nat result))"

definition TRIVIA_BANK :: "(string \<times> string) list" where
  "TRIVIA_BANK =
     [(''Spell the day that follows Tuesday.'', ''WEDNESDAY''),
      (''Type the word 'SUNRISE' backwards.'', ''ESIRNUS''),
      (''What planet is known as the Red Planet?'', ''MARS''),
      (''What is the capital city of France?'', ''PARIS''),
      (''Spell the chemical symbol for water.'', ''H2O''),
      (''Type the first three letters of the alphabet in reverse order.'', ''CBA''),
      (''What animal says 'moo'?'', ''COW''),
      (''Spell the word 'energy' in lowercase letters.'', ''energy'')]"

definition generateTriviaChallenge :: "Rnd \<Rightarrow> string \<times> string" where
  "generateTriviaChallenge rnd = TRIVIA_BANK ! (rndTriviaIdx rnd mod length TRIVIA_BANK)"

definition createChallenge :: "ChallengeType option \<Rightarrow> Rnd \<Rightarrow> Challenge" where
  "createChallenge preferred rnd =
     (let types = [Phrase, Math, Trivia];
          chosen = (case preferred of Some t \<Rightarrow> t | None \<Rightarrow> types ! (rndTypeIdx rnd mod length types))
      in if chosen = Math then
           (let math = generateMathChallenge rnd
            in \<lparr>ch_type = Math, ch_phrase = None, ch_prompt = Some (fst math),
                 ch_answer = Some (snd math)\<rparr>)
         else if chosen = Trivia then
           (let trivia = generateTriviaChallenge rnd
            in \<lparr>ch_type = Trivia, ch_phrase = None, ch_prompt = Some (fst trivia),
                 ch_answer = Some (snd trivia)\<rparr>)
         else \<lparr>ch_type = Phrase, ch_phrase = Some (rndPhrase rnd), ch_prompt = None,
                ch_answer = None\<rparr>)"

subsection \<open>Voice warnings\<close>

datatype Priority = Low | Medium | High

record VoiceWarning =
  vw_message :: string
  vw_priority :: Priority

text \<open>
  \<open>getWarningForState(metrics)\<close> as \<open>handleLandmarks\<close> calls it: \<open>metrics.landmarks\<close> is the
  detected face of this frame, which is not \<open>null\<close> on that path, so the first test
  (\<open>landmarks === null && isPresent === false\<close>) is false. The posture fields are
  \<open>undefined\<close> when there is no posture reading, and \<open>undefined\<close> is falsy and equal to no
  direction.
\<close>

definition getWarningForState ::
  "real \<Rightarrow> NodState \<Rightarrow> bool \<Rightarrow> PostureState option \<Rightarrow> bool \<Rightarrow> nat \<Rightarrow> bool \<Rightarrow> VoiceWarning option" where
  "getWarningForState closedSec ns tilted posture yawning yawns lookingAway =
     (let slouched = (case posture of None \<Rightarrow> False | Some p \<Rightarrow> isSlouched p);
          leaning = (case posture of None \<Rightarrow> False | Some p \<Rightarrow> isLeaning p);
          direction = (case posture of None \<Rightarrow> None | Some p \<Rightarrow> Some (leanDirection p))
      in if 2 < closedSec then Some \<lparr>vw_message = ''Please open your eyes.'', vw_priority = High\<rparr>
         else if 1 < closedSec then
           Some \<lparr>vw_message = ''Your eyes are closing. Stay alert.'', vw_priority = Medium\<rparr>
         else if isForwardNodding ns then
           Some \<lparr>vw_message = ''Please keep your head up.'', vw_priority = High\<rparr>
         else if slouched then
           (if direction = Some Forward then
              Some \<lparr>vw_message = ''You're slouching forward. Sit back.'', vw_priority = Medium\<rparr>
            else Some \<lparr>vw_message = ''Please correct your posture.'', vw_priority = Medium\<rparr>)
         else if leaning \<and> direction = Some Forward then
           Some \<lparr>vw_message = ''You're leaning too far forward.'', vw_priority = Medium\<rparr>
         else if leaning \<and> direction = Some Backward then
           Some \<lparr>vw_message = ''Please sit upright.'', vw_priority = Medium\<rparr>
         else if isBackwardTilting ns then
           Some \<lparr>vw_message = ''Sit up straight.'', vw_priority = Medium\<rparr>
         else if tilted then Some \<lparr>vw_message = ''Straighten your head.'', vw_priority = Low\<rparr>
         else if 3 \<le> yawns then
           Some \<lparr>vw_message = ''You seem tired. Consider taking a break.'', vw_priority = Low\<rparr>
         else if yawning then
           Some \<lparr>vw_message = ''Take a deep breath and refocus.'', vw_priority = Low\<rparr>
         else if lookingAway then
           Some \<lparr>vw_message = ''Keep your focus on the screen.'', vw_priority = Low\<rparr>
         else None)"

subsection \<open>State of one detector instance\<close>

record AttentionSnapshot =
  snap_t :: int
  snap_state :: AttentionState
  snap_confidence :: real
  snap_ear :: real
  snap_eyesClosedSec :: real
  snap_headPitchDeg :: real

text \<open>Calls of the fire-and-forget effectors, in the order they are made.\<close>

datatype Effect =
    PlayDrowsinessAlert bool
  | SpeakWarning string Priority
  | CancelVoiceWarning
  | PushAttention AttentionSnapshot

text \<open>The smoothing trackers \<open>GazeTracker\<close> and \<open>FaceDistanceTracker\<close>.\<close>

record GazeTracker =
  gz_gazeHistory :: "real list"
  gz_lookAwayStartTime :: "int option"
  gz_lookAwayDurationMs :: int

record FaceDistanceTracker =
  fd_widthHistory :: "real list"
  fd_warningStartTime :: "int option"
  fd_warningDurationMs :: int

text \<open>
  The React state and the refs of \<open>useAttentionDetector\<close> that its logic reads or writes.
  A state value and the ref that mirrors it (\<open>activeAlarms\<close> and \<open>activeAlarmsRef\<close>,
  \<open>requireAlarmAck\<close> and \<open>requireAckRef\<close>, \<open>alarmPhrase\<close> and \<open>alarmPhraseRef\<close>,
  \<open>challengeType\<close> and \<open>challengeTypeRef\<close>, \<open>calibrationProgress\<close> and
  \<open>calibrationProgressRef\<close>) are always written together and are one field. The metrics
  that are only displayed, and the queue that batches their updates, are left out.
\<close>

record Detector =
  state :: AttentionState
  confidence :: real
  eyesClosedSec :: "real option"
  baselines :: "CalibrationBaselines option"
  isCalibrating :: bool
  calibrationProgress :: real
  calibration :: CalibrationAccumulator
  activeAlarms :: "AttentionAlarm list"
  alarmPhrase :: "string option"
  requireAck :: bool
  challengePrompt :: "string option"
  challengeType :: ChallengeType
  challengeAnswer :: "string option"
  absentCountdown :: "real option"
  isAbsenceAlarmArmed :: bool
  absentStartTime :: "int option"
  activeWarning :: "string option"
  warningStartTime :: "int option"
  latestState :: AttentionState
  lastAlarmState :: AttentionState
  missingFaceFrames :: nat
  closedFramesRef :: nat
  lastEmitTime :: int
  alarmCursorNodding :: nat
  alarmCursorSleeping :: nat
  headNodDetector :: HeadNodDetector
  yawnDetector :: YawnDetector
  gazeTracker :: GazeTracker
  faceDistanceTracker :: FaceDistanceTracker
  latestPostureState :: "PostureState option"
  effects :: "Effect list"

definition emit :: "Effect \<Rightarrow> Detector \<Rightarrow> Detector" where
  "emit e s = s\<lparr>effects := effects s @ [e]\<rparr>"

definition emptyCalibration :: CalibrationAccumulator where
  "emptyCalibration = \<lparr>collecting = False, startTimestamp = None, pitchSamples = [],
     earSamples = [], tiltSamples = [], faceWidthSamples = []\<rparr>"

definition newGazeTracker :: GazeTracker where
  "newGazeTracker = \<lparr>gz_gazeHistory = [], gz_lookAwayStartTime = None, gz_lookAwayDurationMs = 0\<rparr>"

definition newFaceDistanceTracker :: FaceDistanceTracker where
  "newFaceDistanceTracker = \<lparr>fd_widthHistory = [], fd_warningStartTime = None,
     fd_warningDurationMs = 0\<rparr>"

text \<open>The initial values of the \<open>useState\<close> and \<open>useRef\<close> calls.\<close>

definition initialDetector :: Detector where
  "initialDetector =
     \<lparr>state = Awake, confidence = 0, eyesClosedSec = None, baselines = None,
      isCalibrating = False, calibrationProgress = 0, calibration = emptyCalibration,
      activeAlarms = [], alarmPhrase = None, requireAck = False, challengePrompt = None,
      challengeType = Phrase, challengeAnswer = None, absentCountdown = None,
      isAbsenceAlarmArmed = True, absentStartTime = None, activeWarning = None,
      warningStartTime = None, latestState = Awake, lastAlarmState = Awake,
      missingFaceFrames = 0, closedFramesRef = 0, lastEmitTime = 0, alarmCursorNodding = 0,
      alarmCursorSleeping = 0, headNodDetector = newHeadNodDetector,
      yawnDetector = newYawnDetector, gazeTracker = newGazeTracker,
      faceDistanceTracker = newFaceDistanceTracker, latestPostureState = None, effects = []\<rparr>"

subsection \<open>Alarm and challenge operations\<close>

definition updateActiveAlarms :: "AttentionAlarm list \<Rightarrow> Detector \<Rightarrow> Detector" where
  "updateActiveAlarms alarms s = s\<lparr>activeAlarms := alarms\<rparr>"

definition updateRequireAck :: "bool \<Rightarrow> Detector \<Rightarrow> Detector" where
  "updateRequireAck v s = s\<lparr>requireAck := v\<rparr>"

definition updateAlarmPhrase :: "string option \<Rightarrow> Detector \<Rightarrow> Detector" where
  "updateAlarmPhrase phrase s = s\<lparr>alarmPhrase := phrase\<rparr>"

definition updateChallenge ::
  "ChallengeType \<Rightarrow> string option \<Rightarrow> string option \<Rightarrow> Detector \<Rightarrow> Detector" where
  "updateChallenge type prompt answer s =
     s\<lparr>challengeType := type, challengeAnswer := answer, challengePrompt := prompt\<rparr>"

text \<open>\<open>assignNewChallenge(preferred)\<close>; the returned challenge type is \<open>challengeTypeOf\<close>.\<close>

definition assignNewChallenge :: "ChallengeType option \<Rightarrow> Rnd \<Rightarrow> Detector \<Rightarrow> Detector" where
  "assignNewChallenge preferred rnd s =
     (let challenge = createChallenge preferred rnd
      in if ch_type challenge = Phrase \<and> truthyString (ch_phrase challenge) then
           updateChallenge Phrase None None (updateAlarmPhrase (ch_phrase challenge) s)
         else updateChallenge (ch_type challenge) (ch_prompt challenge) (ch_answer challenge)
                (updateAlarmPhrase None s))"

definition challengeTypeOf :: "ChallengeType option \<Rightarrow> Rnd \<Rightarrow> ChallengeType" where
  "challengeTypeOf preferred rnd = ch_type (createChallenge preferred rnd)"

definition resetAlarmState :: "Detector \<Rightarrow> Detector" where
  "resetAlarmState s =
     updateChallenge Phrase None None
       ((updateRequireAck False (updateAlarmPhrase None (updateActiveAlarms [] s)))
          \<lparr>lastAlarmState := Awake\<rparr>)"

definition disarmAbsenceAlarm :: "Detector \<Rightarrow> Detector" where
  "disarmAbsenceAlarm s =
     s\<lparr>isAbsenceAlarmArmed := False, absentCountdown := None, absentStartTime := None\<rparr>"

text \<open>
  \<open>getAlarmBatch(type, count, timestamp)\<close>: \<open>count\<close> consecutive library entries starting
  at the tier's cursor, wrapping around, stamped with \<open>timestamp\<close>; the cursor advances.
\<close>

definition alarmSource :: "AlarmTier \<Rightarrow> AlarmDefinition list" where
  "alarmSource tier = (if tier = NoddingTier then ALARM_LIBRARY_nodding else ALARM_LIBRARY_sleeping)"

definition alarmCursor :: "AlarmTier \<Rightarrow> Detector \<Rightarrow> nat" where
  "alarmCursor tier s = (case tier of NoddingTier \<Rightarrow> alarmCursorNodding s
                                     | SleepingTier \<Rightarrow> alarmCursorSleeping s)"

definition setAlarmCursor :: "AlarmTier \<Rightarrow> nat \<Rightarrow> Detector \<Rightarrow> Detector" where
  "setAlarmCursor tier v s = (case tier of NoddingTier \<Rightarrow> s\<lparr>alarmCursorNodding := v\<rparr>
                                          | SleepingTier \<Rightarrow> s\<lparr>alarmCursorSleeping := v\<rparr>)"

definition alarmBatchFrom :: "AlarmDefinition list \<Rightarrow> nat \<Rightarrow> nat \<Rightarrow> int \<Rightarrow> AttentionAlarm list" where
  "alarmBatchFrom source cursor count timestamp =
     map (\<lambda>i. let def = source ! ((cursor + i) mod length source)
               in \<lparr>alarm_id = def_id def, alarm_message = def_message def,
                    alarm_level = def_level def, triggeredAt = timestamp\<rparr>)
         [0..<count]"

definition getAlarmBatch :: "AlarmTier \<Rightarrow> nat \<Rightarrow> int \<Rightarrow> Detector \<Rightarrow> AttentionAlarm list \<times> Detector" where
  "getAlarmBatch tier count timestamp s =
     (let source = alarmSource tier; cursor = alarmCursor tier s
      in (alarmBatchFrom source cursor count timestamp,
          setAlarmCursor tier ((cursor + count) mod length source) s))"

text \<open>The frequent sequence \<open>updateActiveAlarms(getAlarmBatch(tier, count, now))\<close>.\<close>

definition raiseAlarmBatch :: "AlarmTier \<Rightarrow> nat \<Rightarrow> int \<Rightarrow> Detector \<Rightarrow> Detector" where
  "raiseAlarmBatch tier count now s =
     (let r = getAlarmBatch tier count now s in updateActiveAlarms (fst r) (snd r))"

text \<open>\<open>silenceAlarm(input)\<close>: the returned boolean and the state afterwards.\<close>

definition silenceAlarm :: "string \<Rightarrow> Detector \<Rightarrow> bool \<times> Detector" where
  "silenceAlarm input s =
     (if \<not> requireAck s then (True, resetAlarmState s)
      else if latestState s \<noteq> Awake then (False, s)
      else if challengeType s = Phrase then
        (if \<not> truthyString (alarmPhrase s) \<or> Some input \<noteq> alarmPhrase s then (False, s)
         else (True, resetAlarmState s))
      else if challengeType s = Math then
        (if \<not> truthyString (challengeAnswer s) \<or> Some (trim input) \<noteq> challengeAnswer s
         then (False, s)
         else (True, resetAlarmState s))
      else
        (if \<not> truthyString (challengeAnswer s)
            \<or> Some (toUpperCase (trim input)) \<noteq> map_option toUpperCase (challengeAnswer s)
         then (False, s)
         else (True, resetAlarmState s)))"

text \<open>\<open>triggerDebugAlarm(preferred)\<close>, with \<open>Date.now()\<close> passed as \<open>now\<close>.\<close>

definition triggerDebugAlarm :: "ChallengeType option \<Rightarrow> int \<Rightarrow> Rnd \<Rightarrow> Detector \<Rightarrow> Detector" where
  "triggerDebugAlarm preferred now rnd s =
     (let s1 = assignNewChallenge preferred rnd (resetAlarmState s);
          chosenType = challengeTypeOf preferred rnd;
          treatAsSleeping = (chosenType \<noteq> Phrase);
          s2 = raiseAlarmBatch (if treatAsSleeping then SleepingTier else NoddingTier)
                 (if treatAsSleeping then 5 else 4) now s1;
          s3 = updateRequireAck True s2;
          forcedState = (if treatAsSleeping then Sleeping else NoddingOff)
      in s3\<lparr>latestState := forcedState, lastAlarmState := forcedState, state := forcedState,
            confidence := (if treatAsSleeping then 0.99 else 0.95)\<rparr>)"

subsection \<open>Gaze and face-distance trackers\<close>

record GazeState =
  gs_horizontalGaze :: real
  gs_isLookingAway :: bool
  gs_lookAwayDuration :: real

text \<open>\<open>GazeTracker.update(horizontalGaze)\<close>, with \<open>Date.now()\<close> passed as \<open>now\<close>.\<close>

definition gazeUpdate :: "real \<Rightarrow> int \<Rightarrow> GazeTracker \<Rightarrow> GazeTracker \<times> GazeState" where
  "gazeUpdate horizontalGaze now this =
     (let history = pushBounded 10 horizontalGaze (gz_gazeHistory this);
          avgGaze = meanOf history;
          lookingAway = (0.4 < \<bar>avgGaze\<bar>);
          start = (if lookingAway
                   then (case gz_lookAwayStartTime this of None \<Rightarrow> Some now | Some t \<Rightarrow> Some t)
                   else None);
          durationMs = (case start of None \<Rightarrow> 0 | Some t \<Rightarrow> now - t)
      in (\<lparr>gz_gazeHistory = history, gz_lookAwayStartTime = start,
            gz_lookAwayDurationMs = durationMs\<rparr>,
          \<lparr>gs_horizontalGaze = avgGaze, gs_isLookingAway = lookingAway,
            gs_lookAwayDuration = real_of_int durationMs / 1000\<rparr>))"

record DistanceState =
  ds_faceWidth :: real
  ds_isTooClose :: bool
  ds_isTooFar :: bool
  ds_distanceWarningDuration :: real

text \<open>\<open>FaceDistanceTracker.update(faceWidth)\<close>, with \<open>Date.now()\<close> passed as \<open>now\<close>.\<close>

definition faceDistanceUpdate ::
  "real \<Rightarrow> int \<Rightarrow> FaceDistanceTracker \<Rightarrow> FaceDistanceTracker \<times> DistanceState" where
  "faceDistanceUpdate width now this =
     (let history = pushBounded 10 width (fd_widthHistory this);
          avgWidth = meanOf history;
          tooClose = (0.35 < avgWidth);
          tooFar = (avgWidth < 0.15);
          start = (if tooClose \<or> tooFar
                   then (case fd_warningStartTime this of None \<Rightarrow> Some now | Some t \<Rightarrow> Some t)
                   else None);
          durationMs = (case start of None \<Rightarrow> 0 | Some t \<Rightarrow> now - t)
      in (\<lparr>fd_widthHistory = history, fd_warningStartTime = start,
            fd_warningDurationMs = durationMs\<rparr>,
          \<lparr>ds_faceWidth = avgWidth, ds_isTooClose = tooClose, ds_isTooFar = tooFar,
            ds_distanceWarningDuration = real_of_int durationMs / 1000\<rparr>))"

definition isDrowsyDistance :: "real \<Rightarrow> bool" where
  "isDrowsyDistance warningDuration = (5 < warningDuration)"

definition isHeadTilted :: "real \<Rightarrow> real \<Rightarrow> bool" where
  "isHeadTilted tiltAngle threshold = (threshold < \<bar>tiltAngle\<bar>)"

subsection \<open>One landmark frame\<close>

text \<open>
  What the feature extractors compute from the detected face of one frame
  (\<open>computeAverageEAR\<close>, \<open>computeHeadTilt\<close>, \<open>computeHeadPitch\<close>, \<open>computeFaceWidth\<close>,
  \<open>computeMAR\<close>, \<open>computeHorizontalGaze\<close>).
\<close>

record FaceFrame =
  currentEar :: real
  tiltAngleRaw :: real
  pitchAngleRaw :: real
  currentFaceWidth :: real
  currentMAR :: real
  horizontalGaze :: real

text \<open>
  The callback \<open>handleLandmarks\<close> is a closure: it is created again only when \<open>isActive\<close>,
  \<open>baselines\<close> or \<open>isAbsenceAlarmArmed\<close> change, so it reads those values as of the
  beginning of the frame, while the React state values \<open>landmarks\<close> and \<open>activeWarning\<close>
  it reads are the ones captured when it was created. The captured values are inputs of
  the frame.
\<close>

record Captured =
  capturedLandmarksNonNull :: bool
  capturedActiveWarning :: "string option"

text \<open>Lines 699 to 719: the absence countdown. The boolean tells whether it raised the alarm.\<close>

definition absenceCountdown :: "int \<Rightarrow> Rnd \<Rightarrow> Detector \<Rightarrow> bool \<times> Detector" where
  "absenceCountdown now rnd s =
     (if isAbsenceAlarmArmed s then
        (let start = (case absentStartTime s of None \<Rightarrow> now | Some t \<Rightarrow> t);
             absentDuration = real_of_int (now - start) / 1000;
             s1 = s\<lparr>absentStartTime := Some start,
                    absentCountdown := Some (max 0 (5 - absentDuration))\<rparr>
         in if 5 \<le> absentDuration \<and> \<not> requireAck s1 then
              (True,
               (updateRequireAck True
                  (assignNewChallenge (Some (if rndCoin rnd then Math else Trivia)) rnd
                     (emit (PlayDrowsinessAlert True) (raiseAlarmBatch SleepingTier 5 now s1))))
                 \<lparr>lastAlarmState := Sleeping, state := Sleeping, confidence := 0.99\<rparr>)
            else (False, s1))
      else (False, s))"

text \<open>Lines 721 to 737: a missing face while calibrating restarts the collection.\<close>

definition restartCalibration :: "Detector \<Rightarrow> Detector" where
  "restartCalibration s =
     (let s1 = s\<lparr>calibration := (calibration s)\<lparr>startTimestamp := None, pitchSamples := [],
                    earSamples := [], tiltSamples := [], faceWidthSamples := []\<rparr>,
                  calibrationProgress := 0, state := Awake, confidence := 0.2\<rparr>;
          s2 = (if \<not> requireAck s1 then resetAlarmState s1 else s1)
      in s2\<lparr>absentStartTime := None, absentCountdown := None\<rparr>)"

text \<open>
  Lines 739 to 785: without a face the missing-frame count stands in for the closed-eye
  duration and is compared with the 3.5 s and 5 s thresholds directly.
\<close>

definition classifyMissingFace :: "real \<Rightarrow> int \<Rightarrow> Rnd \<Rightarrow> Detector \<Rightarrow> Detector" where
  "classifyMissingFace missingSec now rnd s =
     (let shouldSleep = (EYES_CLOSED_SLEEP_SEC \<le> missingSec);
          shouldNod = (\<not> shouldSleep \<and> EYES_CLOSED_NOD_SEC \<le> missingSec)
      in if shouldSleep then
           (let s1 = s\<lparr>latestState := Sleeping\<rparr>;
                s2 = (if \<not> requireAck s1 \<or> lastAlarmState s1 \<noteq> Sleeping then
                        (let a = emit (PlayDrowsinessAlert True) (raiseAlarmBatch SleepingTier 5 now s1);
                             b = (if \<not> requireAck a
                                  then assignNewChallenge (Some (if rndCoin rnd then Math else Trivia)) rnd a
                                  else assignNewChallenge (Some Math) rnd a)
                         in (updateRequireAck True b)\<lparr>lastAlarmState := Sleeping\<rparr>)
                      else if requireAck s1 \<and> length (activeAlarms s1) = 0 then
                        emit (PlayDrowsinessAlert True) (raiseAlarmBatch SleepingTier 5 now s1)
                      else s1)
            in s2\<lparr>state := Sleeping, confidence := 0.98\<rparr>)
         else if shouldNod then
           (let s1 = s\<lparr>latestState := NoddingOff\<rparr>;
                s2 = (if \<not> requireAck s1 \<or> lastAlarmState s1 \<noteq> NoddingOff then
                        (let a = emit (PlayDrowsinessAlert False) (raiseAlarmBatch NoddingTier 4 now s1);
                             b = (if \<not> requireAck a then assignNewChallenge None rnd a else a)
                         in (updateRequireAck True b)\<lparr>lastAlarmState := NoddingOff\<rparr>)
                      else if requireAck s1 \<and> length (activeAlarms s1) = 0 then
                        emit (PlayDrowsinessAlert False) (raiseAlarmBatch NoddingTier 4 now s1)
                      else s1)
            in s2\<lparr>state := NoddingOff, confidence := 0.94\<rparr>)
         else
           (let s1 = s\<lparr>latestState := Awake, state := Awake, confidence := 0.25\<rparr>
            in if \<not> requireAck s1 then resetAlarmState s1 else s1))"

text \<open>The branch \<open>if (!detectedLandmarks) { ... return; }\<close> of \<open>handleLandmarks\<close>.\<close>

definition handleMissingFace :: "int \<Rightarrow> Rnd \<Rightarrow> Detector \<Rightarrow> Detector" where
  "handleMissingFace now rnd s =
     (let s1 = s\<lparr>missingFaceFrames := missingFaceFrames s + 1\<rparr>;
          missingSec = real (missingFaceFrames s1) / FPS;
          s2 = s1\<lparr>eyesClosedSec := Some missingSec\<rparr>;
          r = absenceCountdown now rnd s2
      in if fst r then snd r
         else if collecting (calibration (snd r)) then restartCalibration (snd r)
         else classifyMissingFace missingSec now rnd (snd r))"

text \<open>
  Lines 811 to 874: one calibration sample. The boolean tells whether calibration has
  completed in this frame, so that the frame goes on to the classification; otherwise the
  frame ends in the neutral state. (At completion the source also hands the current
  posture reading to \<open>PostureTracker.setBaseline\<close>; the posture tracker's own state is not
  part of this model, its readings arrive through \<open>handlePose\<close>.)
\<close>

definition collectCalibrationSample :: "FaceFrame \<Rightarrow> int \<Rightarrow> Detector \<Rightarrow> bool \<times> Detector" where
  "collectCalibrationSample f now s =
     (let cal0 = calibration s;
          start = (case startTimestamp cal0 of None \<Rightarrow> now | Some t \<Rightarrow> t);
          cal1 = cal0\<lparr>startTimestamp := Some start,
                     pitchSamples := pitchSamples cal0 @ [pitchAngleRaw f],
                     earSamples := earSamples cal0 @ [currentEar f],
                     tiltSamples := tiltSamples cal0 @ [tiltAngleRaw f],
                     faceWidthSamples := faceWidthSamples cal0 @ [currentFaceWidth f]\<rparr>;
          elapsed = now - start;
          progress = min 1 (real_of_int elapsed / real_of_int CALIBRATION_DURATION_MS);
          s1 = s\<lparr>calibration := cal1\<rparr>;
          s2 = (if 0.05 \<le> progress - calibrationProgress s1 \<or> progress = 1
                then s1\<lparr>calibrationProgress := progress\<rparr> else s1);
          enoughSamples = (MIN_CALIBRATION_FRAMES \<le> length (pitchSamples cal1))
      in if CALIBRATION_DURATION_MS \<le> elapsed \<and> enoughSamples then
           (True,
            s2\<lparr>baselines := Some \<lparr>pitch = median (pitchSamples cal1),
                                  ear = average (earSamples cal1),
                                  tilt = average (tiltSamples cal1),
                                  faceWidth = average (faceWidthSamples cal1)\<rparr>,
               calibration := cal1\<lparr>collecting := False\<rparr>,
               isCalibrating := False,
               calibrationProgress := 1\<rparr>)
         else
           (let s3 = s2\<lparr>state := Awake, confidence := 0.15\<rparr>
            in (False, if \<not> requireAck s3 then updateActiveAlarms [] s3 else s3)))"

text \<open>Lines 1169 to 1235: escalation while the fused state is a risk state.\<close>

definition escalateRisk ::
  "AttentionState \<Rightarrow> VoiceWarning option \<Rightarrow> int \<Rightarrow> Captured \<Rightarrow> Rnd \<Rightarrow> Detector \<Rightarrow> Detector" where
  "escalateRisk best warning now cap rnd s =
     (let isSleeping = (best = Sleeping);
          tier = (if isSleeping then SleepingTier else NoddingTier);
          count = (if isSleeping then 5 else 4)
      in case warning of
           Some w \<Rightarrow>
             if \<not> requireAck s then
               (let captured = capturedActiveWarning cap;
                    isNewWarningCategory =
                      (\<not> truthyTime (warningStartTime s) \<or>
                       (truthyString captured
                        \<and> \<not> includesStr (vw_message w) (firstWord (the captured))
                        \<and> \<not> includesStr (the captured) (firstWord (vw_message w))));
                    s1 = (if isNewWarningCategory then
                            (emit (SpeakWarning (vw_message w) (vw_priority w)) s)
                              \<lparr>activeWarning := Some (vw_message w), warningStartTime := Some now\<rparr>
                          else if captured \<noteq> Some (vw_message w) then
                            (emit (SpeakWarning (vw_message w) (vw_priority w)) s)
                              \<lparr>activeWarning := Some (vw_message w)\<rparr>
                          else s)
                in if truthyTime (warningStartTime s1) \<and> 5000 \<le> now - the (warningStartTime s1) then
                     (let enteringAlarm = (\<not> requireAck s1 \<or> lastAlarmState s1 \<noteq> best)
                      in if enteringAlarm then
                           (updateRequireAck True
                              (assignNewChallenge
                                 (if isSleeping then Some (if rndCoin rnd then Math else Trivia) else None)
                                 rnd
                                 (emit (PlayDrowsinessAlert isSleeping) (raiseAlarmBatch tier count now s1))))
                             \<lparr>lastAlarmState := best\<rparr>
                         else s1)
                   else s1)
             else
               (let enteringAlarm = (lastAlarmState s \<noteq> best)
                in if enteringAlarm \<and> isSleeping \<and> lastAlarmState s \<noteq> Sleeping then
                     (updateRequireAck True
                        (assignNewChallenge (Some (if rndCoin rnd then Math else Trivia)) rnd
                           (emit (PlayDrowsinessAlert True) (raiseAlarmBatch SleepingTier 5 now s))))
                       \<lparr>lastAlarmState := Sleeping\<rparr>
                   else if length (activeAlarms s) = 0 then
                     emit (PlayDrowsinessAlert isSleeping) (raiseAlarmBatch tier count now s)
                   else s)
         | None \<Rightarrow>
             if requireAck s then
               (let enteringAlarm = (lastAlarmState s \<noteq> best)
                in if enteringAlarm \<and> isSleeping \<and> lastAlarmState s \<noteq> Sleeping then
                     (updateRequireAck True
                        (assignNewChallenge (Some (if rndCoin rnd then Math else Trivia)) rnd
                           (emit (PlayDrowsinessAlert True) (raiseAlarmBatch SleepingTier 5 now s))))
                       \<lparr>lastAlarmState := Sleeping\<rparr>
                   else if length (activeAlarms s) = 0 then
                     emit (PlayDrowsinessAlert isSleeping) (raiseAlarmBatch tier count now s)
                   else s)
             else s)"

text \<open>Lines 1237 to 1256: the fused state is awake.\<close>

definition relaxAwake :: "Captured \<Rightarrow> Detector \<Rightarrow> Detector" where
  "relaxAwake cap s =
     (let s1 = (if truthyString (capturedActiveWarning cap)
                then (emit CancelVoiceWarning s)\<lparr>activeWarning := None, warningStartTime := None\<rparr>
                else s);
          s2 = (if \<not> requireAck s1 \<and> 0 < length (activeAlarms s1)
                then (updateActiveAlarms [] s1)\<lparr>lastAlarmState := Awake\<rparr> else s1);
          s3 = (if \<not> requireAck s2 \<and> truthyString (alarmPhrase s2)
                then updateChallenge Phrase None None (updateAlarmPhrase None s2) else s2)
      in if \<not> requireAck s3 then s3\<lparr>lastAlarmState := Awake\<rparr> else s3)"

text \<open>
  \<open>[awake, noddingOff, sleeping].sort((a, b) => b.prob - a.prob)\<close>: a stable sort by
  descending probability.
\<close>

definition rankStates :: "Probabilities \<Rightarrow> (AttentionState \<times> real) list" where
  "rankStates p =
     sort_key (\<lambda>entry. - snd entry)
       [(Awake, awakeProb p), (NoddingOff, noddingProb p), (Sleeping, sleepingProb p)]"

definition confidenceOf :: "(AttentionState \<times> real) list \<Rightarrow> real" where
  "confidenceOf ranked =
     (let best = ranked ! 0; second = ranked ! 1;
          confidenceMargin = snd best - snd second
      in min 0.99 (max 0.05 (snd best + confidenceMargin * 0.5)))"

text \<open>
  Lines 876 to 891: \<open>baselines ?? (!collecting ? {this frame's raw values} : null)\<close>, where
  \<open>closureBaselines\<close> is the value of \<open>baselines\<close> the callback sees.
\<close>

definition activeBaselinesOf ::
  "FaceFrame \<Rightarrow> CalibrationBaselines option \<Rightarrow> Detector \<Rightarrow> CalibrationBaselines option" where
  "activeBaselinesOf f closureBaselines s =
     (case closureBaselines of
        Some b \<Rightarrow> Some b
      | None \<Rightarrow>
          if \<not> collecting (calibration s)
          then Some \<lparr>pitch = pitchAngleRaw f, ear = currentEar f, tilt = tiltAngleRaw f,
                      faceWidth = currentFaceWidth f\<rparr>
          else None)"

text \<open>
  Lines 893 to 1140: everything the frame computes before it touches the alarm state:
  the four tracker updates (each with the tracker's new state and its result), the tilt
  flag, the closed-frame counter, the inputs of the evidence block and the ranking. The
  trackers read \<open>Date.now()\<close> themselves during the same synchronous pass; they are given
  the frame's \<open>now\<close>.
\<close>

record FaceAnalysis =
  fa_nod :: "HeadNodDetector \<times> NodState"
  fa_yawn :: "YawnDetector \<times> YawnState"
  fa_gaze :: "GazeTracker \<times> GazeState"
  fa_dist :: "FaceDistanceTracker \<times> DistanceState"
  fa_tilted :: bool
  fa_closed :: nat
  fa_inputs :: FusionInputs
  fa_ranked :: "(AttentionState \<times> real) list"

definition analyseFace ::
  "FaceFrame \<Rightarrow> int \<Rightarrow> Captured \<Rightarrow> CalibrationBaselines \<Rightarrow> Detector \<Rightarrow> FaceAnalysis" where
  "analyseFace f now cap b s =
     (let effectiveEarThreshold = max (ear b * 0.75) (BASE_EAR_THRESHOLD * 0.75);
          adjustedTilt = tiltAngleRaw f - tilt b;
          tilted = isHeadTilted adjustedTilt HEAD_TILT_THRESHOLD;
          adjustedPitch = pitchAngleRaw f - pitch b;
          nod = headNodUpdate adjustedPitch HEAD_PITCH_THRESHOLD HEAD_PITCH_BACK_THRESHOLD
                  (headNodDetector s);
          yawn = yawnUpdate (currentMAR f) now (yawnDetector s);
          gaze = gazeUpdate (horizontalGaze f) now (gazeTracker s);
          dist = faceDistanceUpdate (currentFaceWidth f) now (faceDistanceTracker s);
          closed = (if currentEar f < effectiveEarThreshold then closedFramesRef s + 1 else 0);
          inputs = \<lparr>closedFrames = closed, nodState = snd nod, isTilted = tilted,
                     currentIsYawning = isYawning (snd yawn),
                     currentYawCount = yawnCount (snd yawn),
                     currentIsLookingAway = gs_isLookingAway (snd gaze),
                     currentLookAwayDuration = gs_lookAwayDuration (snd gaze),
                     isAbnormalDistance = isDrowsyDistance (ds_distanceWarningDuration (snd dist)),
                     postureState = latestPostureState s,
                     landmarksNonNull = capturedLandmarksNonNull cap\<rparr>
      in \<lparr>fa_nod = nod, fa_yawn = yawn, fa_gaze = gaze, fa_dist = dist, fa_tilted = tilted,
          fa_closed = closed, fa_inputs = inputs,
          fa_ranked = rankStates (fusedProbabilities inputs)\<rparr>)"

text \<open>
  Lines 1142 to 1284: the state changes of a classified frame: the trackers and the
  counter are stored, \<open>latestStateRef\<close> is set, the escalation runs, the state and the
  confidence are published, and a snapshot is pushed at most every 300 ms.
\<close>

definition applyAnalysis ::
  "FaceFrame \<Rightarrow> int \<Rightarrow> Captured \<Rightarrow> Rnd \<Rightarrow> FaceAnalysis \<Rightarrow> Detector \<Rightarrow> Detector" where
  "applyAnalysis f now cap rnd a s =
     (let best = fst (fa_ranked a ! 0);
          newConfidence = confidenceOf (fa_ranked a);
          closedSec = closedSecOf (fa_closed a);
          s1 = s\<lparr>headNodDetector := fst (fa_nod a), yawnDetector := fst (fa_yawn a),
                 gazeTracker := fst (fa_gaze a), faceDistanceTracker := fst (fa_dist a),
                 closedFramesRef := fa_closed a, latestState := best\<rparr>;
          s2 = (if best = NoddingOff \<or> best = Sleeping then
                  escalateRisk best
                    (getWarningForState closedSec (snd (fa_nod a)) (fa_tilted a)
                       (latestPostureState s) (isYawning (snd (fa_yawn a)))
                       (yawnCount (snd (fa_yawn a))) (gs_isLookingAway (snd (fa_gaze a))))
                    now cap rnd s1
                else relaxAwake cap s1);
          s3 = s2\<lparr>state := best, confidence := newConfidence\<rparr>
      in if 300 \<le> now - lastEmitTime s3 then
           emit (PushAttention \<lparr>snap_t = now, snap_state = best,
                   snap_confidence = newConfidence, snap_ear = currentEar f,
                   snap_eyesClosedSec = closedSec,
                   snap_headPitchDeg = avgPitch (snd (fa_nod a))\<rparr>)
             (s3\<lparr>lastEmitTime := now\<rparr>)
         else s3)"

text \<open>Lines 876 to 1284: the classification of a frame with a face.\<close>

definition classifyFace ::
  "FaceFrame \<Rightarrow> int \<Rightarrow> Captured \<Rightarrow> Rnd \<Rightarrow> CalibrationBaselines option \<Rightarrow> Detector \<Rightarrow> Detector" where
  "classifyFace f now cap rnd closureBaselines s =
     (case activeBaselinesOf f closureBaselines s of
        None \<Rightarrow> s\<lparr>confidence := 0.2\<rparr>
      | Some b \<Rightarrow> applyAnalysis f now cap rnd (analyseFace f now cap b s) s)"

text \<open>The part of \<open>handleLandmarks\<close> for a detected face.\<close>

definition handleFace :: "FaceFrame \<Rightarrow> int \<Rightarrow> Captured \<Rightarrow> Rnd \<Rightarrow> Detector \<Rightarrow> Detector" where
  "handleFace f now cap rnd s =
     (let s1 = s\<lparr>missingFaceFrames := 0, absentStartTime := None, absentCountdown := None\<rparr>
      in if collecting (calibration s1) then
           (let r = collectCalibrationSample f now s1
            in if fst r then classifyFace f now cap rnd (baselines s) (snd r) else snd r)
         else classifyFace f now cap rnd (baselines s) s1)"

definition handleLandmarks ::
  "FaceFrame option \<Rightarrow> int \<Rightarrow> Captured \<Rightarrow> Rnd \<Rightarrow> Detector \<Rightarrow> Detector" where
  "handleLandmarks detectedLandmarks now cap rnd s =
     (case detectedLandmarks of
        None \<Rightarrow> handleMissingFace now rnd s
      | Some f \<Rightarrow> handleFace f now cap rnd s)"

text \<open>\<open>handlePose\<close> stores the reading that \<open>PostureTracker.update\<close> returned.\<close>

definition handlePose :: "PostureState \<Rightarrow> Detector \<Rightarrow> Detector" where
  "handlePose postureReading s = s\<lparr>latestPostureState := Some postureReading\<rparr>"

text \<open>
  The two effects that run when \<open>isActive\<close> changes (with a video element present): the
  first restarts or clears calibration and the trackers, the second clears the reported
  state when the detector is switched off.
\<close>

definition setActive :: "bool \<Rightarrow> Detector \<Rightarrow> Detector" where
  "setActive active s =
     (if active then
        resetAlarmState
          (s\<lparr>calibration := emptyCalibration\<lparr>collecting := True\<rparr>, calibrationProgress := 0,
             isCalibrating := True, baselines := None, closedFramesRef := 0, lastEmitTime := 0,
             headNodDetector := newHeadNodDetector, yawnDetector := newYawnDetector,
             gazeTracker := newGazeTracker, faceDistanceTracker := newFaceDistanceTracker\<rparr>)
      else
        resetAlarmState
          (s\<lparr>calibration := emptyCalibration, calibrationProgress := 0, isCalibrating := False,
             baselines := None, closedFramesRef := 0, state := Awake, confidence := 0,
             eyesClosedSec := None\<rparr>))"

subsection \<open>Everything that can happen to a detector\<close>

datatype Event =
    LandmarksEvent "FaceFrame option" int Captured Rnd
  | PoseEvent PostureState
  | SilenceAlarmEvent string
  | DisarmAbsenceAlarmEvent
  | TriggerDebugAlarmEvent "ChallengeType option" int Rnd
  | SetActiveEvent bool

fun step :: "Detector \<Rightarrow> Event \<Rightarrow> Detector" where
  "step s (LandmarksEvent detectedLandmarks now cap rnd) = handleLandmarks detectedLandmarks now cap rnd s"
| "step s (PoseEvent postureReading) = handlePose postureReading s"
| "step s (SilenceAlarmEvent input) = snd (silenceAlarm input s)"
| "step s DisarmAbsenceAlarmEvent = disarmAbsenceAlarm s"
| "step s (TriggerDebugAlarmEvent preferred now rnd) = triggerDebugAlarm preferred now rnd s"
| "step s (SetActiveEvent active) = setActive active s"

definition run :: "Event list \<Rightarrow> Detector \<Rightarrow> Detector" where
  "run events s = foldl step s events"

subsection \<open>Notions used to state the properties\<close>

text \<open>A run of consecutive frames without a face, each with its time and its inputs.\<close>

definition missingFrames :: "(int \<times> Captured \<times> Rnd) list \<Rightarrow> Event list" where
  "missingFrames frames = map (\<lambda>(now, cap, rnd). LandmarksEvent None now cap rnd) frames"

text \<open>The absence countdown is switched off and holds no start time.\<close>

definition quiet :: "Detector \<Rightarrow> bool" where
  "quiet s = (\<not> isAbsenceAlarmArmed s \<and> absentStartTime s = None \<and> absentCountdown s = None)"

text \<open>
  While frames without a face keep arriving after calibration, either an acknowledgment
  is outstanding or the countdown still remembers the time \<open>t1\<close> of the first of them.
\<close>

definition awaiting :: "int \<Rightarrow> Detector \<Rightarrow> bool" where
  "awaiting t1 s = (isAbsenceAlarmArmed s \<and> \<not> collecting (calibration s) \<and>
                    (requireAck s \<or> absentStartTime s = Some t1))"

text \<open>
  The inputs of one frame with a face: what the extractors computed, \<open>Date.now()\<close>, the
  captured closure values and the random outcomes. A run of such frames is fed to
  \<open>handleLandmarks\<close> one after the other.
\<close>

type_synonym FrameInput = "FaceFrame \<times> int \<times> Captured \<times> Rnd"

definition faceFrames :: "FrameInput list \<Rightarrow> Event list" where
  "faceFrames frames = map (\<lambda>(f, now, cap, rnd). LandmarksEvent (Some f) now cap rnd) frames"

text \<open>
  The accumulator of a collection that is still running and has taken in exactly the given
  frames: it remembers the time of the first of them and one sample of each kind per frame.
  For no frames this is the accumulator of a collection that has just been started.
\<close>

definition collected :: "FrameInput list \<Rightarrow> CalibrationAccumulator" where
  "collected frames =
     \<lparr>collecting = True,
      startTimestamp = (if frames = [] then None else Some (fst (snd (hd frames)))),
      pitchSamples = map (pitchAngleRaw \<circ> fst) frames,
      earSamples = map (currentEar \<circ> fst) frames,
      tiltSamples = map (tiltAngleRaw \<circ> fst) frames,
      faceWidthSamples = map (currentFaceWidth \<circ> fst) frames\<rparr>"

text \<open>
  The completion criterion in the words of the specification, for the frames collected so
  far: the time elapsed between the first and the latest of them is at least 4000 ms, and
  there are at least 90 of them.
\<close>

definition calibrationDue :: "FrameInput list \<Rightarrow> bool" where
  "calibrationDue frames =
     (frames \<noteq> [] \<and>
      CALIBRATION_DURATION_MS \<le> fst (snd (last frames)) - fst (snd (hd frames)) \<and>
      MIN_CALIBRATION_FRAMES \<le> length frames)"

subsection \<open>Concrete inputs used to exercise the theorems\<close>

definition exampleNod :: NodState where
  "exampleNod = \<lparr>isForwardNodding = False, isBackwardTilting = False, nodCount = 0, avgPitch = 0,
     instantaneousPitch = 0, windowMax = 0, windowMin = 0\<rparr>"

text \<open>A quiet frame: head level, no yawning, looking at the screen, no posture reading yet.\<close>

definition exampleInputs :: FusionInputs where
  "exampleInputs = \<lparr>closedFrames = 0, nodState = exampleNod, isTilted = False,
     currentIsYawning = False, currentYawCount = 0, currentIsLookingAway = False,
     currentLookAwayDuration = 0, isAbnormalDistance = False, postureState = None,
     landmarksNonNull = True\<rparr>"

text \<open>An upright, fully visible body, as \<open>PostureTracker.update\<close> reports it.\<close>

definition uprightPosture :: PostureState where
  "uprightPosture = \<lparr>isPresent = True, isSlouchingNow = False, isSlouched = False,
     slouchDuration = 0, awayDuration = 0, leanAngle = 0, isLeaning = False,
     leanDirection = Neutral, leanDuration = 0, postureVertical = 0.4, bodyPresence = 0.9\<rparr>"

text \<open>The same frame with the head turned, nodding and yawning.\<close>

definition restlessInputs :: FusionInputs where
  "restlessInputs = exampleInputs\<lparr>
     nodState := exampleNod\<lparr>isForwardNodding := True, windowMax := 20\<rparr>,
     isTilted := True, currentIsYawning := True, currentYawCount := 3,
     currentIsLookingAway := True, currentLookAwayDuration := 8\<rparr>"

text \<open>Random outcomes that make the math challenge "20 + 25 - 3" and pick the Paris question.\<close>

definition rnd42 :: Rnd where
  "rnd42 = \<lparr>rndTypeIdx = 0, rndCoin = True, rndA = 10, rndB = 15, rndC = 2, rndTriviaIdx = 3,
     rndPhrase = ''FOCUS-ALERT-ENERGY-WAKE-123''\<rparr>"

definition noCapture :: Captured where
  "noCapture = \<lparr>capturedLandmarksNonNull = False, capturedActiveWarning = None\<rparr>"

text \<open>Two faces: one looking straight at the camera, one slightly turned and lowered.\<close>

definition sampleFrame :: FaceFrame where
  "sampleFrame = \<lparr>currentEar = 0.3, tiltAngleRaw = 1, pitchAngleRaw = 4, currentFaceWidth = 0.25,
     currentMAR = 0.1, horizontalGaze = 0\<rparr>"

definition leaningFrame :: FaceFrame where
  "leaningFrame = \<lparr>currentEar = 0.24, tiltAngleRaw = 4, pitchAngleRaw = 7, currentFaceWidth = 0.31,
     currentMAR = 0.1, horizontalGaze = 0\<rparr>"

text \<open>
  \<open>n\<close> frames with a face, the first at time 1000 and one every \<open>spacing\<close> ms: the first 45
  show the first face, the later ones the second.
\<close>

definition calibrationFrames :: "int \<Rightarrow> nat \<Rightarrow> FrameInput list" where
  "calibrationFrames spacing n =
     map (\<lambda>i. (if i < 45 then sampleFrame else leaningFrame, 1000 + spacing * int i, noCapture, rnd42))
       [0..<n]"

text \<open>The detector is switched on, sees one face, and then loses it for a frame.\<close>

definition interruptedStart :: "Event list" where
  "interruptedStart = [SetActiveEvent True, LandmarksEvent (Some sampleFrame) 900 noCapture rnd42,
     LandmarksEvent None 950 noCapture rnd42]"

text \<open>
  A session: the detector is switched on and calibrates on 90 frames, the last at time 5450.
\<close>

definition calibratedSession :: Detector where
  "calibratedSession = run (SetActiveEvent True # faceFrames (calibrationFrames 50 90)) initialDetector"

text \<open>A slouched body, and a face with the head dropped forward by 18.5 degrees.\<close>

definition slouchedPosture :: PostureState where
  "slouchedPosture = \<lparr>isPresent = True, isSlouchingNow = True, isSlouched = True,
     slouchDuration = 12000, awayDuration = 0, leanAngle = 0, isLeaning = False,
     leanDirection = Neutral, leanDuration = 0, postureVertical = 0.2, bodyPresence = 0.9\<rparr>"

definition noddingFrame :: FaceFrame where
  "noddingFrame = \<lparr>currentEar = 0.3, tiltAngleRaw = 2, pitchAngleRaw = 24, currentFaceWidth = 0.25,
     currentMAR = 0.1, horizontalGaze = 0\<rparr>"

text \<open>
  The session goes on: at time 5500 the user is seen slouched and nodding, which is
  classified as nodding off and starts the voice warning.
\<close>

definition warnedSession :: Detector where
  "warnedSession = run [PoseEvent slouchedPosture,
     LandmarksEvent (Some noddingFrame) 5500 noCapture rnd42] calibratedSession"

text \<open>
  Then the face is gone in the frames at times 6000 and 11000; the second of them is five
  seconds into the absence and raises the absence alarm with a math challenge.
\<close>

definition alarmedSession :: Detector where
  "alarmedSession = run [LandmarksEvent None 6000 noCapture rnd42,
     LandmarksEvent None 11000 noCapture rnd42] warnedSession"

text \<open>
  In the calibrated session an alarm with a trivia or a phrase challenge is raised (with
  the debug trigger), and then one frame without a face records the state awake while the
  acknowledgment is still outstanding.
\<close>

definition triviaAlarmState :: Detector where
  "triviaAlarmState = run [TriggerDebugAlarmEvent (Some Trivia) 6000 rnd42,
                           LandmarksEvent None 6100 noCapture rnd42] calibratedSession"

definition phraseAlarmState :: Detector where
  "phraseAlarmState = run [TriggerDebugAlarmEvent (Some Phrase) 6000 rnd42,
                           LandmarksEvent None 6100 noCapture rnd42] calibratedSession"

section \<open>Verified properties\<close>

subsection \<open>Properties of the evidence fusion\<close>

lemma onlyIf_addSleeping_proj:
  "sleepingEvidence (onlyIf c (addSleeping x) e) = sleepingEvidence e + (if c then x else 0)"
  "noddingEvidence (onlyIf c (addSleeping x) e) = noddingEvidence e"
  "awakeEvidence (onlyIf c (addSleeping x) e) = awakeEvidence e"
  by (simp_all add: onlyIf_def addSleeping_def)

lemma onlyIf_addNodding_proj:
  "sleepingEvidence (onlyIf c (addNodding x) e) = sleepingEvidence e"
  "noddingEvidence (onlyIf c (addNodding x) e) = noddingEvidence e + (if c then x else 0)"
  "awakeEvidence (onlyIf c (addNodding x) e) = awakeEvidence e"
  by (simp_all add: onlyIf_def addNodding_def)

lemma onlyIf_addAwake_proj:
  "sleepingEvidence (onlyIf c (addAwake x) e) = sleepingEvidence e"
  "noddingEvidence (onlyIf c (addAwake x) e) = noddingEvidence e"
  "awakeEvidence (onlyIf c (addAwake x) e) = awakeEvidence e + (if c then x else 0)"
  by (simp_all add: onlyIf_def addAwake_def)

lemma onlyIf_scaleAll_proj:
  "sleepingEvidence (onlyIf c (scaleAll k) e) = sleepingEvidence e * (if c then k else 1)"
  "noddingEvidence (onlyIf c (scaleAll k) e) = noddingEvidence e * (if c then k else 1)"
  "awakeEvidence (onlyIf c (scaleAll k) e) = awakeEvidence e * (if c then k else 1)"
  by (simp_all add: onlyIf_def scaleAll_def)

lemma eyeClosureRule_proj:
  "sleepingEvidence (eyeClosureRule d e) =
     sleepingEvidence e + (if 5 \<le> d then 2 + min ((d - 5) / 2) 1 else 0)"
  "awakeEvidence (eyeClosureRule d e) = awakeEvidence e"
  by (simp_all add: eyeClosureRule_def addSleeping_def addNodding_def)

lemma backwardTiltRule_proj:
  "sleepingEvidence (backwardTiltRule t d e) = sleepingEvidence e + (if t \<and> 4 \<le> d then 0.2 else 0)"
  "awakeEvidence (backwardTiltRule t d e) = awakeEvidence e"
  by (simp_all add: backwardTiltRule_def onlyIf_def addSleeping_def addNodding_def)

lemma lookAwayRule_proj:
  "sleepingEvidence (lookAwayRule a dur e) = sleepingEvidence e"
  "awakeEvidence (lookAwayRule a dur e) = awakeEvidence e + (if a \<and> 5 < dur then 0 else 0.05)"
  by (simp_all add: lookAwayRule_def addAwake_def addNodding_def)

lemma awakeEyeRule_proj:
  "sleepingEvidence (awakeEyeRule d e) = sleepingEvidence e"
  "awakeEvidence (awakeEyeRule d e) =
     (if d < 1 then awakeEvidence e + 0.3 else if d < 2 then awakeEvidence e + 0.05 else 0)"
  by (simp_all add: awakeEyeRule_def addAwake_def setAwake_def)

lemma slouchRule_proj:
  "sleepingEvidence (slouchRule p e) = sleepingEvidence e"
  "awakeEvidence (slouchRule p e) = awakeEvidence e"
  by (simp_all add: slouchRule_def addNodding_def)

lemmas rule_projs = onlyIf_addSleeping_proj onlyIf_addNodding_proj onlyIf_addAwake_proj
  onlyIf_scaleAll_proj eyeClosureRule_proj backwardTiltRule_proj lookAwayRule_proj
  awakeEyeRule_proj slouchRule_proj

lemma sleeping_face:
  "sleepingEvidence (runRules (faceRules i) initialEvidence) =
     (if 5 \<le> closedSecOf (closedFrames i) then 2 + min ((closedSecOf (closedFrames i) - 5) / 2) 1 else 0)
     + (if isBackwardTilting (nodState i) \<and> 4 \<le> closedSecOf (closedFrames i) then 0.2 else 0)"
  by (simp add: faceRules_def runRules_def Let_def rule_projs initialEvidence_def)


lemma closedSecOf_mono: "n \<le> m \<Longrightarrow> closedSecOf n \<le> closedSecOf m"
  by (simp add: closedSecOf_def divide_right_mono)

lemma closedSecOf_nonneg: "0 \<le> closedSecOf n"
  by (simp add: closedSecOf_def)

lemma awake_face_mono:
  assumes "n \<le> m"
  shows "awakeEvidence (runRules (faceRules (i\<lparr>closedFrames := m\<rparr>)) initialEvidence)
       \<le> awakeEvidence (runRules (faceRules (i\<lparr>closedFrames := n\<rparr>)) initialEvidence)"
  using closedSecOf_mono[OF assms]
  by (simp add: faceRules_def runRules_def Let_def rule_projs initialEvidence_def)

lemma sleeping_face_mono:
  assumes "n \<le> m"
  shows "sleepingEvidence (runRules (faceRules (i\<lparr>closedFrames := n\<rparr>)) initialEvidence)
       \<le> sleepingEvidence (runRules (faceRules (i\<lparr>closedFrames := m\<rparr>)) initialEvidence)"
  using closedSecOf_mono[OF assms]
  by (simp add: faceRules_def runRules_def Let_def rule_projs initialEvidence_def min_def)

lemma posture_sleeping_mono:
  assumes "n \<le> m" and "sleepingEvidence ea \<le> sleepingEvidence eb"
  shows "sleepingEvidence (runRules (postureRules (i\<lparr>closedFrames := n\<rparr>) p) ea)
       \<le> sleepingEvidence (runRules (postureRules (i\<lparr>closedFrames := m\<rparr>) p) eb)"
  using closedSecOf_mono[OF assms(1)] assms(2)
  by (simp add: postureRules_def runRules_def Let_def rule_projs add_mono mult_right_mono)

lemma posture_awake_mono:
  assumes "awakeEvidence eb \<le> awakeEvidence ea"
  shows "awakeEvidence (runRules (postureRules (i\<lparr>closedFrames := m\<rparr>) p) eb)
       \<le> awakeEvidence (runRules (postureRules (i\<lparr>closedFrames := n\<rparr>) p) ea)"
  using assms
  by (simp add: postureRules_def runRules_def Let_def rule_projs add_mono mult_right_mono)

lemma accumulate_sleeping_mono:
  assumes "n \<le> m"
  shows "sleepingEvidence (accumulateEvidence (i\<lparr>closedFrames := n\<rparr>))
       \<le> sleepingEvidence (accumulateEvidence (i\<lparr>closedFrames := m\<rparr>))"
proof (cases "postureState i")
  case None
  then show ?thesis
    using sleeping_face_mono[OF assms, of i] by (simp add: accumulateEvidence_def runRules_def)
next
  case (Some p)
  then show ?thesis
    using posture_sleeping_mono[OF assms sleeping_face_mono[OF assms, of i], where p = p]
    by (simp add: accumulateEvidence_def)
qed

lemma accumulate_awake_mono:
  assumes "n \<le> m"
  shows "awakeEvidence (accumulateEvidence (i\<lparr>closedFrames := m\<rparr>))
       \<le> awakeEvidence (accumulateEvidence (i\<lparr>closedFrames := n\<rparr>))"
proof (cases "postureState i")
  case None
  then show ?thesis
    using awake_face_mono[OF assms, of i] by (simp add: accumulateEvidence_def runRules_def)
next
  case (Some p)
  then show ?thesis
    using posture_awake_mono[OF awake_face_mono[OF assms, of i], where p = p]
    by (simp add: accumulateEvidence_def)
qed

lemma clampEvidence_bounds:
  "0 \<le> sleepingEvidence (clampEvidence e)" "sleepingEvidence (clampEvidence e) \<le> 1"
  "0 \<le> noddingEvidence (clampEvidence e)" "noddingEvidence (clampEvidence e) \<le> 1"
  "0.05 \<le> awakeEvidence (clampEvidence e)" "awakeEvidence (clampEvidence e) \<le> 1"
  "0 < awakeEvidence (clampEvidence e)"
  by (simp_all add: clampEvidence_def)

lemma normalizeEvidence_props:
  assumes s: "0 \<le> sleepingEvidence e" and n: "0 \<le> noddingEvidence e" and a: "0 < awakeEvidence e"
  shows "0 \<le> sleepingProb (normalizeEvidence e) \<and> sleepingProb (normalizeEvidence e) \<le> 1 \<and>
         0 \<le> noddingProb (normalizeEvidence e) \<and> noddingProb (normalizeEvidence e) \<le> 1 \<and>
         0 \<le> awakeProb (normalizeEvidence e) \<and> awakeProb (normalizeEvidence e) \<le> 1 \<and>
         sleepingProb (normalizeEvidence e) + noddingProb (normalizeEvidence e)
           + awakeProb (normalizeEvidence e) = 1"
proof -
  define t where "t = sleepingEvidence e + noddingEvidence e + awakeEvidence e"
  have t: "0 < t" using s n a unfolding t_def by linarith
  have ps: "sleepingProb (normalizeEvidence e) = sleepingEvidence e / t"
    and pn: "noddingProb (normalizeEvidence e) = noddingEvidence e / t"
    and pa: "awakeProb (normalizeEvidence e) = awakeEvidence e / t"
    using t unfolding t_def by (simp_all add: normalizeEvidence_def Let_def)
  have le: "sleepingEvidence e \<le> t" "noddingEvidence e \<le> t" "awakeEvidence e \<le> t"
    using s n a unfolding t_def by linarith+
  have "sleepingEvidence e / t + noddingEvidence e / t + awakeEvidence e / t
        = (sleepingEvidence e + noddingEvidence e + awakeEvidence e) / t"
    by (simp only: add_divide_distrib)
  also have "\<dots> = t / t" by (simp only: t_def)
  finally have sum: "sleepingEvidence e / t + noddingEvidence e / t + awakeEvidence e / t = 1"
    using t by simp
  show ?thesis
    unfolding ps pn pa using s n a t le sum by simp
qed

lemmas fusion_eval = fusedEvidence_def clampEvidence_def accumulateEvidence_def runRules_def
  faceRules_def postureRules_def initialEvidence_def closedSecOf_def isDrowsyYawnRate_def
  eyeClosureRule_def backwardTiltRule_def lookAwayRule_def awakeEyeRule_def slouchRule_def
  onlyIf_def addSleeping_def addNodding_def addAwake_def setAwake_def scaleAll_def
  exampleInputs_def exampleNod_def uprightPosture_def restlessInputs_def Let_def

lemma awake_face_zero:
  assumes "2 \<le> closedSecOf (closedFrames i)"
  shows "awakeEvidence (runRules (faceRules i) initialEvidence) = 0"
  using assms by (simp add: faceRules_def runRules_def Let_def rule_projs initialEvidence_def)

lemma posture_awake_closed_form:
  "awakeEvidence (runRules (postureRules i p) e) =
     (awakeEvidence e
        + (if \<not> isSlouched p \<and> \<not> isLeaning p \<and> isPresent p then 0.25 else 0)
        + (if isPresent p \<and> 0.7 < bodyPresence p \<and> \<not> isSlouched p then 0.15 else 0)
        + (if \<not> isSlouchingNow p \<and> slouchDuration p = 0 \<and> leanDirection p = Neutral then 0.1 else 0))
     * (if bodyPresence p < 0.5 \<and> landmarksNonNull i then 0.8 else 1)"
  by (simp add: postureRules_def runRules_def Let_def rule_projs)

lemma accumulate_awake_same:
  assumes "2 \<le> closedSecOf (closedFrames i)" and "closedFrames j = closedFrames i"
    and "postureState j = postureState i" and "landmarksNonNull j = landmarksNonNull i"
  shows "awakeEvidence (accumulateEvidence j) = awakeEvidence (accumulateEvidence i)"
proof -
  have zi: "awakeEvidence (runRules (faceRules i) initialEvidence) = 0"
    using assms(1) by (rule awake_face_zero)
  have zj: "awakeEvidence (runRules (faceRules j) initialEvidence) = 0"
    using assms(1,2) by (simp add: awake_face_zero)
  show ?thesis
  proof (cases "postureState i")
    case None
    then show ?thesis using zi zj assms(3) by (simp add: accumulateEvidence_def runRules_def)
  next
    case (Some p)
    then show ?thesis
      using zi zj assms(3,4) by (simp add: accumulateEvidence_def posture_awake_closed_form)
  qed
qed

subsection \<open>Claims about the evidence fusion\<close>

text \<open>
  Claim C1. On every frame that reaches the fused classification, the three evidence
  scores are clamped (awake with floor 0.05) and normalized; the resulting probabilities of
  awake, noddingOff and sleeping each lie in the interval from 0 to 1 and add up to 1.
  (Numbers are reals here, so the sum is exactly 1.)
\<close>

theorem fused_probabilities_sum_to_one:
  "0 \<le> sleepingProb (fusedProbabilities i) \<and> sleepingProb (fusedProbabilities i) \<le> 1 \<and>
   0 \<le> noddingProb (fusedProbabilities i) \<and> noddingProb (fusedProbabilities i) \<le> 1 \<and>
   0 \<le> awakeProb (fusedProbabilities i) \<and> awakeProb (fusedProbabilities i) \<le> 1 \<and>
   sleepingProb (fusedProbabilities i) + noddingProb (fusedProbabilities i)
     + awakeProb (fusedProbabilities i) = 1"
proof -
  have "0 < awakeEvidence (fusedEvidence i)"
    unfolding fusedEvidence_def by (rule clampEvidence_bounds(7))
  then show ?thesis
    unfolding fusedProbabilities_def
    by (intro normalizeEvidence_props) (simp_all add: fusedEvidence_def clampEvidence_bounds)
qed

theorem fused_probabilities_sum_to_one_witness:
  "fusedProbabilities (exampleInputs\<lparr>closedFrames := 165\<rparr>)
     = \<lparr>sleepingProb = 20 / 21, noddingProb = 0, awakeProb = 1 / 21\<rparr> \<and>
   sleepingProb (fusedProbabilities (exampleInputs\<lparr>closedFrames := 165\<rparr>))
     + noddingProb (fusedProbabilities (exampleInputs\<lparr>closedFrames := 165\<rparr>))
     + awakeProb (fusedProbabilities (exampleInputs\<lparr>closedFrames := 165\<rparr>)) = 1"
proof -
  have "fusedProbabilities (exampleInputs\<lparr>closedFrames := 165\<rparr>)
     = \<lparr>sleepingProb = 20 / 21, noddingProb = 0, awakeProb = 1 / 21\<rparr>"
    by (simp add: fusion_eval fusedProbabilities_def normalizeEvidence_def)
  then show ?thesis
    using fused_probabilities_sum_to_one [of "exampleInputs\<lparr>closedFrames := 165\<rparr>"] by blast
qed

text \<open>
  Claim C6. With every other tracker and posture signal held fixed, a larger count of
  consecutive closed-eye frames never gives a smaller clamped sleeping evidence. This holds
  for all counts, in particular for those past the 15-frame blink filter.
\<close>

theorem sleepingEvidence_monotone_in_closedFrames:
  assumes "n \<le> m"
  shows "sleepingEvidence (fusedEvidence (i\<lparr>closedFrames := n\<rparr>))
       \<le> sleepingEvidence (fusedEvidence (i\<lparr>closedFrames := m\<rparr>))"
  using accumulate_sleeping_mono[OF assms, of i]
  by (simp add: fusedEvidence_def clampEvidence_def)

theorem sleepingEvidence_monotone_in_closedFrames_witness:
  "(20::nat) \<le> 200 \<and>
   sleepingEvidence (fusedEvidence (exampleInputs\<lparr>closedFrames := 20\<rparr>)) = 0 \<and>
   sleepingEvidence (fusedEvidence (exampleInputs\<lparr>closedFrames := 200\<rparr>)) = 1 \<and>
   sleepingEvidence (fusedEvidence (exampleInputs\<lparr>closedFrames := 20\<rparr>))
     \<le> sleepingEvidence (fusedEvidence (exampleInputs\<lparr>closedFrames := 200\<rparr>))"
proof -
  have h: "(20::nat) \<le> 200" by simp
  have a: "sleepingEvidence (fusedEvidence (exampleInputs\<lparr>closedFrames := 20\<rparr>)) = 0"
    by (simp add: fusion_eval)
  have b: "sleepingEvidence (fusedEvidence (exampleInputs\<lparr>closedFrames := 200\<rparr>)) = 1"
    by (simp add: fusion_eval)
  show ?thesis
    using h a b sleepingEvidence_monotone_in_closedFrames [OF h, of exampleInputs] by blast
qed

text \<open>
  Claim C5, as stated, fails: after 5 seconds of closed eyes the clamped awake evidence is
  the floor 0.05 when there is no posture reading, and 0.5 when the posture reading is
  upright and fully visible; it is never 0.
\<close>

theorem awakeEvidence_not_zero_when_eyes_closed:
  "EYES_CLOSED_NOD_SEC < closedSecOf (closedFrames (exampleInputs\<lparr>closedFrames := 165\<rparr>)) \<and>
   awakeEvidence (fusedEvidence (exampleInputs\<lparr>closedFrames := 165\<rparr>)) = 0.05 \<and>
   awakeEvidence (fusedEvidence (exampleInputs\<lparr>closedFrames := 165\<rparr>)) \<noteq> 0 \<and>
   awakeEvidence (fusedEvidence
     (exampleInputs\<lparr>closedFrames := 165, postureState := Some uprightPosture\<rparr>)) = 0.5"
  by (simp add: fusion_eval)

text \<open>
  Claim C5, amended. The clamped awake evidence is non-increasing as the closed-eye
  duration grows. Whenever the closed-eye duration exceeds the nodding threshold (3.5 s),
  the awake evidence accumulated by the eye, head-pose, gaze and yawning rules is reset to 0,
  so the clamped score does not depend on those signals (two frames that agree on the
  closed-eye count, the posture reading and the captured landmarks flag get the same score);
  the clamped score is never below the floor 0.05, and it equals 0.05 when there is no
  posture reading.
\<close>

theorem awakeEvidence_suppressed_by_closed_eyes:
  "(n \<le> m \<longrightarrow>
      awakeEvidence (fusedEvidence (i\<lparr>closedFrames := m\<rparr>))
        \<le> awakeEvidence (fusedEvidence (i\<lparr>closedFrames := n\<rparr>))) \<and>
   (EYES_CLOSED_NOD_SEC < closedSecOf (closedFrames i) \<longrightarrow>
      awakeEvidence (runRules (faceRules i) initialEvidence) = 0 \<and>
      0.05 \<le> awakeEvidence (fusedEvidence i) \<and>
      (postureState i = None \<longrightarrow> awakeEvidence (fusedEvidence i) = 0.05) \<and>
      (closedFrames j = closedFrames i \<and> postureState j = postureState i \<and>
         landmarksNonNull j = landmarksNonNull i \<longrightarrow>
       awakeEvidence (fusedEvidence j) = awakeEvidence (fusedEvidence i)))"
proof (intro conjI impI)
  assume "n \<le> m"
  then show "awakeEvidence (fusedEvidence (i\<lparr>closedFrames := m\<rparr>))
        \<le> awakeEvidence (fusedEvidence (i\<lparr>closedFrames := n\<rparr>))"
    using accumulate_awake_mono [of n m i] by (simp add: fusedEvidence_def clampEvidence_def)
next
  assume "EYES_CLOSED_NOD_SEC < closedSecOf (closedFrames i)"
  then show "awakeEvidence (runRules (faceRules i) initialEvidence) = 0"
    by (simp add: awake_face_zero)
next
  show "0.05 \<le> awakeEvidence (fusedEvidence i)"
    unfolding fusedEvidence_def by (rule clampEvidence_bounds(5))
next
  assume d: "EYES_CLOSED_NOD_SEC < closedSecOf (closedFrames i)" and "postureState i = None"
  then have "awakeEvidence (accumulateEvidence i) = 0"
    using awake_face_zero [of i] by (simp add: accumulateEvidence_def runRules_def)
  then show "awakeEvidence (fusedEvidence i) = 0.05"
    by (simp add: fusedEvidence_def clampEvidence_def)
next
  assume d: "EYES_CLOSED_NOD_SEC < closedSecOf (closedFrames i)"
    and same: "closedFrames j = closedFrames i \<and> postureState j = postureState i \<and>
         landmarksNonNull j = landmarksNonNull i"
  from d have "2 \<le> closedSecOf (closedFrames i)" by simp
  then have "awakeEvidence (accumulateEvidence j) = awakeEvidence (accumulateEvidence i)"
    using same by (intro accumulate_awake_same) simp_all
  then show "awakeEvidence (fusedEvidence j) = awakeEvidence (fusedEvidence i)"
    by (simp add: fusedEvidence_def clampEvidence_def)
qed

theorem awakeEvidence_suppressed_by_closed_eyes_witness:
  "(20::nat) \<le> 165 \<and>
   EYES_CLOSED_NOD_SEC < closedSecOf (closedFrames (exampleInputs\<lparr>closedFrames := 165\<rparr>)) \<and>
   postureState (exampleInputs\<lparr>closedFrames := 165\<rparr>) = None \<and>
   closedFrames (restlessInputs\<lparr>closedFrames := 165\<rparr>) = closedFrames (exampleInputs\<lparr>closedFrames := 165\<rparr>) \<and>
   postureState (restlessInputs\<lparr>closedFrames := 165\<rparr>) = postureState (exampleInputs\<lparr>closedFrames := 165\<rparr>) \<and>
   landmarksNonNull (restlessInputs\<lparr>closedFrames := 165\<rparr>)
     = landmarksNonNull (exampleInputs\<lparr>closedFrames := 165\<rparr>) \<and>
   awakeEvidence (fusedEvidence (exampleInputs\<lparr>closedFrames := 165\<rparr>))
     \<le> awakeEvidence (fusedEvidence (exampleInputs\<lparr>closedFrames := 20\<rparr>)) \<and>
   awakeEvidence (fusedEvidence (exampleInputs\<lparr>closedFrames := 165\<rparr>)) = 0.05 \<and>
   awakeEvidence (fusedEvidence (restlessInputs\<lparr>closedFrames := 165\<rparr>))
     = awakeEvidence (fusedEvidence (exampleInputs\<lparr>closedFrames := 165\<rparr>))"
proof -
  have h1: "(20::nat) \<le> 165" by simp
  have h2: "EYES_CLOSED_NOD_SEC < closedSecOf (closedFrames (exampleInputs\<lparr>closedFrames := 165\<rparr>))"
    by (simp add: closedSecOf_def)
  have h3: "postureState (exampleInputs\<lparr>closedFrames := 165\<rparr>) = None"
    by (simp add: exampleInputs_def)
  have h4: "closedFrames (restlessInputs\<lparr>closedFrames := 165\<rparr>) = closedFrames (exampleInputs\<lparr>closedFrames := 165\<rparr>) \<and>
    postureState (restlessInputs\<lparr>closedFrames := 165\<rparr>) = postureState (exampleInputs\<lparr>closedFrames := 165\<rparr>) \<and>
    landmarksNonNull (restlessInputs\<lparr>closedFrames := 165\<rparr>)
      = landmarksNonNull (exampleInputs\<lparr>closedFrames := 165\<rparr>)"
    by (simp add: exampleInputs_def restlessInputs_def)
  have upd: "exampleInputs\<lparr>closedFrames := 165\<rparr>\<lparr>closedFrames := 165\<rparr> = exampleInputs\<lparr>closedFrames := 165\<rparr>"
    "exampleInputs\<lparr>closedFrames := 165\<rparr>\<lparr>closedFrames := 20\<rparr> = exampleInputs\<lparr>closedFrames := 20\<rparr>"
    by simp_all
  show ?thesis
    using h1 h2 h3 h4
      awakeEvidence_suppressed_by_closed_eyes
        [of 20 165 "exampleInputs\<lparr>closedFrames := 165\<rparr>" "restlessInputs\<lparr>closedFrames := 165\<rparr>"]
    unfolding upd by blast
qed

subsection \<open>Properties of the trackers\<close>

lemma pushBounded_nonempty: "pushBounded k x h \<noteq> []" if "0 < k"
  using that by (cases h) (auto simp: pushBounded_def Let_def)

lemma pushBounded_last: "last (pushBounded k x h) = x" if "0 < k"
  using that by (cases h) (auto simp: pushBounded_def Let_def last_tl)

lemma pushBounded_mem_new: "0 < k \<Longrightarrow> x \<in> set (pushBounded k x h)"
  using pushBounded_last[of k x h] pushBounded_nonempty[of k x h] last_in_set by metis

lemma pushBounded_keeps_last:
  assumes "2 \<le> k" and "h \<noteq> []"
  shows "last h \<in> set (pushBounded k x h)"
proof -
  obtain ys y where h: "h = ys @ [y]" using assms(2) by (metis append_butlast_last_id)
  show ?thesis
  proof (cases ys)
    case Nil
    then show ?thesis using assms(1) h by (simp add: pushBounded_def Let_def)
  next
    case (Cons z zs)
    then show ?thesis using h by (simp add: pushBounded_def Let_def)
  qed
qed

lemma hn_window:
  "windowMax (snd (headNodUpdate p f b d)) = Max (set (pushBounded 18 p (hn_pitchHistory d)))"
  "windowMin (snd (headNodUpdate p f b d)) = Min (set (pushBounded 18 p (hn_pitchHistory d)))"
  "isForwardNodding (snd (headNodUpdate p f b d)) = (f < windowMax (snd (headNodUpdate p f b d)))"
  "isBackwardTilting (snd (headNodUpdate p f b d)) = (windowMin (snd (headNodUpdate p f b d)) < - b)"
  by (simp_all add: headNodUpdate_def Let_def)

lemma hn_wasForward:
  "hn_wasForward (fst (headNodUpdate p f b d)) =
     (let wMax = windowMax (snd (headNodUpdate p f b d)) in
      if f < wMax \<and> \<not> hn_wasForward d then True
      else if \<not> f < wMax \<and> wMax < f - 3 then False else hn_wasForward d)"
  by (simp add: headNodUpdate_def Let_def)

lemma hn_wasBackward:
  "hn_wasBackward (fst (headNodUpdate p f b d)) =
     (let wMin = windowMin (snd (headNodUpdate p f b d)) in
      if wMin < - b \<and> \<not> hn_wasBackward d then True
      else if \<not> wMin < - b \<and> - (b - 3) < wMin then False else hn_wasBackward d)"
  by (simp add: headNodUpdate_def Let_def)

lemma window_max_ge_last:
  assumes "hn_pitchHistory d \<noteq> []"
  shows "last (hn_pitchHistory d) \<le> windowMax (snd (headNodUpdate p f b d))"
  unfolding hn_window using pushBounded_keeps_last[OF _ assms, of 18 p] by (simp add: Max_ge)

lemma window_min_le_last:
  assumes "hn_pitchHistory d \<noteq> []"
  shows "windowMin (snd (headNodUpdate p f b d)) \<le> last (hn_pitchHistory d)"
  unfolding hn_window using pushBounded_keeps_last[OF _ assms, of 18 p] by (simp add: Min_le)

lemmas hn_eval = headNodFeed_def headNodUpdate_def pushBounded_def meanOf_def
  newHeadNodDetector_def Let_def numeral_eq_Suc

lemma headNodFeed_nod_then_16:
  "headNodFeed (11 # replicate 16 9) newHeadNodDetector
   = \<lparr>hn_pitchHistory = 11 # replicate 16 9, hn_nodCount = 1, hn_wasForward = True,
      hn_wasBackward = False\<rparr>"
  by (simp add: hn_eval)

lemma headNodFeed_nod_then_17:
  "headNodFeed (11 # replicate 17 9) newHeadNodDetector
   = \<lparr>hn_pitchHistory = 11 # replicate 17 9, hn_nodCount = 1, hn_wasForward = True,
      hn_wasBackward = False\<rparr>"
  by (simp add: hn_eval)

lemmas yd_eval = yawnFeed_def yawnUpdate_def pushBounded_def meanOf_def newYawnDetector_def
  truthyTime_def isFrequentYawning_def isDrowsyYawnRate_def drowsyYawningPerMinute_def Let_def

lemma yawnFeed_two_spread_yawns:
  "yawnFeed [(1, 1000), (0, 2000), (1, 100000)] newYawnDetector
   = \<lparr>yd_marHistory = [1, 0, 1], yd_yawnCount = 1, yd_yawnTimes = [],
      yd_isCurrentlyYawning = True, yd_yawnStartTime = Some 100000\<rparr>"
  by (simp add: yd_eval)

text \<open>The count the detector reports never goes down: old yawns are never forgotten.\<close>

lemma yawnCount_never_decreases:
  "yd_yawnCount this \<le> yawnCount (snd (yawnUpdate mar now this))"
  by (simp add: yawnUpdate_def Let_def)

subsection \<open>Claims about the trackers\<close>

text \<open>
  Claim C7, as stated, fails for the flag the detector reports: the pitch sequence 11, then
  eighteen times 9 (thresholds 10 and 12) keeps \<open>isForwardNodding\<close> set for seventeen frames
  and clears it on the eighteenth frame of 9, when the 11 leaves the 18-frame window,
  although the windowed maximum is 9 and has not fallen below 10 - 3 = 7.
\<close>

theorem nod_flag_clears_inside_hysteresis_band:
  "isForwardNodding (snd (headNodUpdate 9 HEAD_PITCH_THRESHOLD HEAD_PITCH_BACK_THRESHOLD
      (headNodFeed (11 # replicate 16 9) newHeadNodDetector))) \<and>
   \<not> isForwardNodding (snd (headNodUpdate 9 HEAD_PITCH_THRESHOLD HEAD_PITCH_BACK_THRESHOLD
      (headNodFeed (11 # replicate 17 9) newHeadNodDetector))) \<and>
   windowMax (snd (headNodUpdate 9 HEAD_PITCH_THRESHOLD HEAD_PITCH_BACK_THRESHOLD
      (headNodFeed (11 # replicate 17 9) newHeadNodDetector))) = 9 \<and>
   \<not> (9 < HEAD_PITCH_THRESHOLD - FORWARD_HYSTERESIS)"
  unfolding headNodFeed_nod_then_16 headNodFeed_nod_then_17
  by (simp add: headNodUpdate_def pushBounded_def meanOf_def Let_def numeral_eq_Suc)

text \<open>
  Claim C7, amended. A single frame of any pitch after a frame above the forward
  threshold clears neither the reported forward-nod flag nor the detector's forward latch
  (the flags follow the maximum of the last 18 frames); likewise for a frame below minus
  the backward threshold and the backward-tilt flag and latch (minimum of the window). The
  3 degree hysteresis margin governs re-arming: a set forward latch \<open>wasForward\<close> is
  cleared exactly when the windowed maximum is below the forward threshold minus 3, and a
  set backward latch \<open>wasBackward\<close> exactly when the windowed minimum is above minus
  (the backward threshold minus 3). The reported flags themselves are exactly
  "windowed maximum above the threshold" and "windowed minimum below minus the threshold".
\<close>

theorem head_nod_flags_and_rearm_hysteresis:
  "(hn_pitchHistory d \<noteq> [] \<and> f < last (hn_pitchHistory d) \<longrightarrow>
      isForwardNodding (snd (headNodUpdate p f b d)) \<and> hn_wasForward (fst (headNodUpdate p f b d))) \<and>
   (hn_pitchHistory d \<noteq> [] \<and> last (hn_pitchHistory d) < - b \<longrightarrow>
      isBackwardTilting (snd (headNodUpdate p f b d)) \<and> hn_wasBackward (fst (headNodUpdate p f b d))) \<and>
   (hn_wasForward d \<longrightarrow>
      (\<not> hn_wasForward (fst (headNodUpdate p f b d))
         \<longleftrightarrow> windowMax (snd (headNodUpdate p f b d)) < f - FORWARD_HYSTERESIS)) \<and>
   (hn_wasBackward d \<longrightarrow>
      (\<not> hn_wasBackward (fst (headNodUpdate p f b d))
         \<longleftrightarrow> - (b - BACKWARD_HYSTERESIS) < windowMin (snd (headNodUpdate p f b d)))) \<and>
   (isForwardNodding (snd (headNodUpdate p f b d))
      \<longleftrightarrow> f < Max (set (pushBounded HN_HISTORY_SIZE p (hn_pitchHistory d)))) \<and>
   (isBackwardTilting (snd (headNodUpdate p f b d))
      \<longleftrightarrow> Min (set (pushBounded HN_HISTORY_SIZE p (hn_pitchHistory d))) < - b) \<and>
   windowMax (snd (headNodUpdate p f b d)) = Max (set (pushBounded HN_HISTORY_SIZE p (hn_pitchHistory d))) \<and>
   windowMin (snd (headNodUpdate p f b d)) = Min (set (pushBounded HN_HISTORY_SIZE p (hn_pitchHistory d)))"
proof (intro conjI impI)
  assume a: "hn_pitchHistory d \<noteq> [] \<and> f < last (hn_pitchHistory d)"
  then have "f < windowMax (snd (headNodUpdate p f b d))"
    using window_max_ge_last[of d p f b] by linarith
  then show "isForwardNodding (snd (headNodUpdate p f b d))"
    and "hn_wasForward (fst (headNodUpdate p f b d))"
    by (simp_all add: hn_window(3) hn_wasForward Let_def)
next
  assume a: "hn_pitchHistory d \<noteq> [] \<and> last (hn_pitchHistory d) < - b"
  then have "windowMin (snd (headNodUpdate p f b d)) < - b"
    using window_min_le_last[of d p f b] by linarith
  then show "isBackwardTilting (snd (headNodUpdate p f b d))"
    and "hn_wasBackward (fst (headNodUpdate p f b d))"
    by (simp_all add: hn_window(4) hn_wasBackward Let_def)
next
  assume "hn_wasForward d"
  then show "(\<not> hn_wasForward (fst (headNodUpdate p f b d)))
         = (windowMax (snd (headNodUpdate p f b d)) < f - FORWARD_HYSTERESIS)"
    by (simp add: hn_wasForward Let_def)
next
  assume "hn_wasBackward d"
  then show "(\<not> hn_wasBackward (fst (headNodUpdate p f b d)))
         = (- (b - BACKWARD_HYSTERESIS) < windowMin (snd (headNodUpdate p f b d)))"
    by (simp add: hn_wasBackward Let_def)
next
  show "isForwardNodding (snd (headNodUpdate p f b d))
      = (f < Max (set (pushBounded HN_HISTORY_SIZE p (hn_pitchHistory d))))"
    by (simp add: headNodUpdate_def Let_def)
next
  show "isBackwardTilting (snd (headNodUpdate p f b d))
      = (Min (set (pushBounded HN_HISTORY_SIZE p (hn_pitchHistory d))) < - b)"
    by (simp add: headNodUpdate_def Let_def)
next
  show "windowMax (snd (headNodUpdate p f b d)) = Max (set (pushBounded HN_HISTORY_SIZE p (hn_pitchHistory d)))"
    by (rule hn_window(1))
next
  show "windowMin (snd (headNodUpdate p f b d)) = Min (set (pushBounded HN_HISTORY_SIZE p (hn_pitchHistory d)))"
    by (rule hn_window(2))
qed

theorem head_nod_flags_and_rearm_hysteresis_witness:
  "hn_pitchHistory (headNodFeed [11, 11] newHeadNodDetector) \<noteq> [] \<and>
   HEAD_PITCH_THRESHOLD < last (hn_pitchHistory (headNodFeed [11, 11] newHeadNodDetector)) \<and>
   isForwardNodding (snd (headNodUpdate 2 HEAD_PITCH_THRESHOLD HEAD_PITCH_BACK_THRESHOLD
      (headNodFeed [11, 11] newHeadNodDetector))) \<and>
   hn_wasForward (fst (headNodUpdate 2 HEAD_PITCH_THRESHOLD HEAD_PITCH_BACK_THRESHOLD
      (headNodFeed [11, 11] newHeadNodDetector))) \<and>
   hn_pitchHistory (headNodFeed [-13, -13] newHeadNodDetector) \<noteq> [] \<and>
   last (hn_pitchHistory (headNodFeed [-13, -13] newHeadNodDetector)) < - HEAD_PITCH_BACK_THRESHOLD \<and>
   isBackwardTilting (snd (headNodUpdate 0 HEAD_PITCH_THRESHOLD HEAD_PITCH_BACK_THRESHOLD
      (headNodFeed [-13, -13] newHeadNodDetector))) \<and>
   hn_wasBackward (fst (headNodUpdate 0 HEAD_PITCH_THRESHOLD HEAD_PITCH_BACK_THRESHOLD
      (headNodFeed [-13, -13] newHeadNodDetector))) \<and>
   hn_wasForward (headNodFeed (11 # replicate 17 9) newHeadNodDetector) \<and>
   windowMax (snd (headNodUpdate 9 HEAD_PITCH_THRESHOLD HEAD_PITCH_BACK_THRESHOLD
      (headNodFeed (11 # replicate 17 9) newHeadNodDetector))) = 9 \<and>
   hn_wasForward (fst (headNodUpdate 9 HEAD_PITCH_THRESHOLD HEAD_PITCH_BACK_THRESHOLD
      (headNodFeed (11 # replicate 17 9) newHeadNodDetector))) \<and>
   hn_wasBackward (headNodFeed [-13, -13] newHeadNodDetector) \<and>
   windowMin (snd (headNodUpdate 0 HEAD_PITCH_THRESHOLD HEAD_PITCH_BACK_THRESHOLD
      (headNodFeed [-13, -13] newHeadNodDetector))) = -13 \<and>
   hn_wasForward (headNodFeed (11 # replicate 17 6) newHeadNodDetector) \<and>
   windowMax (snd (headNodUpdate 6 HEAD_PITCH_THRESHOLD HEAD_PITCH_BACK_THRESHOLD
      (headNodFeed (11 # replicate 17 6) newHeadNodDetector))) = 6 \<and>
   \<not> hn_wasForward (fst (headNodUpdate 6 HEAD_PITCH_THRESHOLD HEAD_PITCH_BACK_THRESHOLD
      (headNodFeed (11 # replicate 17 6) newHeadNodDetector)))"
proof -
  have f: "headNodFeed [11, 11] newHeadNodDetector
     = \<lparr>hn_pitchHistory = [11, 11], hn_nodCount = 1, hn_wasForward = True, hn_wasBackward = False\<rparr>"
    by (simp add: hn_eval)
  have b: "headNodFeed [-13, -13] newHeadNodDetector
     = \<lparr>hn_pitchHistory = [-13, -13], hn_nodCount = 0, hn_wasForward = False, hn_wasBackward = True\<rparr>"
    by (simp add: hn_eval)
  have g: "headNodFeed (11 # replicate 17 6) newHeadNodDetector
     = \<lparr>hn_pitchHistory = 11 # replicate 17 6, hn_nodCount = 1, hn_wasForward = True,
        hn_wasBackward = False\<rparr>"
    by (simp add: hn_eval)
  have hf: "hn_pitchHistory (headNodFeed [11, 11] newHeadNodDetector) \<noteq> [] \<and>
     HEAD_PITCH_THRESHOLD < last (hn_pitchHistory (headNodFeed [11, 11] newHeadNodDetector))"
    unfolding f by simp
  have hb: "hn_pitchHistory (headNodFeed [-13, -13] newHeadNodDetector) \<noteq> [] \<and>
     last (hn_pitchHistory (headNodFeed [-13, -13] newHeadNodDetector)) < - HEAD_PITCH_BACK_THRESHOLD"
    and wb: "hn_wasBackward (headNodFeed [-13, -13] newHeadNodDetector)"
    and mb: "windowMin (snd (headNodUpdate 0 HEAD_PITCH_THRESHOLD HEAD_PITCH_BACK_THRESHOLD
      (headNodFeed [-13, -13] newHeadNodDetector))) = -13"
    unfolding b by (simp_all add: headNodUpdate_def pushBounded_def Let_def)
  have w9: "hn_wasForward (headNodFeed (11 # replicate 17 9) newHeadNodDetector)"
    and m9: "windowMax (snd (headNodUpdate 9 HEAD_PITCH_THRESHOLD HEAD_PITCH_BACK_THRESHOLD
      (headNodFeed (11 # replicate 17 9) newHeadNodDetector))) = 9"
    unfolding headNodFeed_nod_then_17
    by (simp_all add: headNodUpdate_def pushBounded_def Let_def numeral_eq_Suc)
  have w6: "hn_wasForward (headNodFeed (11 # replicate 17 6) newHeadNodDetector)"
    and m6: "windowMax (snd (headNodUpdate 6 HEAD_PITCH_THRESHOLD HEAD_PITCH_BACK_THRESHOLD
      (headNodFeed (11 # replicate 17 6) newHeadNodDetector))) = 6"
    unfolding g by (simp_all add: headNodUpdate_def pushBounded_def Let_def numeral_eq_Suc)
  have keep9: "\<not> (9 < HEAD_PITCH_THRESHOLD - FORWARD_HYSTERESIS)"
    and clear6: "6 < HEAD_PITCH_THRESHOLD - FORWARD_HYSTERESIS"
    and keepb: "\<not> (- (HEAD_PITCH_BACK_THRESHOLD - BACKWARD_HYSTERESIS) < (-13::real))"
    by simp_all
  note a1 = head_nod_flags_and_rearm_hysteresis
        [of "headNodFeed [11, 11] newHeadNodDetector" HEAD_PITCH_THRESHOLD 2 HEAD_PITCH_BACK_THRESHOLD]
  note a2 = head_nod_flags_and_rearm_hysteresis
        [of "headNodFeed [-13, -13] newHeadNodDetector" HEAD_PITCH_THRESHOLD 0 HEAD_PITCH_BACK_THRESHOLD]
  note a3 = head_nod_flags_and_rearm_hysteresis
        [of "headNodFeed (11 # replicate 17 9) newHeadNodDetector" HEAD_PITCH_THRESHOLD 9
            HEAD_PITCH_BACK_THRESHOLD]
  note a4 = head_nod_flags_and_rearm_hysteresis
        [of "headNodFeed (11 # replicate 17 6) newHeadNodDetector"
            HEAD_PITCH_THRESHOLD 6 HEAD_PITCH_BACK_THRESHOLD]
  have r1: "isForwardNodding (snd (headNodUpdate 2 HEAD_PITCH_THRESHOLD HEAD_PITCH_BACK_THRESHOLD
      (headNodFeed [11, 11] newHeadNodDetector))) \<and>
     hn_wasForward (fst (headNodUpdate 2 HEAD_PITCH_THRESHOLD HEAD_PITCH_BACK_THRESHOLD
      (headNodFeed [11, 11] newHeadNodDetector)))"
    using a1 hf by blast
  have r2: "isBackwardTilting (snd (headNodUpdate 0 HEAD_PITCH_THRESHOLD HEAD_PITCH_BACK_THRESHOLD
      (headNodFeed [-13, -13] newHeadNodDetector))) \<and>
     hn_wasBackward (fst (headNodUpdate 0 HEAD_PITCH_THRESHOLD HEAD_PITCH_BACK_THRESHOLD
      (headNodFeed [-13, -13] newHeadNodDetector)))"
    using a2 hb by blast
  have r3: "hn_wasForward (fst (headNodUpdate 9 HEAD_PITCH_THRESHOLD HEAD_PITCH_BACK_THRESHOLD
      (headNodFeed (11 # replicate 17 9) newHeadNodDetector)))"
    using a3 w9 keep9 unfolding m9 by blast
  have r4: "\<not> hn_wasForward (fst (headNodUpdate 6 HEAD_PITCH_THRESHOLD HEAD_PITCH_BACK_THRESHOLD
      (headNodFeed (11 # replicate 17 6) newHeadNodDetector)))"
    using a4 w6 clear6 unfolding m6 by blast
  show ?thesis
    using hf hb r1 r2 w9 m9 r3 wb mb w6 m6 r4 by blast
qed

text \<open>
  Claim C9 against the code. The criterion of \<open>handleLandmarks\<close> is
  \<open>isDrowsyYawnRate(yawnState.yawnCount)\<close>, and \<open>yawnCount\<close> is the detector's counter of
  all yawns since it was created; the list \<open>yawnTimes\<close>, which is pruned to the last 60
  seconds, is never read. Two one-second yawns 99 seconds apart make the criterion true
  although the 60-second window holds one yawn.
\<close>

theorem yawn_criterion_ignores_the_window:
  "isFrequentYawning 0 101000 (yawnFeed [(1, 1000), (0, 2000), (1, 100000)] newYawnDetector) \<and>
   yawnCount (snd (yawnUpdate 0 101000
      (yawnFeed [(1, 1000), (0, 2000), (1, 100000)] newYawnDetector))) = 2 \<and>
   yd_yawnTimes (fst (yawnUpdate 0 101000
      (yawnFeed [(1, 1000), (0, 2000), (1, 100000)] newYawnDetector))) = [101000] \<and>
   \<not> drowsyYawningPerMinute (fst (yawnUpdate 0 101000
      (yawnFeed [(1, 1000), (0, 2000), (1, 100000)] newYawnDetector)))"
  unfolding yawnFeed_two_spread_yawns
  by (simp add: yawnUpdate_def pushBounded_def meanOf_def truthyTime_def isFrequentYawning_def
        isDrowsyYawnRate_def drowsyYawningPerMinute_def Let_def)

subsection \<open>Lemmas about the detector state\<close>

lemma resetAlarmState_fields:
  "activeAlarms (resetAlarmState s) = []"
  "alarmPhrase (resetAlarmState s) = None"
  "requireAck (resetAlarmState s) = False"
  "lastAlarmState (resetAlarmState s) = Awake"
  "challengeType (resetAlarmState s) = Phrase"
  "challengePrompt (resetAlarmState s) = None"
  "challengeAnswer (resetAlarmState s) = None"
  by (simp_all add: resetAlarmState_def updateChallenge_def updateRequireAck_def
        updateAlarmPhrase_def updateActiveAlarms_def)

lemma basic_frame [simp]:
  "isAbsenceAlarmArmed (emit e s) = isAbsenceAlarmArmed s"
  "absentStartTime (emit e s) = absentStartTime s"
  "absentCountdown (emit e s) = absentCountdown s"
  "calibration (emit e s) = calibration s"
  "baselines (emit e s) = baselines s"
  "isCalibrating (emit e s) = isCalibrating s"
  "calibrationProgress (emit e s) = calibrationProgress s"
  "isAbsenceAlarmArmed (updateActiveAlarms al s) = isAbsenceAlarmArmed s"
  "absentStartTime (updateActiveAlarms al s) = absentStartTime s"
  "absentCountdown (updateActiveAlarms al s) = absentCountdown s"
  "calibration (updateActiveAlarms al s) = calibration s"
  "baselines (updateActiveAlarms al s) = baselines s"
  "isCalibrating (updateActiveAlarms al s) = isCalibrating s"
  "calibrationProgress (updateActiveAlarms al s) = calibrationProgress s"
  "isAbsenceAlarmArmed (updateRequireAck v s) = isAbsenceAlarmArmed s"
  "absentStartTime (updateRequireAck v s) = absentStartTime s"
  "absentCountdown (updateRequireAck v s) = absentCountdown s"
  "calibration (updateRequireAck v s) = calibration s"
  "baselines (updateRequireAck v s) = baselines s"
  "isCalibrating (updateRequireAck v s) = isCalibrating s"
  "calibrationProgress (updateRequireAck v s) = calibrationProgress s"
  "isAbsenceAlarmArmed (updateAlarmPhrase ph s) = isAbsenceAlarmArmed s"
  "absentStartTime (updateAlarmPhrase ph s) = absentStartTime s"
  "absentCountdown (updateAlarmPhrase ph s) = absentCountdown s"
  "calibration (updateAlarmPhrase ph s) = calibration s"
  "baselines (updateAlarmPhrase ph s) = baselines s"
  "isCalibrating (updateAlarmPhrase ph s) = isCalibrating s"
  "calibrationProgress (updateAlarmPhrase ph s) = calibrationProgress s"
  "isAbsenceAlarmArmed (updateChallenge ty pr an s) = isAbsenceAlarmArmed s"
  "absentStartTime (updateChallenge ty pr an s) = absentStartTime s"
  "absentCountdown (updateChallenge ty pr an s) = absentCountdown s"
  "calibration (updateChallenge ty pr an s) = calibration s"
  "baselines (updateChallenge ty pr an s) = baselines s"
  "isCalibrating (updateChallenge ty pr an s) = isCalibrating s"
  "calibrationProgress (updateChallenge ty pr an s) = calibrationProgress s"
  "isAbsenceAlarmArmed (setAlarmCursor tier k s) = isAbsenceAlarmArmed s"
  "absentStartTime (setAlarmCursor tier k s) = absentStartTime s"
  "absentCountdown (setAlarmCursor tier k s) = absentCountdown s"
  "calibration (setAlarmCursor tier k s) = calibration s"
  "baselines (setAlarmCursor tier k s) = baselines s"
  "isCalibrating (setAlarmCursor tier k s) = isCalibrating s"
  "calibrationProgress (setAlarmCursor tier k s) = calibrationProgress s"
  by (simp_all add: emit_def updateActiveAlarms_def updateRequireAck_def updateAlarmPhrase_def
        updateChallenge_def setAlarmCursor_def split: AlarmTier.split)

lemma basic_requireAck [simp]:
  "requireAck (emit e s) = requireAck s"
  "requireAck (updateActiveAlarms al s) = requireAck s"
  "requireAck (updateAlarmPhrase ph s) = requireAck s"
  "requireAck (updateChallenge ty pr an s) = requireAck s"
  "requireAck (setAlarmCursor tier k s) = requireAck s"
  by (simp_all add: emit_def updateActiveAlarms_def updateAlarmPhrase_def
        updateChallenge_def setAlarmCursor_def split: AlarmTier.split)

lemma compound_frame [simp]:
  "isAbsenceAlarmArmed (resetAlarmState s) = isAbsenceAlarmArmed s"
  "absentStartTime (resetAlarmState s) = absentStartTime s"
  "absentCountdown (resetAlarmState s) = absentCountdown s"
  "calibration (resetAlarmState s) = calibration s"
  "baselines (resetAlarmState s) = baselines s"
  "isCalibrating (resetAlarmState s) = isCalibrating s"
  "calibrationProgress (resetAlarmState s) = calibrationProgress s"
  "isAbsenceAlarmArmed (assignNewChallenge pref rnd s) = isAbsenceAlarmArmed s"
  "absentStartTime (assignNewChallenge pref rnd s) = absentStartTime s"
  "absentCountdown (assignNewChallenge pref rnd s) = absentCountdown s"
  "calibration (assignNewChallenge pref rnd s) = calibration s"
  "baselines (assignNewChallenge pref rnd s) = baselines s"
  "isCalibrating (assignNewChallenge pref rnd s) = isCalibrating s"
  "calibrationProgress (assignNewChallenge pref rnd s) = calibrationProgress s"
  "isAbsenceAlarmArmed (raiseAlarmBatch tier n now s) = isAbsenceAlarmArmed s"
  "absentStartTime (raiseAlarmBatch tier n now s) = absentStartTime s"
  "absentCountdown (raiseAlarmBatch tier n now s) = absentCountdown s"
  "calibration (raiseAlarmBatch tier n now s) = calibration s"
  "baselines (raiseAlarmBatch tier n now s) = baselines s"
  "isCalibrating (raiseAlarmBatch tier n now s) = isCalibrating s"
  "calibrationProgress (raiseAlarmBatch tier n now s) = calibrationProgress s"
  by (simp_all add: resetAlarmState_def assignNewChallenge_def raiseAlarmBatch_def
        getAlarmBatch_def Let_def)

lemma compound_requireAck [simp]:
  "requireAck (assignNewChallenge pref rnd s) = requireAck s"
  "requireAck (raiseAlarmBatch tier n now s) = requireAck s"
  by (simp_all add: assignNewChallenge_def raiseAlarmBatch_def getAlarmBatch_def Let_def)

lemma escalateRisk_frame [simp]:
  "isAbsenceAlarmArmed (escalateRisk best w now cap rnd s) = isAbsenceAlarmArmed s"
  "absentStartTime (escalateRisk best w now cap rnd s) = absentStartTime s"
  "absentCountdown (escalateRisk best w now cap rnd s) = absentCountdown s"
  "calibration (escalateRisk best w now cap rnd s) = calibration s"
  "baselines (escalateRisk best w now cap rnd s) = baselines s"
  "isCalibrating (escalateRisk best w now cap rnd s) = isCalibrating s"
  "calibrationProgress (escalateRisk best w now cap rnd s) = calibrationProgress s"
  by (simp_all add: escalateRisk_def Let_def split: option.split)

lemma relaxAwake_frame [simp]:
  "isAbsenceAlarmArmed (relaxAwake cap s) = isAbsenceAlarmArmed s"
  "absentStartTime (relaxAwake cap s) = absentStartTime s"
  "absentCountdown (relaxAwake cap s) = absentCountdown s"
  "calibration (relaxAwake cap s) = calibration s"
  "baselines (relaxAwake cap s) = baselines s"
  "isCalibrating (relaxAwake cap s) = isCalibrating s"
  "calibrationProgress (relaxAwake cap s) = calibrationProgress s"
  by (simp_all add: relaxAwake_def Let_def)

lemma applyAnalysis_frame [simp]:
  "isAbsenceAlarmArmed (applyAnalysis f now cap rnd a s) = isAbsenceAlarmArmed s"
  "absentStartTime (applyAnalysis f now cap rnd a s) = absentStartTime s"
  "absentCountdown (applyAnalysis f now cap rnd a s) = absentCountdown s"
  "calibration (applyAnalysis f now cap rnd a s) = calibration s"
  "baselines (applyAnalysis f now cap rnd a s) = baselines s"
  "isCalibrating (applyAnalysis f now cap rnd a s) = isCalibrating s"
  "calibrationProgress (applyAnalysis f now cap rnd a s) = calibrationProgress s"
  by (simp_all add: applyAnalysis_def Let_def)

lemma classifyFace_frame [simp]:
  "isAbsenceAlarmArmed (classifyFace f now cap rnd cb s) = isAbsenceAlarmArmed s"
  "absentStartTime (classifyFace f now cap rnd cb s) = absentStartTime s"
  "absentCountdown (classifyFace f now cap rnd cb s) = absentCountdown s"
  "calibration (classifyFace f now cap rnd cb s) = calibration s"
  "baselines (classifyFace f now cap rnd cb s) = baselines s"
  "isCalibrating (classifyFace f now cap rnd cb s) = isCalibrating s"
  "calibrationProgress (classifyFace f now cap rnd cb s) = calibrationProgress s"
  by (simp_all add: classifyFace_def split: option.split)

lemma classifyMissingFace_frame [simp]:
  "isAbsenceAlarmArmed (classifyMissingFace ms now rnd s) = isAbsenceAlarmArmed s"
  "absentStartTime (classifyMissingFace ms now rnd s) = absentStartTime s"
  "absentCountdown (classifyMissingFace ms now rnd s) = absentCountdown s"
  "calibration (classifyMissingFace ms now rnd s) = calibration s"
  "baselines (classifyMissingFace ms now rnd s) = baselines s"
  "isCalibrating (classifyMissingFace ms now rnd s) = isCalibrating s"
  "calibrationProgress (classifyMissingFace ms now rnd s) = calibrationProgress s"
  by (simp_all add: classifyMissingFace_def Let_def)

lemma triggerDebugAlarm_frame [simp]:
  "isAbsenceAlarmArmed (triggerDebugAlarm pref now rnd s) = isAbsenceAlarmArmed s"
  "absentStartTime (triggerDebugAlarm pref now rnd s) = absentStartTime s"
  "absentCountdown (triggerDebugAlarm pref now rnd s) = absentCountdown s"
  "calibration (triggerDebugAlarm pref now rnd s) = calibration s"
  "baselines (triggerDebugAlarm pref now rnd s) = baselines s"
  "isCalibrating (triggerDebugAlarm pref now rnd s) = isCalibrating s"
  "calibrationProgress (triggerDebugAlarm pref now rnd s) = calibrationProgress s"
  by (simp_all add: triggerDebugAlarm_def Let_def)

lemma silenceAlarm_frame [simp]:
  "isAbsenceAlarmArmed (snd (silenceAlarm input s)) = isAbsenceAlarmArmed s"
  "absentStartTime (snd (silenceAlarm input s)) = absentStartTime s"
  "absentCountdown (snd (silenceAlarm input s)) = absentCountdown s"
  "calibration (snd (silenceAlarm input s)) = calibration s"
  "baselines (snd (silenceAlarm input s)) = baselines s"
  "isCalibrating (snd (silenceAlarm input s)) = isCalibrating s"
  "calibrationProgress (snd (silenceAlarm input s)) = calibrationProgress s"
  by (simp_all add: silenceAlarm_def)

lemma handlePose_frame [simp]:
  "isAbsenceAlarmArmed (handlePose p s) = isAbsenceAlarmArmed s"
  "absentStartTime (handlePose p s) = absentStartTime s"
  "absentCountdown (handlePose p s) = absentCountdown s"
  "calibration (handlePose p s) = calibration s"
  "baselines (handlePose p s) = baselines s"
  "isCalibrating (handlePose p s) = isCalibrating s"
  "calibrationProgress (handlePose p s) = calibrationProgress s"
  by (simp_all add: handlePose_def)

lemma setActive_frame [simp]:
  "isAbsenceAlarmArmed (setActive b s) = isAbsenceAlarmArmed s"
  "absentStartTime (setActive b s) = absentStartTime s"
  "absentCountdown (setActive b s) = absentCountdown s"
  by (simp_all add: setActive_def)



lemma absenceCountdown_disarmed:
  "\<not> isAbsenceAlarmArmed s \<Longrightarrow> absenceCountdown now rnd s = (False, s)"
  by (simp add: absenceCountdown_def)

lemma restartCalibration_frame [simp]:
  "isAbsenceAlarmArmed (restartCalibration s) = isAbsenceAlarmArmed s"
  "absentStartTime (restartCalibration s) = None"
  "absentCountdown (restartCalibration s) = None"
  "baselines (restartCalibration s) = baselines s"
  "collecting (calibration (restartCalibration s)) = collecting (calibration s)"
  by (simp_all add: restartCalibration_def Let_def)

lemma collectCalibrationSample_frame [simp]:
  "isAbsenceAlarmArmed (snd (collectCalibrationSample f now s)) = isAbsenceAlarmArmed s"
  "absentStartTime (snd (collectCalibrationSample f now s)) = absentStartTime s"
  "absentCountdown (snd (collectCalibrationSample f now s)) = absentCountdown s"
  by (simp_all add: collectCalibrationSample_def Let_def)

lemma handleFace_absence [simp]:
  "isAbsenceAlarmArmed (handleFace f now cap rnd s) = isAbsenceAlarmArmed s"
  "absentStartTime (handleFace f now cap rnd s) = None"
  "absentCountdown (handleFace f now cap rnd s) = None"
  by (simp_all add: handleFace_def Let_def)

lemma handleMissingFace_disarmed:
  assumes "\<not> isAbsenceAlarmArmed s"
  shows "handleMissingFace now rnd s =
     (if collecting (calibration s)
      then restartCalibration
             (s\<lparr>missingFaceFrames := missingFaceFrames s + 1,
                eyesClosedSec := Some (real (missingFaceFrames s + 1) / FPS)\<rparr>)
      else classifyMissingFace (real (missingFaceFrames s + 1) / FPS) now rnd
             (s\<lparr>missingFaceFrames := missingFaceFrames s + 1,
                eyesClosedSec := Some (real (missingFaceFrames s + 1) / FPS)\<rparr>))"
  using assms by (simp add: handleMissingFace_def Let_def absenceCountdown_disarmed)

lemma quiet_handleMissingFace: "quiet s \<Longrightarrow> quiet (handleMissingFace now rnd s)"
  by (simp add: quiet_def handleMissingFace_disarmed)

lemma quiet_step: "quiet s \<Longrightarrow> quiet (step s e)"
proof (cases e)
  case (LandmarksEvent d now cap rnd)
  assume "quiet s"
  then show ?thesis
    using LandmarksEvent quiet_handleMissingFace[of s now rnd]
    by (cases d) (simp_all add: handleLandmarks_def quiet_def)
qed (simp_all add: quiet_def disarmAbsenceAlarm_def)

lemma quiet_run: "quiet s \<Longrightarrow> quiet (run events s)"
  unfolding run_def by (induction events arbitrary: s) (simp_all add: quiet_step)

lemma quiet_disarm: "quiet (disarmAbsenceAlarm s)"
  by (simp add: quiet_def disarmAbsenceAlarm_def)

lemma confidence_classifyMissingFace:
  "confidence (classifyMissingFace ms now rnd s) \<noteq> 0.99"
  by (simp add: classifyMissingFace_def Let_def resetAlarmState_def updateChallenge_def
        updateRequireAck_def updateAlarmPhrase_def updateActiveAlarms_def)

lemma confidence_restartCalibration:
  "confidence (restartCalibration s) \<noteq> 0.99"
  by (simp add: restartCalibration_def Let_def resetAlarmState_def updateChallenge_def
        updateRequireAck_def updateAlarmPhrase_def updateActiveAlarms_def)

lemma confidence_handleMissingFace_disarmed:
  assumes "\<not> isAbsenceAlarmArmed s"
  shows "confidence (handleMissingFace now rnd s) \<noteq> 0.99"
proof (cases "collecting (calibration s)")
  case True
  show ?thesis
    unfolding handleMissingFace_disarmed[OF assms] if_P[OF True]
    by (rule confidence_restartCalibration)
next
  case False
  show ?thesis
    unfolding handleMissingFace_disarmed[OF assms] if_not_P[OF False]
    by (rule confidence_classifyMissingFace)
qed

lemma alarmBatchFrom_length [simp]: "length (alarmBatchFrom source cursor n t) = n"
  by (simp add: alarmBatchFrom_def)

lemma sleeping_library_nth:
  "i < 40 \<Longrightarrow> ALARM_LIBRARY_sleeping ! i = sleepingDefinition i"
  by (simp add: ALARM_LIBRARY_sleeping_def)

lemma sleepingDefinition_level [simp]: "def_level (sleepingDefinition i) = Critical"
  by (simp add: sleepingDefinition_def)

lemma sleeping_batch_member:
  assumes "a \<in> set (alarmBatchFrom ALARM_LIBRARY_sleeping cursor n t)"
  shows "alarm_level a = Critical \<and> triggeredAt a = t \<and>
         (\<exists>d \<in> set ALARM_LIBRARY_sleeping. alarm_id a = def_id d \<and> alarm_message a = def_message d)"
proof -
  have len: "length ALARM_LIBRARY_sleeping = 40" by (simp add: ALARM_LIBRARY_sleeping_def)
  from assms obtain k where k: "k < n"
    and a: "a = \<lparr>alarm_id = def_id (ALARM_LIBRARY_sleeping ! ((cursor + k) mod 40)),
                 alarm_message = def_message (ALARM_LIBRARY_sleeping ! ((cursor + k) mod 40)),
                 alarm_level = def_level (ALARM_LIBRARY_sleeping ! ((cursor + k) mod 40)),
                 triggeredAt = t\<rparr>"
    by (auto simp: alarmBatchFrom_def len Let_def)
  have idx: "(cursor + k) mod 40 < 40" by simp
  have mem: "ALARM_LIBRARY_sleeping ! ((cursor + k) mod 40) \<in> set ALARM_LIBRARY_sleeping"
    using idx len by (metis nth_mem)
  have lvl: "def_level (ALARM_LIBRARY_sleeping ! ((cursor + k) mod 40)) = Critical"
    by (simp only: sleeping_library_nth[OF idx] sleepingDefinition_level)
  show ?thesis
    using mem lvl unfolding a by auto
qed

lemma assignNewChallenge_preferred:
  "pref \<in> {Math, Trivia} \<Longrightarrow> challengeType (assignNewChallenge (Some pref) rnd s) = pref"
  "pref \<in> {Math, Trivia} \<Longrightarrow> challengeAnswer (assignNewChallenge (Some pref) rnd s) \<noteq> None"
  "pref \<in> {Math, Trivia} \<Longrightarrow> alarmPhrase (assignNewChallenge (Some pref) rnd s) = None"
  "activeAlarms (assignNewChallenge p rnd s) = activeAlarms s"
  "effects (assignNewChallenge p rnd s) = effects s"
  by (auto simp: assignNewChallenge_def createChallenge_def Let_def updateChallenge_def
        updateAlarmPhrase_def)

lemma raiseAlarmBatch_sleeping:
  "activeAlarms (raiseAlarmBatch SleepingTier n now s)
     = alarmBatchFrom ALARM_LIBRARY_sleeping (alarmCursorSleeping s) n now"
  "effects (raiseAlarmBatch tier n now s) = effects s"
  by (cases tier; simp add: raiseAlarmBatch_def getAlarmBatch_def Let_def alarmSource_def alarmCursor_def
        setAlarmCursor_def updateActiveAlarms_def)+

lemma absenceCountdown_fires:
  assumes "isAbsenceAlarmArmed s" and "absentStartTime s = Some t0" and "5000 \<le> now - t0"
    and "\<not> requireAck s"
  shows "fst (absenceCountdown now rnd s)"
    and "state (snd (absenceCountdown now rnd s)) = Sleeping"
    and "confidence (snd (absenceCountdown now rnd s)) = 0.99"
    and "activeAlarms (snd (absenceCountdown now rnd s))
           = alarmBatchFrom ALARM_LIBRARY_sleeping (alarmCursorSleeping s) 5 now"
    and "requireAck (snd (absenceCountdown now rnd s))"
    and "lastAlarmState (snd (absenceCountdown now rnd s)) = Sleeping"
    and "challengeType (snd (absenceCountdown now rnd s)) = (if rndCoin rnd then Math else Trivia)"
    and "effects (snd (absenceCountdown now rnd s)) = effects s @ [PlayDrowsinessAlert True]"
proof -
  have dur: "5 \<le> real_of_int (now - t0) / 1000" using assms(3) by simp
  show "fst (absenceCountdown now rnd s)"
    using assms(1,2,4) dur by (simp add: absenceCountdown_def Let_def)
  have eq: "snd (absenceCountdown now rnd s) =
      (updateRequireAck True
         (assignNewChallenge (Some (if rndCoin rnd then Math else Trivia)) rnd
            (emit (PlayDrowsinessAlert True)
               (raiseAlarmBatch SleepingTier 5 now
                  (s\<lparr>absentStartTime := Some t0,
                     absentCountdown := Some (max 0 (5 - real_of_int (now - t0) / 1000))\<rparr>)))))
        \<lparr>lastAlarmState := Sleeping, state := Sleeping, confidence := 0.99\<rparr>"
    using assms(1,2,4) dur by (simp add: absenceCountdown_def Let_def)
  show "state (snd (absenceCountdown now rnd s)) = Sleeping"
    and "confidence (snd (absenceCountdown now rnd s)) = 0.99"
    and "lastAlarmState (snd (absenceCountdown now rnd s)) = Sleeping"
    unfolding eq by simp_all
  show "requireAck (snd (absenceCountdown now rnd s))"
    unfolding eq by (simp add: updateRequireAck_def)
  show "activeAlarms (snd (absenceCountdown now rnd s))
           = alarmBatchFrom ALARM_LIBRARY_sleeping (alarmCursorSleeping s) 5 now"
    unfolding eq
    by (simp add: updateRequireAck_def assignNewChallenge_preferred emit_def raiseAlarmBatch_sleeping)
  show "challengeType (snd (absenceCountdown now rnd s)) = (if rndCoin rnd then Math else Trivia)"
    unfolding eq by (simp add: updateRequireAck_def assignNewChallenge_preferred)
  show "effects (snd (absenceCountdown now rnd s)) = effects s @ [PlayDrowsinessAlert True]"
    unfolding eq
    by (simp add: updateRequireAck_def assignNewChallenge_preferred emit_def raiseAlarmBatch_sleeping)
qed

lemma absenceCountdown_frame [simp]:
  "isAbsenceAlarmArmed (snd (absenceCountdown now rnd s)) = isAbsenceAlarmArmed s"
  "calibration (snd (absenceCountdown now rnd s)) = calibration s"
  "baselines (snd (absenceCountdown now rnd s)) = baselines s"
  by (simp_all add: absenceCountdown_def Let_def)

lemma absenceCountdown_requireAck:
  "fst (absenceCountdown now rnd s) \<Longrightarrow> requireAck (snd (absenceCountdown now rnd s))"
  "\<not> fst (absenceCountdown now rnd s) \<Longrightarrow>
     requireAck (snd (absenceCountdown now rnd s)) = requireAck s"
  "requireAck s \<Longrightarrow> \<not> fst (absenceCountdown now rnd s)"
  by (simp_all add: absenceCountdown_def Let_def updateRequireAck_def split: if_splits)

lemma absenceCountdown_start:
  assumes "isAbsenceAlarmArmed s" and "\<not> fst (absenceCountdown now rnd s)"
  shows "absentStartTime (snd (absenceCountdown now rnd s))
           = Some (case absentStartTime s of None \<Rightarrow> now | Some t \<Rightarrow> t)"
  using assms by (simp add: absenceCountdown_def Let_def split: if_splits)

lemma absenceCountdown_first:
  assumes "absentStartTime s = None"
  shows "\<not> fst (absenceCountdown now rnd s)"
  using assms by (simp add: absenceCountdown_def Let_def)

lemma classifyMissingFace_requireAck:
  "requireAck s \<Longrightarrow> requireAck (classifyMissingFace ms now rnd s)"
  by (simp add: classifyMissingFace_def Let_def updateRequireAck_def)

lemma handleMissingFace_not_collecting:
  assumes "\<not> collecting (calibration s)"
  shows "handleMissingFace now rnd s =
     (let s2 = s\<lparr>missingFaceFrames := missingFaceFrames s + 1,
                  eyesClosedSec := Some (real (missingFaceFrames s + 1) / FPS)\<rparr>
      in if fst (absenceCountdown now rnd s2) then snd (absenceCountdown now rnd s2)
         else classifyMissingFace (real (missingFaceFrames s + 1) / FPS) now rnd
                (snd (absenceCountdown now rnd s2)))"
  using assms by (simp add: handleMissingFace_def Let_def)

lemma awaiting_handleMissingFace:
  assumes "awaiting t1 s"
  shows "awaiting t1 (handleMissingFace now rnd s)"
proof -
  define s2 where "s2 = s\<lparr>missingFaceFrames := missingFaceFrames s + 1,
                  eyesClosedSec := Some (real (missingFaceFrames s + 1) / FPS)\<rparr>"
  have nc: "\<not> collecting (calibration s)" and armed: "isAbsenceAlarmArmed s2"
    using assms by (simp_all add: awaiting_def s2_def)
  have hm: "handleMissingFace now rnd s =
      (if fst (absenceCountdown now rnd s2) then snd (absenceCountdown now rnd s2)
       else classifyMissingFace (real (missingFaceFrames s + 1) / FPS) now rnd
              (snd (absenceCountdown now rnd s2)))"
    unfolding handleMissingFace_not_collecting[OF nc] s2_def Let_def ..
  show ?thesis
  proof (cases "fst (absenceCountdown now rnd s2)")
    case True
    then show ?thesis
      using assms absenceCountdown_requireAck(1)[OF True]
      by (simp add: hm awaiting_def s2_def)
  next
    case False
    have ra: "requireAck (snd (absenceCountdown now rnd s2)) = requireAck s"
      using absenceCountdown_requireAck(2)[OF False] by (simp add: s2_def)
    have st: "absentStartTime (snd (absenceCountdown now rnd s2))
           = Some (case absentStartTime s of None \<Rightarrow> now | Some t \<Rightarrow> t)"
      using absenceCountdown_start[OF armed False] by (simp add: s2_def)
    show ?thesis
    proof (cases "requireAck s")
      case True
      then show ?thesis
        using assms False ra classifyMissingFace_requireAck
        by (simp add: hm awaiting_def s2_def)
    next
      case nra: False
      then have "absentStartTime s = Some t1" using assms by (simp add: awaiting_def)
      then show ?thesis
        using assms False st by (simp add: hm awaiting_def s2_def)
    qed
  qed
qed

lemma awaiting_first:
  assumes "isAbsenceAlarmArmed s" and "\<not> collecting (calibration s)" and "absentStartTime s = None"
  shows "awaiting t1 (handleMissingFace t1 rnd s)"
proof -
  define s2 where "s2 = s\<lparr>missingFaceFrames := missingFaceFrames s + 1,
                  eyesClosedSec := Some (real (missingFaceFrames s + 1) / FPS)\<rparr>"
  have armed: "isAbsenceAlarmArmed s2" and none: "absentStartTime s2 = None"
    using assms by (simp_all add: s2_def)
  have nf: "\<not> fst (absenceCountdown t1 rnd s2)" using none by (rule absenceCountdown_first)
  have st: "absentStartTime (snd (absenceCountdown t1 rnd s2)) = Some t1"
    using absenceCountdown_start[OF armed nf] none by simp
  have hm: "handleMissingFace t1 rnd s =
       classifyMissingFace (real (missingFaceFrames s + 1) / FPS) t1 rnd
              (snd (absenceCountdown t1 rnd s2))"
    using nf unfolding handleMissingFace_not_collecting[OF assms(2)] s2_def Let_def by simp
  show ?thesis
    using assms st by (simp add: hm awaiting_def s2_def)
qed

lemma awaiting_run:
  "awaiting t1 s \<Longrightarrow> awaiting t1 (run (missingFrames frames) s)"
  unfolding run_def missingFrames_def
  by (induction frames arbitrary: s)
     (auto simp: handleLandmarks_def awaiting_handleMissingFace)

lemma awaiting_from_face:
  assumes "isAbsenceAlarmArmed s0" and "\<not> collecting (calibration s0)"
    and "absentStartTime s0 = None"
  shows "awaiting t1 (run (missingFrames ((t1, cap1, rnd1) # rest)) s0)"
proof -
  have "run (missingFrames ((t1, cap1, rnd1) # rest)) s0
        = run (missingFrames rest) (handleMissingFace t1 rnd1 s0)"
    by (simp add: run_def missingFrames_def handleLandmarks_def)
  then show ?thesis
    using awaiting_run[OF awaiting_first[OF assms, of t1 rnd1], of rest] by simp
qed

lemma average_nonempty: "xs \<noteq> [] \<Longrightarrow> average xs = sum_list xs / real (length xs)"
  by (simp add: average_def)

lemma length_filter_take_le: "length (filter P (take k xs)) \<le> length (filter P xs)"
proof -
  have "length (filter P xs) = length (filter P (take k xs)) + length (filter P (drop k xs))"
    by (metis append_take_drop_id filter_append length_append)
  then show ?thesis by simp
qed

lemma length_filter_drop_le: "length (filter P (drop k xs)) \<le> length (filter P xs)"
proof -
  have "length (filter P xs) = length (filter P (take k xs)) + length (filter P (drop k xs))"
    by (metis append_take_drop_id filter_append length_append)
  then show ?thesis by simp
qed

lemma length_filter_sort: "length (filter P (sort xs)) = length (filter P xs)"
  by (simp add: filter_sort)

lemma sorted_take_le:
  assumes "sorted ys" and "k < length ys" and "ys ! k \<le> m"
  shows "filter (\<lambda>x. x \<le> m) (take (Suc k) ys) = take (Suc k) ys"
proof -
  have "\<forall>x \<in> set (take (Suc k) ys). x \<le> m"
  proof
    fix x assume "x \<in> set (take (Suc k) ys)"
    then obtain i where i: "i < Suc k" "i < length ys" "x = ys ! i"
      by (auto simp: in_set_conv_nth)
    then have "ys ! i \<le> ys ! k" using assms(1,2) by (simp add: sorted_nth_mono)
    then show "x \<le> m" using i assms(3) by simp
  qed
  then show ?thesis by simp
qed

lemma sorted_drop_ge:
  assumes "sorted ys" and "k < length ys" and "(m::real) \<le> ys ! k"
  shows "filter (\<lambda>x. m \<le> x) (drop k ys) = drop k ys"
proof -
  have "\<forall>x \<in> set (drop k ys). m \<le> x"
  proof
    fix x assume "x \<in> set (drop k ys)"
    then obtain i where i: "i < length ys - k" "x = ys ! (k + i)"
      by (auto simp: in_set_conv_nth)
    then have "ys ! k \<le> ys ! (k + i)" using assms(1,2) by (simp add: sorted_nth_mono)
    then show "m \<le> x" using i assms(3) by simp
  qed
  then show ?thesis by simp
qed

lemma median_bounds:
  assumes "xs \<noteq> []"
  shows "length xs \<le> 2 * length (filter (\<lambda>x. x \<le> median xs) xs)"
    and "length xs \<le> 2 * length (filter (\<lambda>x. median xs \<le> x) xs)"
proof -
  define ys where "ys = sort xs"
  define k where "k = length ys div 2"
  have srt: "sorted ys" and len: "length ys = length xs" by (simp_all add: ys_def)
  have pos: "0 < length ys" using assms len by simp
  have kl: "k < length ys" using pos by (simp add: k_def)
  show "length xs \<le> 2 * length (filter (\<lambda>x. x \<le> median xs) xs)"
  proof (cases "length ys mod 2 = 0")
    case True
    then have k1: "0 < k" using pos unfolding k_def by presburger
    have m: "median xs = (ys ! (k - 1) + ys ! k) / 2"
      using assms True by (simp add: median_def Let_def ys_def[symmetric] k_def[symmetric])
    have "ys ! (k - 1) \<le> ys ! k" using srt kl by (simp add: sorted_nth_mono)
    then have le: "ys ! (k - 1) \<le> median xs" unfolding m by simp
    have "filter (\<lambda>x. x \<le> median xs) (take (Suc (k - 1)) ys) = take (Suc (k - 1)) ys"
      using srt kl le by (intro sorted_take_le) simp_all
    then have "length (filter (\<lambda>x. x \<le> median xs) (take k ys)) = k"
      using k1 kl by simp
    then have "k \<le> length (filter (\<lambda>x. x \<le> median xs) ys)"
      using length_filter_take_le[of "\<lambda>x. x \<le> median xs" k ys] by simp
    moreover have "length ys = 2 * k" using True unfolding k_def by presburger
    ultimately show ?thesis
      using len by (simp add: ys_def length_filter_sort)
  next
    case False
    have m: "median xs = ys ! k"
      using assms False by (simp add: median_def Let_def ys_def[symmetric] k_def[symmetric])
    have "filter (\<lambda>x. x \<le> median xs) (take (Suc k) ys) = take (Suc k) ys"
      using srt kl by (intro sorted_take_le) (simp_all add: m)
    then have "length (filter (\<lambda>x. x \<le> median xs) (take (Suc k) ys)) = Suc k"
      using kl by simp
    then have "Suc k \<le> length (filter (\<lambda>x. x \<le> median xs) ys)"
      using length_filter_take_le[of "\<lambda>x. x \<le> median xs" "Suc k" ys] by simp
    moreover have "length ys = 2 * k + 1" using False unfolding k_def by presburger
    ultimately show ?thesis
      using len by (simp add: ys_def length_filter_sort)
  qed
  show "length xs \<le> 2 * length (filter (\<lambda>x. median xs \<le> x) xs)"
  proof (cases "length ys mod 2 = 0")
    case True
    then have k1: "0 < k" using pos unfolding k_def by presburger
    have m: "median xs = (ys ! (k - 1) + ys ! k) / 2"
      using assms True by (simp add: median_def Let_def ys_def[symmetric] k_def[symmetric])
    have "ys ! (k - 1) \<le> ys ! k" using srt kl by (simp add: sorted_nth_mono)
    then have le: "median xs \<le> ys ! k" unfolding m by simp
    have "filter (\<lambda>x. median xs \<le> x) (drop k ys) = drop k ys"
      using srt kl le by (rule sorted_drop_ge)
    then have "length (filter (\<lambda>x. median xs \<le> x) (drop k ys)) = length ys - k"
      by simp
    then have "length ys - k \<le> length (filter (\<lambda>x. median xs \<le> x) ys)"
      using length_filter_drop_le[of "\<lambda>x. median xs \<le> x" k ys] by simp
    moreover have "length ys = 2 * k" using True unfolding k_def by presburger
    ultimately show ?thesis
      using len by (simp add: ys_def length_filter_sort)
  next
    case False
    have m: "median xs = ys ! k"
      using assms False by (simp add: median_def Let_def ys_def[symmetric] k_def[symmetric])
    have "filter (\<lambda>x. median xs \<le> x) (drop k ys) = drop k ys"
      using srt kl by (intro sorted_drop_ge) (simp_all add: m)
    then have "length (filter (\<lambda>x. median xs \<le> x) (drop k ys)) = length ys - k"
      by simp
    then have "length ys - k \<le> length (filter (\<lambda>x. median xs \<le> x) ys)"
      using length_filter_drop_le[of "\<lambda>x. median xs \<le> x" k ys] by simp
    moreover have "length ys = 2 * k + 1" using False unfolding k_def by presburger
    ultimately show ?thesis
      using len by (simp add: ys_def length_filter_sort)
  qed
qed

lemma collectCalibrationSample_result:
  assumes "start = (case startTimestamp (calibration s) of None \<Rightarrow> now | Some t \<Rightarrow> t)"
    and "ps = pitchSamples (calibration s) @ [pitchAngleRaw f]"
  shows "fst (collectCalibrationSample f now s) = (4000 \<le> now - start \<and> 90 \<le> length ps)"
    and "collecting (calibration (snd (collectCalibrationSample f now s)))
           = (collecting (calibration s) \<and> \<not> (4000 \<le> now - start \<and> 90 \<le> length ps))"
    and "pitchSamples (calibration (snd (collectCalibrationSample f now s))) = ps"
    and "earSamples (calibration (snd (collectCalibrationSample f now s)))
           = earSamples (calibration s) @ [currentEar f]"
    and "tiltSamples (calibration (snd (collectCalibrationSample f now s)))
           = tiltSamples (calibration s) @ [tiltAngleRaw f]"
    and "faceWidthSamples (calibration (snd (collectCalibrationSample f now s)))
           = faceWidthSamples (calibration s) @ [currentFaceWidth f]"
    and "startTimestamp (calibration (snd (collectCalibrationSample f now s))) = Some start"
  unfolding assms by (simp_all add: collectCalibrationSample_def Let_def updateActiveAlarms_def)

lemma collectCalibrationSample_completed:
  assumes "fst (collectCalibrationSample f now s)"
  shows "baselines (snd (collectCalibrationSample f now s)) =
           Some \<lparr>pitch = median (pitchSamples (calibration s) @ [pitchAngleRaw f]),
                 ear = average (earSamples (calibration s) @ [currentEar f]),
                 tilt = average (tiltSamples (calibration s) @ [tiltAngleRaw f]),
                 faceWidth = average (faceWidthSamples (calibration s) @ [currentFaceWidth f])\<rparr>"
    and "\<not> isCalibrating (snd (collectCalibrationSample f now s))"
    and "calibrationProgress (snd (collectCalibrationSample f now s)) = 1"
  using assms by (auto simp add: collectCalibrationSample_def Let_def split: if_splits)

lemma collectCalibrationSample_pending:
  assumes "\<not> fst (collectCalibrationSample f now s)"
  shows "baselines (snd (collectCalibrationSample f now s)) = baselines s"
    and "isCalibrating (snd (collectCalibrationSample f now s)) = isCalibrating s"
    and "state (snd (collectCalibrationSample f now s)) = Awake"
    and "confidence (snd (collectCalibrationSample f now s)) = 0.15"
  using assms
  by (auto simp add: collectCalibrationSample_def Let_def updateActiveAlarms_def split: if_splits)

lemma handleFace_collecting:
  assumes "collecting (calibration s)"
  shows "handleFace f now cap rnd s =
     (let s1 = s\<lparr>missingFaceFrames := 0, absentStartTime := None, absentCountdown := None\<rparr>
      in if fst (collectCalibrationSample f now s1)
         then classifyFace f now cap rnd (baselines s) (snd (collectCalibrationSample f now s1))
         else snd (collectCalibrationSample f now s1))"
  using assms by (simp add: handleFace_def Let_def)

lemma classifyMissingFace_sleep:
  assumes "5 \<le> ms" and "\<not> requireAck s"
  shows "state (classifyMissingFace ms now rnd s) = Sleeping"
    and "confidence (classifyMissingFace ms now rnd s) = 0.98"
    and "length (activeAlarms (classifyMissingFace ms now rnd s)) = 5"
    and "requireAck (classifyMissingFace ms now rnd s)"
  using assms
  by (simp_all add: classifyMissingFace_def Let_def updateRequireAck_def
        assignNewChallenge_preferred(4) emit_def raiseAlarmBatch_def getAlarmBatch_def
        updateActiveAlarms_def)

text \<open>
  Disarming switches off the countdown only: a long enough run of frames without a face
  still raises the sleeping alarm through the missing-frame count (150 frames stand for 5
  seconds), with confidence 0.98.
\<close>

lemma missing_frame_count_alarms_when_disarmed:
  assumes "\<not> isAbsenceAlarmArmed s" and "\<not> collecting (calibration s)"
    and "\<not> requireAck s" and "149 \<le> missingFaceFrames s"
  shows "state (handleLandmarks None now cap rnd s) = Sleeping \<and>
         confidence (handleLandmarks None now cap rnd s) = 0.98 \<and>
         length (activeAlarms (handleLandmarks None now cap rnd s)) = 5 \<and>
         requireAck (handleLandmarks None now cap rnd s)"
proof -
  have ms: "5 \<le> real (missingFaceFrames s + 1) / FPS" using assms(4) by simp
  have nr: "\<not> requireAck (s\<lparr>missingFaceFrames := missingFaceFrames s + 1,
                eyesClosedSec := Some (real (missingFaceFrames s + 1) / FPS)\<rparr>)"
    using assms(3) by simp
  show ?thesis
    unfolding handleLandmarks_def option.case handleMissingFace_disarmed[OF assms(1)]
      if_not_P[OF assms(2)]
    using classifyMissingFace_sleep[OF ms nr] by blast
qed

lemma classifyMissingFace_nod:
  assumes "3.5 \<le> ms" and "ms < 5" and "\<not> requireAck s"
  shows "state (classifyMissingFace ms now rnd s) = NoddingOff"
    and "confidence (classifyMissingFace ms now rnd s) = 0.94"
    and "length (activeAlarms (classifyMissingFace ms now rnd s)) = 4"
    and "requireAck (classifyMissingFace ms now rnd s)"
  using assms
  by (simp_all add: classifyMissingFace_def Let_def updateRequireAck_def
        assignNewChallenge_preferred(4) emit_def raiseAlarmBatch_def getAlarmBatch_def
        updateActiveAlarms_def)

text \<open>
  At the nominal 30 frames per second the missing-frame count reaches 3.5 seconds (frame
  105) before the countdown reaches 5 seconds, and raises the nodding alarm: from then on an
  acknowledgment is outstanding, which keeps the countdown from firing. The countdown fires
  only when frames arrive more slowly than counted.
\<close>

lemma missing_frame_count_nods_before_countdown:
  assumes "\<not> collecting (calibration s)" and "\<not> requireAck s"
    and "104 \<le> missingFaceFrames s" and "missingFaceFrames s < 149"
    and "\<not> fst (absenceCountdown now rnd
                  (s\<lparr>missingFaceFrames := missingFaceFrames s + 1,
                     eyesClosedSec := Some (real (missingFaceFrames s + 1) / FPS)\<rparr>))"
  shows "state (handleLandmarks None now cap rnd s) = NoddingOff \<and>
         confidence (handleLandmarks None now cap rnd s) = 0.94 \<and>
         length (activeAlarms (handleLandmarks None now cap rnd s)) = 4 \<and>
         requireAck (handleLandmarks None now cap rnd s)"
proof -
  define s2 where "s2 = s\<lparr>missingFaceFrames := missingFaceFrames s + 1,
                     eyesClosedSec := Some (real (missingFaceFrames s + 1) / FPS)\<rparr>"
  have lo: "3.5 \<le> real (missingFaceFrames s + 1) / FPS" using assms(3) by simp
  have hi: "real (missingFaceFrames s + 1) / FPS < 5" using assms(4) by simp
  have nf: "\<not> fst (absenceCountdown now rnd s2)" using assms(5) by (simp add: s2_def)
  have nr: "\<not> requireAck (snd (absenceCountdown now rnd s2))"
    using absenceCountdown_requireAck(2)[OF nf] assms(2) by (simp add: s2_def)
  have hm: "handleLandmarks None now cap rnd s =
      classifyMissingFace (real (missingFaceFrames s + 1) / FPS) now rnd
        (snd (absenceCountdown now rnd s2))"
    using nf unfolding handleLandmarks_def option.case handleMissingFace_not_collecting[OF assms(1)]
      Let_def s2_def by simp
  show ?thesis
    unfolding hm using classifyMissingFace_nod[OF lo hi nr] by blast
qed

subsection \<open>Properties of the string operations\<close>

text \<open>\<open>trim\<close> removes a run of white space at each end and nothing else.\<close>

lemma trim_decomposition:
  "\<exists>before after. s = before @ trim s @ after \<and>
      (\<forall>c \<in> set before. isWhitespace c) \<and> (\<forall>c \<in> set after. isWhitespace c)"
proof -
  define d where "d = dropWhile isWhitespace s"
  have 1: "s = takeWhile isWhitespace s @ d" by (simp add: d_def)
  have "rev d = takeWhile isWhitespace (rev d) @ dropWhile isWhitespace (rev d)" by simp
  then have "d = rev (dropWhile isWhitespace (rev d)) @ rev (takeWhile isWhitespace (rev d))"
    by (metis rev_append rev_rev_ident)
  then have 2: "d = trim s @ rev (takeWhile isWhitespace (rev d))"
    unfolding trim_def d_def .
  have 3: "\<forall>c \<in> set (takeWhile isWhitespace s). isWhitespace c"
    by (auto dest: set_takeWhileD)
  have 4: "\<forall>c \<in> set (rev (takeWhile isWhitespace (rev d))). isWhitespace c"
    by (auto dest: set_takeWhileD)
  from 1 2 have "s = takeWhile isWhitespace s @ trim s @ rev (takeWhile isWhitespace (rev d))"
    by simp
  with 3 4 show ?thesis by blast
qed

text \<open>What is left of a string after \<open>trim\<close> neither starts nor ends with white space.\<close>

lemma trim_ends:
  assumes "trim s \<noteq> []"
  shows "\<not> isWhitespace (hd (trim s))" and "\<not> isWhitespace (last (trim s))"
proof -
  define d where "d = dropWhile isWhitespace s"
  define e where "e = dropWhile isWhitespace (rev d)"
  have t: "trim s = rev e" by (simp add: trim_def d_def e_def)
  then have ne: "e \<noteq> []" using assms by simp
  have "\<not> isWhitespace (hd e)" using ne unfolding e_def by (rule hd_dropWhile)
  then show "\<not> isWhitespace (last (trim s))" using ne by (simp add: t last_rev)
  have sub: "set e \<subseteq> set d" unfolding e_def using set_dropWhileD by fastforce
  have dne: "d \<noteq> []" using ne sub by auto
  have hd_d: "\<not> isWhitespace (hd d)" using dne unfolding d_def by (rule hd_dropWhile)
  have "rev d = takeWhile isWhitespace (rev d) @ e" by (simp add: e_def)
  then have "d = rev e @ rev (takeWhile isWhitespace (rev d))"
    by (metis rev_append rev_rev_ident)
  then have "hd d = hd (rev e)" using ne by (metis hd_append2 rev_is_Nil_conv)
  then show "\<not> isWhitespace (hd (trim s))" using hd_d by (simp add: t)
qed

text \<open>
  Tab, no-break space, carriage return, line feed and space are stripped, the controls
  U+0085 and U+001F are not; upper case on ASCII and on the accented letters.
\<close>

lemma string_examples:
  "trim (CHR 0x09 # CHR 0xA0 # ''4 2'' @ [CHR 0x0D, CHR 0x0A, CHR 0x20]) = ''4 2''"
  "trim [CHR 0x85, CHR 0x1F] = [CHR 0x85, CHR 0x1F]"
  "toUpperCase ''Paris 42'' = map of_char ''PARIS 42''"
  "toUpperCase [CHR 0xE9, CHR 0xF7, CHR 0xFE, CHR 0xDF, CHR 0xFF, CHR 0xB5]
     = [0xC9, 0xF7, 0xDE, 0x53, 0x53, 0x178, 0x39C]"
  by code_simp+

subsection \<open>Lemmas about runs of frames\<close>

lemma run_snoc: "run (events @ [e]) s = step (run events s) e"
  by (simp add: run_def)

lemma run_Cons: "run (e # events) s = run events (step s e)"
  by (simp add: run_def)

lemma run_append: "run (events @ events') s = run events' (run events s)"
  by (simp add: run_def)

lemma faceFrames_snoc:
  "faceFrames (frames @ [(f, now, cap, rnd)]) = faceFrames frames @ [LandmarksEvent (Some f) now cap rnd]"
  by (simp add: faceFrames_def)

text \<open>The median is half the sum of the two middle elements of the sorted samples.\<close>

lemma median_middle:
  assumes "xs \<noteq> []"
  shows "2 * median xs = sort xs ! ((length xs - 1) div 2) + sort xs ! (length xs div 2)"
proof -
  have pos: "0 < length xs" using assms by simp
  show ?thesis
  proof (cases "length xs mod 2 = 0")
    case True
    then have "(length xs - 1) div 2 = length xs div 2 - 1" using pos by presburger
    then show ?thesis using True assms by (simp add: median_def Let_def)
  next
    case False
    then have "(length xs - 1) div 2 = length xs div 2" by presburger
    then show ?thesis using False assms by (simp add: median_def Let_def)
  qed
qed

text \<open>
  One more frame with a face while the collection is running: either the criterion is met
  with this frame and the baseline is computed from all the samples, or the frame is added
  to the accumulator and nothing else about the calibration changes.
\<close>

lemma collected_step:
  assumes "calibration s = collected frames"
    and "s' = handleLandmarks (Some f) now cap rnd s"
    and "all = frames @ [(f, now, cap, rnd)]"
  shows "calibrationDue all \<Longrightarrow>
           baselines s' = Some \<lparr>pitch = median (map (pitchAngleRaw \<circ> fst) all),
                                 ear = average (map (currentEar \<circ> fst) all),
                                 tilt = average (map (tiltAngleRaw \<circ> fst) all),
                                 faceWidth = average (map (currentFaceWidth \<circ> fst) all)\<rparr> \<and>
           \<not> collecting (calibration s') \<and> \<not> isCalibrating s'"
    and "\<not> calibrationDue all \<Longrightarrow>
           calibration s' = collected all \<and> baselines s' = baselines s \<and>
           isCalibrating s' = isCalibrating s \<and> state s' = Awake \<and> confidence s' = 0.15"
proof -
  define s1 where "s1 = s\<lparr>missingFaceFrames := 0, absentStartTime := None, absentCountdown := None\<rparr>"
  have cal: "calibration s1 = collected frames" and bl: "baselines s1 = baselines s"
    and ic: "isCalibrating s1 = isCalibrating s"
    using assms(1) by (simp_all add: s1_def)
  have coll: "collecting (calibration s)" using assms(1) by (simp add: collected_def)
  define start where "start = (case startTimestamp (calibration s1) of None \<Rightarrow> now | Some t \<Rightarrow> t)"
  have start: "start = fst (snd (hd all))"
    unfolding start_def cal assms(3) by (cases frames) (simp_all add: collected_def)
  have due: "calibrationDue all = (4000 \<le> now - start \<and> 90 \<le> length (pitchSamples (calibration s1) @ [pitchAngleRaw f]))"
    unfolding start cal by (simp add: calibrationDue_def assms(3) collected_def)
  note res = collectCalibrationSample_result[OF start_def refl, of f]
  have hf: "s' = (if fst (collectCalibrationSample f now s1)
         then classifyFace f now cap rnd (baselines s) (snd (collectCalibrationSample f now s1))
         else snd (collectCalibrationSample f now s1))"
    unfolding assms(2) handleLandmarks_def option.case handleFace_collecting[OF coll]
      Let_def s1_def ..
  show "calibrationDue all \<Longrightarrow>
           baselines s' = Some \<lparr>pitch = median (map (pitchAngleRaw \<circ> fst) all),
                                 ear = average (map (currentEar \<circ> fst) all),
                                 tilt = average (map (tiltAngleRaw \<circ> fst) all),
                                 faceWidth = average (map (currentFaceWidth \<circ> fst) all)\<rparr> \<and>
           \<not> collecting (calibration s') \<and> \<not> isCalibrating s'"
  proof -
    assume d: "calibrationDue all"
    then have fin: "fst (collectCalibrationSample f now s1)" using res(1) due by simp
    have s': "s' = classifyFace f now cap rnd (baselines s) (snd (collectCalibrationSample f now s1))"
      using fin hf by simp
    show ?thesis
      unfolding s' using collectCalibrationSample_completed[OF fin] res(2) fin res(1)
      by (simp add: cal collected_def assms(3))
  qed
  show "\<not> calibrationDue all \<Longrightarrow>
           calibration s' = collected all \<and> baselines s' = baselines s \<and>
           isCalibrating s' = isCalibrating s \<and> state s' = Awake \<and> confidence s' = 0.15"
  proof -
    assume d: "\<not> calibrationDue all"
    then have pen: "\<not> fst (collectCalibrationSample f now s1)" using res(1) due by simp
    have s': "s' = snd (collectCalibrationSample f now s1)" using pen hf by simp
    have c: "calibration s' = collected all"
      unfolding s' assms(3) using pen cal
      by (cases frames)
         (simp_all add: collectCalibrationSample_def Let_def collected_def updateActiveAlarms_def
            split: if_splits)
    show ?thesis
      using c collectCalibrationSample_pending[OF pen] by (simp add: s' bl ic)
  qed
qed

text \<open>As long as the criterion has not been met, the accumulator holds all the frames.\<close>

lemma collected_run:
  assumes "calibration s0 = collected []"
  shows "(\<forall>k. 0 < k \<and> k \<le> length frames \<longrightarrow> \<not> calibrationDue (take k frames)) \<Longrightarrow>
         calibration (run (faceFrames frames) s0) = collected frames \<and>
         baselines (run (faceFrames frames) s0) = baselines s0 \<and>
         isCalibrating (run (faceFrames frames) s0) = isCalibrating s0 \<and>
         (frames \<noteq> [] \<longrightarrow> state (run (faceFrames frames) s0) = Awake \<and>
                            confidence (run (faceFrames frames) s0) = 0.15)"
proof (induction frames rule: rev_induct)
  case Nil
  then show ?case using assms by (simp add: run_def faceFrames_def)
next
  case (snoc x frames)
  obtain f now cap rnd where x: "x = (f, now, cap, rnd)" by (cases x) auto
  have prev: "\<forall>k. 0 < k \<and> k \<le> length frames \<longrightarrow> \<not> calibrationDue (take k frames)"
  proof (intro allI impI)
    fix k assume k: "0 < k \<and> k \<le> length frames"
    then show "\<not> calibrationDue (take k frames)"
      using snoc.prems[rule_format, of k] by simp
  qed
  note ih = snoc.IH[OF prev]
  have nd: "\<not> calibrationDue (frames @ [(f, now, cap, rnd)])"
    using snoc.prems[rule_format, of "Suc (length frames)"] by (simp add: x)
  have st: "run (faceFrames (frames @ [x])) s0
              = handleLandmarks (Some f) now cap rnd (run (faceFrames frames) s0)"
    by (simp add: x faceFrames_snoc run_snoc)
  from ih have c: "calibration (run (faceFrames frames) s0) = collected frames" by simp
  show ?case
    using collected_step(2)[OF c st refl nd] ih by (simp add: x)
qed


text \<open>
  The two ways a collection starts: the detector is switched on, or a frame without a face
  arrives while the collection is running.
\<close>

lemma setActive_starts_collection:
  "calibration (setActive True s) = collected []" "baselines (setActive True s) = None"
  by (simp_all add: setActive_def resetAlarmState_def updateChallenge_def updateRequireAck_def
        updateAlarmPhrase_def updateActiveAlarms_def collected_def emptyCalibration_def)

lemma missing_face_restarts_collection:
  assumes "collecting (calibration s)" and "absentStartTime s = None"
  shows "calibration (handleLandmarks None now cap rnd s) = collected []"
    and "baselines (handleLandmarks None now cap rnd s) = baselines s"
  using assms
  by (simp_all add: handleLandmarks_def handleMissingFace_def absenceCountdown_def
        restartCalibration_def resetAlarmState_def updateChallenge_def updateRequireAck_def
        updateAlarmPhrase_def updateActiveAlarms_def collected_def Let_def)


text \<open>
  Who writes \<open>latestStateRef\<close>: a classified frame with a face records its fused state; the
  absence alarm does not record the state it reports. And \<open>silenceAlarm\<close> leaves the grace
  timer of the voice warning as it is.
\<close>

lemma latestState_basic:
  "latestState (emit e s) = latestState s"
  "latestState (updateActiveAlarms al s) = latestState s"
  "latestState (updateRequireAck v s) = latestState s"
  "latestState (updateAlarmPhrase ph s) = latestState s"
  "latestState (updateChallenge ty pr an s) = latestState s"
  "latestState (setAlarmCursor tier k s) = latestState s"
  "latestState (resetAlarmState s) = latestState s"
  "latestState (assignNewChallenge pref rnd s) = latestState s"
  "latestState (raiseAlarmBatch tier n now s) = latestState s"
  by (simp_all add: emit_def updateActiveAlarms_def updateRequireAck_def updateAlarmPhrase_def
        updateChallenge_def setAlarmCursor_def resetAlarmState_def assignNewChallenge_def
        raiseAlarmBatch_def getAlarmBatch_def Let_def split: AlarmTier.split)

lemma latestState_escalation:
  "latestState (escalateRisk best w now cap rnd s) = latestState s"
  "latestState (relaxAwake cap s) = latestState s"
  by (simp_all add: escalateRisk_def relaxAwake_def latestState_basic Let_def split: option.split)

lemma classified_face_records_fused_state:
  "latestState (applyAnalysis f now cap rnd a s) = fst (fa_ranked a ! 0)"
  by (simp add: applyAnalysis_def latestState_escalation latestState_basic Let_def)

lemma absence_alarm_keeps_latestState:
  "latestState (snd (absenceCountdown now rnd s)) = latestState s"
  by (simp add: absenceCountdown_def latestState_basic Let_def)

lemma warningStartTime_resetAlarmState:
  "warningStartTime (resetAlarmState s) = warningStartTime s"
  by (simp add: resetAlarmState_def updateChallenge_def updateRequireAck_def
        updateAlarmPhrase_def updateActiveAlarms_def)

lemma silenceAlarm_keeps_warning_timer:
  "warningStartTime (snd (silenceAlarm input s)) = warningStartTime s"
  by (simp add: silenceAlarm_def warningStartTime_resetAlarmState)

text \<open>Evaluating the example frames and sessions.\<close>

lemma upt_from_0: "[0..<numeral n] = 0 # [Suc 0..<numeral n]"
  by (subst upt_rec) simp

lemma upt_from_1: "[Suc 0..<numeral n] = (if Suc 0 < numeral n then Suc 0 # [2..<numeral n] else [])"
  by (subst upt_rec) (simp add: numeral_2_eq_2)

lemma calibrationFrames_facts:
  "length (calibrationFrames spacing n) = n"
  "0 < n \<Longrightarrow> calibrationFrames spacing n \<noteq> []"
  "0 < n \<Longrightarrow> fst (snd (hd (calibrationFrames spacing n))) = 1000"
  "0 < n \<Longrightarrow> fst (snd (last (calibrationFrames spacing n))) = 1000 + spacing * int (n - 1)"
  by (simp_all add: calibrationFrames_def hd_map last_map)

lemma calibrationFrames_samples:
  "median (map (pitchAngleRaw \<circ> fst) (calibrationFrames 50 90)) = 11 / 2"
  "sum_list (map (currentEar \<circ> fst) (calibrationFrames 50 90)) = 243 / 10"
  "sum_list (map (tiltAngleRaw \<circ> fst) (calibrationFrames 50 90)) = 225"
  "sum_list (map (currentFaceWidth \<circ> fst) (calibrationFrames 50 90)) = 252 / 10"
  by (simp_all add: calibrationFrames_def upt_from_0 upt_from_1 sampleFrame_def leaningFrame_def
        median_def Let_def)


lemma calibratedSession_state:
  "calibratedSession =
     initialDetector\<lparr>confidence := 0.99,
       baselines := Some \<lparr>pitch = 11 / 2, ear = 27 / 100, tilt = 5 / 2, faceWidth = 7 / 25\<rparr>,
       calibrationProgress := 1,
       calibration := (collected (calibrationFrames 50 90))\<lparr>collecting := False\<rparr>,
       lastEmitTime := 5450,
       headNodDetector := newHeadNodDetector\<lparr>hn_pitchHistory := [0]\<rparr>,
       yawnDetector := newYawnDetector\<lparr>yd_marHistory := [0.1]\<rparr>,
       gazeTracker := newGazeTracker\<lparr>gz_gazeHistory := [0]\<rparr>,
       faceDistanceTracker := newFaceDistanceTracker\<lparr>fd_widthHistory := [0.31]\<rparr>,
       effects := [PushAttention \<lparr>snap_t = 5450, snap_state = Awake, snap_confidence = 0.99,
                     snap_ear = 0.24, snap_eyesClosedSec = 0, snap_headPitchDeg = 0\<rparr>]\<rparr>"
  by code_simp

lemma warnedSession_state:
  "warnedSession =
     calibratedSession\<lparr>state := NoddingOff, confidence := 35 / 66,
       activeWarning := Some ''Please keep your head up.'', warningStartTime := Some 5500,
       latestState := NoddingOff,
       headNodDetector := \<lparr>hn_pitchHistory = [0, 37 / 2], hn_nodCount = 1, hn_wasForward = True,
                             hn_wasBackward = False\<rparr>,
       yawnDetector := newYawnDetector\<lparr>yd_marHistory := [0.1, 0.1]\<rparr>,
       gazeTracker := newGazeTracker\<lparr>gz_gazeHistory := [0, 0]\<rparr>,
       faceDistanceTracker := newFaceDistanceTracker\<lparr>fd_widthHistory := [0.31, 0.25]\<rparr>,
       latestPostureState := Some slouchedPosture,
       effects := effects calibratedSession @ [SpeakWarning ''Please keep your head up.'' High]\<rparr>"
  unfolding warnedSession_def calibratedSession_state by code_simp

lemma alarmedSession_state:
  "alarmedSession =
     warnedSession\<lparr>state := Sleeping, confidence := 0.99, eyesClosedSec := Some (1 / 15),
       activeAlarms := alarmBatchFrom ALARM_LIBRARY_sleeping 0 5 11000, requireAck := True,
       challengePrompt := Some ''Solve: 20 + 25 - 3 = ?'', challengeType := Math,
       challengeAnswer := Some ''42'', absentCountdown := Some 0, absentStartTime := Some 6000,
       latestState := Awake, lastAlarmState := Sleeping, missingFaceFrames := 2,
       alarmCursorSleeping := 5,
       effects := effects warnedSession @ [PlayDrowsinessAlert True]\<rparr>"
  unfolding alarmedSession_def warnedSession_state calibratedSession_state by code_simp

subsection \<open>Claims about acknowledgment\<close>

lemmas session_eval = run_def missingFrames_def handleLandmarks_def handleMissingFace_def
  absenceCountdown_def classifyMissingFace_def restartCalibration_def triggerDebugAlarm_def
  assignNewChallenge_def challengeTypeOf_def createChallenge_def generateMathChallenge_def
  generateTriviaChallenge_def TRIVIA_BANK_def resetAlarmState_def updateChallenge_def
  updateRequireAck_def updateAlarmPhrase_def updateActiveAlarms_def raiseAlarmBatch_def
  getAlarmBatch_def alarmBatchFrom_def alarmSource_def alarmCursor_def setAlarmCursor_def
  emit_def truthyString_def initialDetector_def emptyCalibration_def rnd42_def noCapture_def
  string_of_nat.simps digitChar_def Let_def

text \<open>
  Claim C10. When no acknowledgment is required, \<open>silenceAlarm\<close> returns true for every
  input, without looking at the fused state or at a challenge answer, and leaves the
  alarm state reset: no active alarms, no alarm phrase, no challenge.
\<close>

theorem silenceAlarm_without_ack_always_succeeds:
  assumes "\<not> requireAck s"
  shows "fst (silenceAlarm input s) \<and>
         snd (silenceAlarm input s) = resetAlarmState s \<and>
         activeAlarms (snd (silenceAlarm input s)) = [] \<and>
         alarmPhrase (snd (silenceAlarm input s)) = None \<and>
         challengePrompt (snd (silenceAlarm input s)) = None \<and>
         challengeAnswer (snd (silenceAlarm input s)) = None \<and>
         challengeType (snd (silenceAlarm input s)) = Phrase"
  using assms by (simp add: silenceAlarm_def resetAlarmState_fields)

theorem silenceAlarm_without_ack_always_succeeds_witness:
  "\<not> requireAck initialDetector \<and>
   fst (silenceAlarm ''anything at all'' initialDetector) \<and>
   snd (silenceAlarm ''anything at all'' initialDetector) = resetAlarmState initialDetector \<and>
   activeAlarms (snd (silenceAlarm ''anything at all'' initialDetector)) = [] \<and>
   alarmPhrase (snd (silenceAlarm ''anything at all'' initialDetector)) = None"
proof -
  have h: "\<not> requireAck initialDetector" by (simp add: initialDetector_def)
  show ?thesis
    using h silenceAlarm_without_ack_always_succeeds [OF h, of "''anything at all''"] by blast
qed

text \<open>
  Claim C2, as stated, fails in three ways, shown on one session. After calibration the
  user is warned for nodding at time 5500 (no alarm yet: the grace period has just begun);
  then the face is absent, and at time 11000 the absence alarm fires with the math
  challenge "20 + 25 - 3", whose answer is "42". First, the hook now reports the state
  sleeping, while \<open>latestStateRef\<close>, which \<open>silenceAlarm\<close> consults, still holds awake from the
  first frame without a face. Second, the inputs " 42" and "42" after a no-break space are
  accepted although they are not, character for character, the answer. Third, after the
  successful acknowledgment the grace timer of the earlier voice warning is still set, so
  the escalation is not back at quiet: the next frame classified as nodding off, at time
  11100, raises the nodding alarm at once.
\<close>

theorem silenceAlarm_not_exact_not_reported_state_not_quiet:
  "requireAck alarmedSession \<and> state alarmedSession = Sleeping \<and>
   latestState alarmedSession = Awake \<and>
   challengeType alarmedSession = Math \<and> challengeAnswer alarmedSession = Some ''42'' \<and>
   '' 42'' \<noteq> ''42'' \<and> fst (silenceAlarm '' 42'' alarmedSession) \<and>
   fst (silenceAlarm (CHR 0xA0 # ''42'') alarmedSession) \<and>
   \<not> requireAck warnedSession \<and> activeAlarms warnedSession = [] \<and>
   warningStartTime warnedSession = Some 5500 \<and>
   warningStartTime (snd (silenceAlarm '' 42'' alarmedSession)) = Some 5500 \<and>
   requireAck (handleLandmarks (Some noddingFrame) 11100 noCapture rnd42
                 (snd (silenceAlarm '' 42'' alarmedSession))) \<and>
   length (activeAlarms (handleLandmarks (Some noddingFrame) 11100 noCapture rnd42
                 (snd (silenceAlarm '' 42'' alarmedSession)))) = 4"
  unfolding alarmedSession_state warnedSession_state calibratedSession_state by code_simp

text \<open>
  Claim C2, amended. When an acknowledgment is outstanding, \<open>silenceAlarm(input)\<close> returns
  true if and only if the state recorded in \<open>latestStateRef\<close> is awake and the input matches
  the active challenge. (\<open>latestStateRef\<close> holds the state of the last classified frame, or
  the state forced by the debug trigger; it need not be the state the hook currently
  reports.) The input matches a phrase challenge when it is, character for character,
  the (non-empty) alarm phrase; a math challenge when the input with leading and trailing
  white space removed is the (non-empty) answer; a trivia challenge when the trimmed input
  and the (non-empty) answer are equal after conversion to upper case. On success all
  active alarms and the challenge are cleared, no acknowledgment is required any more and
  the last alarm state is awake. On failure nothing changes.
\<close>

theorem silenceAlarm_accepts_iff_awake_and_answer:
  assumes "requireAck s"
  shows "(fst (silenceAlarm input s) \<longleftrightarrow>
            latestState s = Awake \<and>
            (case challengeType s of
               Phrase \<Rightarrow> input \<noteq> [] \<and> alarmPhrase s = Some input
             | Math \<Rightarrow> trim input \<noteq> [] \<and> challengeAnswer s = Some (trim input)
             | Trivia \<Rightarrow> (\<exists>answer. challengeAnswer s = Some answer \<and> answer \<noteq> [] \<and>
                             toUpperCase (trim input) = toUpperCase answer))) \<and>
         (fst (silenceAlarm input s) \<longrightarrow>
            snd (silenceAlarm input s) = resetAlarmState s \<and>
            activeAlarms (snd (silenceAlarm input s)) = [] \<and>
            alarmPhrase (snd (silenceAlarm input s)) = None \<and>
            challengePrompt (snd (silenceAlarm input s)) = None \<and>
            challengeAnswer (snd (silenceAlarm input s)) = None \<and>
            \<not> requireAck (snd (silenceAlarm input s)) \<and>
            lastAlarmState (snd (silenceAlarm input s)) = Awake) \<and>
         (\<not> fst (silenceAlarm input s) \<longrightarrow> snd (silenceAlarm input s) = s)"
proof (cases "challengeType s")
  case Phrase
  then show ?thesis using assms
    by (cases "alarmPhrase s") (auto simp: silenceAlarm_def resetAlarmState_fields truthyString_def)
next
  case Math
  then show ?thesis using assms
    by (cases "challengeAnswer s") (auto simp: silenceAlarm_def resetAlarmState_fields truthyString_def)
next
  case Trivia
  then show ?thesis using assms
    by (cases "challengeAnswer s") (auto simp: silenceAlarm_def resetAlarmState_fields truthyString_def)
qed

theorem silenceAlarm_accepts_iff_awake_and_answer_witness:
  "requireAck triviaAlarmState \<and> latestState triviaAlarmState = Awake \<and>
   challengeType triviaAlarmState = Trivia \<and> challengeAnswer triviaAlarmState = Some ''PARIS'' \<and>
   fst (silenceAlarm ''paris'' triviaAlarmState) \<and>
   activeAlarms (snd (silenceAlarm ''paris'' triviaAlarmState)) = [] \<and>
   \<not> requireAck (snd (silenceAlarm ''paris'' triviaAlarmState)) \<and>
   requireAck phraseAlarmState \<and>
   alarmPhrase phraseAlarmState = Some ''FOCUS-ALERT-ENERGY-WAKE-123'' \<and>
   \<not> fst (silenceAlarm ''focus-alert-energy-wake-123'' phraseAlarmState) \<and>
   snd (silenceAlarm ''focus-alert-energy-wake-123'' phraseAlarmState) = phraseAlarmState"
proof -
  have t: "requireAck triviaAlarmState" "latestState triviaAlarmState = Awake"
    "challengeType triviaAlarmState = Trivia" "challengeAnswer triviaAlarmState = Some ''PARIS''"
    unfolding triviaAlarmState_def calibratedSession_state by code_simp+
  have p: "requireAck phraseAlarmState" "latestState phraseAlarmState = Awake"
    "challengeType phraseAlarmState = Phrase"
    "alarmPhrase phraseAlarmState = Some ''FOCUS-ALERT-ENERGY-WAKE-123''"
    unfolding phraseAlarmState_def calibratedSession_state by code_simp+
  have up: "toUpperCase (trim ''paris'') = toUpperCase ''PARIS''" "''PARIS'' \<noteq> []"
    by code_simp+
  have ne: "''focus-alert-energy-wake-123'' \<noteq> ''FOCUS-ALERT-ENERGY-WAKE-123''" by simp
  have yes: "fst (silenceAlarm ''paris'' triviaAlarmState)"
    using silenceAlarm_accepts_iff_awake_and_answer [OF t(1), of "''paris''"] t up by simp
  have no: "\<not> fst (silenceAlarm ''focus-alert-energy-wake-123'' phraseAlarmState)"
    using silenceAlarm_accepts_iff_awake_and_answer [OF p(1), of "''focus-alert-energy-wake-123''"]
      p ne by simp
  show ?thesis
    using t p yes no
      silenceAlarm_accepts_iff_awake_and_answer [OF t(1), of "''paris''"]
      silenceAlarm_accepts_iff_awake_and_answer [OF p(1), of "''focus-alert-energy-wake-123''"]
    by blast
qed

subsection \<open>Claims about the absence alarm\<close>

text \<open>
  Claim C3. Let the absence alarm be armed and calibration be complete, and let frames
  without a face arrive, the first of them at time \<open>t1\<close> (before it the countdown holds
  no start time, as after any frame with a face). If no acknowledgment is outstanding when a
  further frame without a face arrives 5 seconds or more after \<open>t1\<close>, that frame forces
  the state sleeping with confidence 0.99 and replaces the active alarms by one batch of 5
  sleeping-tier alarms: 5 consecutive entries of the sleeping library from the cursor on,
  each of level critical and stamped with the frame's time; the alert tone is played once,
  an acknowledgment is required from then on, and while it is, the countdown cannot fire
  again.
\<close>

theorem absence_alarm_after_five_seconds:
  assumes "isAbsenceAlarmArmed s0" and "\<not> collecting (calibration s0)"
    and "absentStartTime s0 = None"
    and "s = run (missingFrames ((t1, cap1, rnd1) # rest)) s0"
    and "\<not> requireAck s"
    and "5000 \<le> now - t1"
  shows "state (handleLandmarks None now cap rnd s) = Sleeping \<and>
         confidence (handleLandmarks None now cap rnd s) = 0.99 \<and>
         activeAlarms (handleLandmarks None now cap rnd s)
           = alarmBatchFrom ALARM_LIBRARY_sleeping (alarmCursorSleeping s) 5 now \<and>
         length (activeAlarms (handleLandmarks None now cap rnd s)) = 5 \<and>
         (\<forall>a \<in> set (activeAlarms (handleLandmarks None now cap rnd s)).
            alarm_level a = Critical \<and> triggeredAt a = now \<and>
            (\<exists>d \<in> set ALARM_LIBRARY_sleeping.
               alarm_id a = def_id d \<and> alarm_message a = def_message d)) \<and>
         effects (handleLandmarks None now cap rnd s) = effects s @ [PlayDrowsinessAlert True] \<and>
         requireAck (handleLandmarks None now cap rnd s) \<and>
         \<not> fst (absenceCountdown now' rnd' (handleLandmarks None now cap rnd s))"
proof -
  define s2 where "s2 = s\<lparr>missingFaceFrames := missingFaceFrames s + 1,
                  eyesClosedSec := Some (real (missingFaceFrames s + 1) / FPS)\<rparr>"
  have aw: "awaiting t1 s"
    unfolding assms(4) using assms(1,2,3) by (rule awaiting_from_face)
  then have armed: "isAbsenceAlarmArmed s2" and st: "absentStartTime s2 = Some t1"
    and nr: "\<not> requireAck s2"
    using assms(5) by (simp_all add: awaiting_def s2_def)
  note fires = absenceCountdown_fires[OF armed st assms(6) nr, of rnd]
  have hm: "handleLandmarks None now cap rnd s = snd (absenceCountdown now rnd s2)"
    using fires(1) by (simp add: handleLandmarks_def handleMissingFace_def Let_def s2_def)
  have cur: "alarmCursorSleeping s2 = alarmCursorSleeping s" and eff: "effects s2 = effects s"
    by (simp_all add: s2_def)
  show ?thesis
    unfolding hm
    using fires(2-8) sleeping_batch_member absenceCountdown_requireAck(3)[OF fires(5)]
    by (simp add: cur eff)
qed

theorem absence_alarm_after_five_seconds_witness:
  "isAbsenceAlarmArmed initialDetector \<and> \<not> collecting (calibration initialDetector) \<and>
   absentStartTime initialDetector = None \<and>
   \<not> requireAck (run (missingFrames [(1000, noCapture, rnd42)]) initialDetector) \<and>
   (5000::int) \<le> 6000 - 1000 \<and>
   state (handleLandmarks None 6000 noCapture rnd42
            (run (missingFrames [(1000, noCapture, rnd42)]) initialDetector)) = Sleeping \<and>
   confidence (handleLandmarks None 6000 noCapture rnd42
            (run (missingFrames [(1000, noCapture, rnd42)]) initialDetector)) = 0.99 \<and>
   length (activeAlarms (handleLandmarks None 6000 noCapture rnd42
            (run (missingFrames [(1000, noCapture, rnd42)]) initialDetector))) = 5 \<and>
   map alarm_id (activeAlarms (handleLandmarks None 6000 noCapture rnd42
            (run (missingFrames [(1000, noCapture, rnd42)]) initialDetector)))
     = [''sleeping-1'', ''sleeping-2'', ''sleeping-3'', ''sleeping-4'', ''sleeping-5'']"
proof -
  have h1: "isAbsenceAlarmArmed initialDetector" and h2: "\<not> collecting (calibration initialDetector)"
    and h3: "absentStartTime initialDetector = None"
    by (simp_all add: initialDetector_def emptyCalibration_def)
  have h5: "\<not> requireAck (run (missingFrames [(1000, noCapture, rnd42)]) initialDetector)"
    and cur: "alarmCursorSleeping (run (missingFrames [(1000, noCapture, rnd42)]) initialDetector) = 0"
    by (simp_all add: session_eval)
  have h6: "(5000::int) \<le> 6000 - 1000" by simp
  have ids: "map alarm_id (alarmBatchFrom ALARM_LIBRARY_sleeping 0 5 6000)
     = [''sleeping-1'', ''sleeping-2'', ''sleeping-3'', ''sleeping-4'', ''sleeping-5'']"
    by code_simp
  note fires = absence_alarm_after_five_seconds [OF h1 h2 h3 refl h5 h6, of noCapture rnd42]
  have r1: "state (handleLandmarks None 6000 noCapture rnd42
            (run (missingFrames [(1000, noCapture, rnd42)]) initialDetector)) = Sleeping"
    and r2: "confidence (handleLandmarks None 6000 noCapture rnd42
            (run (missingFrames [(1000, noCapture, rnd42)]) initialDetector)) = 0.99"
    and r3: "activeAlarms (handleLandmarks None 6000 noCapture rnd42
            (run (missingFrames [(1000, noCapture, rnd42)]) initialDetector))
          = alarmBatchFrom ALARM_LIBRARY_sleeping
              (alarmCursorSleeping (run (missingFrames [(1000, noCapture, rnd42)]) initialDetector))
              5 6000"
    and r4: "length (activeAlarms (handleLandmarks None 6000 noCapture rnd42
            (run (missingFrames [(1000, noCapture, rnd42)]) initialDetector))) = 5"
    using fires by blast+
  have r5: "map alarm_id (activeAlarms (handleLandmarks None 6000 noCapture rnd42
            (run (missingFrames [(1000, noCapture, rnd42)]) initialDetector)))
     = [''sleeping-1'', ''sleeping-2'', ''sleeping-3'', ''sleeping-4'', ''sleeping-5'']"
    unfolding r3 cur by (rule ids)
  show ?thesis
    using h1 h2 h3 h5 h6 r1 r2 r4 r5 by blast
qed

text \<open>
  Claim C4. After \<open>disarmAbsenceAlarm\<close>, whatever happens afterwards (frames with or
  without a face, posture readings, acknowledgments, debug alarms, the detector being
  switched off and on again), the absence alarm stays disarmed, the countdown holds no
  start time and shows no value, the countdown never raises the alarm on a frame without a
  face, and such a frame never reports the confidence 0.99 of the absence alarm: it is
  processed as if the countdown block were not there, by the calibration restart or by the
  classification on the missing-frame count. (State changes are taken to be visible to the
  next frame: the callback is created again whenever \<open>isAbsenceAlarmArmed\<close> changes.)
\<close>

theorem disarmed_absence_alarm_never_fires:
  "\<not> isAbsenceAlarmArmed (run events (disarmAbsenceAlarm s)) \<and>
   \<not> fst (absenceCountdown now rnd (run events (disarmAbsenceAlarm s))) \<and>
   absentStartTime (run events (disarmAbsenceAlarm s)) = None \<and>
   absentCountdown (run events (disarmAbsenceAlarm s)) = None \<and>
   confidence (handleLandmarks None now cap rnd (run events (disarmAbsenceAlarm s))) \<noteq> 0.99 \<and>
   handleLandmarks None now cap rnd (run events (disarmAbsenceAlarm s)) =
     (if collecting (calibration (run events (disarmAbsenceAlarm s)))
      then restartCalibration
             ((run events (disarmAbsenceAlarm s))
                \<lparr>missingFaceFrames := missingFaceFrames (run events (disarmAbsenceAlarm s)) + 1,
                  eyesClosedSec :=
                    Some (real (missingFaceFrames (run events (disarmAbsenceAlarm s)) + 1) / FPS)\<rparr>)
      else classifyMissingFace
             (real (missingFaceFrames (run events (disarmAbsenceAlarm s)) + 1) / FPS) now rnd
             ((run events (disarmAbsenceAlarm s))
                \<lparr>missingFaceFrames := missingFaceFrames (run events (disarmAbsenceAlarm s)) + 1,
                  eyesClosedSec :=
                    Some (real (missingFaceFrames (run events (disarmAbsenceAlarm s)) + 1) / FPS)\<rparr>))"
proof -
  have q: "quiet (run events (disarmAbsenceAlarm s))"
    by (rule quiet_run) (rule quiet_disarm)
  then have d: "\<not> isAbsenceAlarmArmed (run events (disarmAbsenceAlarm s))"
    by (simp add: quiet_def)
  have c: "confidence (handleLandmarks None now cap rnd (run events (disarmAbsenceAlarm s))) \<noteq> 0.99"
    unfolding handleLandmarks_def option.case by (rule confidence_handleMissingFace_disarmed[OF d])
  have h: "handleLandmarks None now cap rnd (run events (disarmAbsenceAlarm s)) =
     (if collecting (calibration (run events (disarmAbsenceAlarm s)))
      then restartCalibration
             ((run events (disarmAbsenceAlarm s))
                \<lparr>missingFaceFrames := missingFaceFrames (run events (disarmAbsenceAlarm s)) + 1,
                  eyesClosedSec :=
                    Some (real (missingFaceFrames (run events (disarmAbsenceAlarm s)) + 1) / FPS)\<rparr>)
      else classifyMissingFace
             (real (missingFaceFrames (run events (disarmAbsenceAlarm s)) + 1) / FPS) now rnd
             ((run events (disarmAbsenceAlarm s))
                \<lparr>missingFaceFrames := missingFaceFrames (run events (disarmAbsenceAlarm s)) + 1,
                  eyesClosedSec :=
                    Some (real (missingFaceFrames (run events (disarmAbsenceAlarm s)) + 1) / FPS)\<rparr>))"
    unfolding handleLandmarks_def option.case by (rule handleMissingFace_disarmed[OF d])
  have a: "\<not> fst (absenceCountdown now rnd (run events (disarmAbsenceAlarm s)))"
    by (simp add: absenceCountdown_disarmed[OF d])
  show ?thesis
    using q d c a h unfolding quiet_def by blast
qed

theorem disarmed_absence_alarm_never_fires_witness:
  "\<not> isAbsenceAlarmArmed
       (run (missingFrames [(1000, noCapture, rnd42)]) (disarmAbsenceAlarm initialDetector)) \<and>
   \<not> fst (absenceCountdown 60000 rnd42
       (run (missingFrames [(1000, noCapture, rnd42)]) (disarmAbsenceAlarm initialDetector))) \<and>
   confidence (handleLandmarks None 60000 noCapture rnd42
       (run (missingFrames [(1000, noCapture, rnd42)]) (disarmAbsenceAlarm initialDetector))) \<noteq> 0.99 \<and>
   confidence (handleLandmarks None 60000 noCapture rnd42
       (run (missingFrames [(1000, noCapture, rnd42)]) initialDetector)) = 0.99"
proof -
  have armed: "confidence (handleLandmarks None 60000 noCapture rnd42
       (run (missingFrames [(1000, noCapture, rnd42)]) initialDetector)) = 0.99"
    by (simp add: session_eval)
  show ?thesis
    using armed
      disarmed_absence_alarm_never_fires
        [of "missingFrames [(1000, noCapture, rnd42)]" initialDetector 60000 rnd42 noCapture]
    by blast
qed

subsection \<open>Claims about calibration\<close>

lemma median_examples:
  "median [] = 0" "median [3, 1, 2] = 2" "median [4, 1, 3, 2] = 5 / 2"
  by (simp_all add: median_def Let_def)

text \<open>
  Claim C8. A collection that has just started (the detector was switched on, or a frame
  without a face restarted the collection) and then receives frames with a face completes
  in the first frame at which the time elapsed since the first of these frames is at least
  4000 ms and at least 90 of them have been collected: for a run of such frames of which
  no shorter initial part met this criterion, calibration has completed at the end of the
  run exactly when the whole run meets it. The baseline then has as its pitch the median
  of the pitch values of all the frames (half the sum of the two middle elements of the
  sorted samples; at least half of the samples are at most it and at least half are at
  least it) and as its ear, tilt and face width the arithmetic means of the values of all
  the frames. Otherwise, in particular with fewer than 90 samples after 4000 ms, the
  baseline is still null, the accumulator holds the start time and every sample, and the
  frame reports awake with confidence 0.15.
\<close>

theorem calibration_completes_with_median_and_means:
  assumes "calibration s0 = collected []"
    and "baselines s0 = None"
    and "frames \<noteq> []"
    and "\<forall>k < length frames. \<not> calibrationDue (take k frames)"
    and "s' = run (faceFrames frames) s0"
    and "ps = map (pitchAngleRaw \<circ> fst) frames"
    and "es = map (currentEar \<circ> fst) frames"
    and "ts = map (tiltAngleRaw \<circ> fst) frames"
    and "ws = map (currentFaceWidth \<circ> fst) frames"
  shows "(\<not> collecting (calibration s') \<longleftrightarrow> calibrationDue frames) \<and>
         (calibrationDue frames \<longrightarrow>
            baselines s' = Some \<lparr>pitch = median ps,
                                  ear = sum_list es / real (length es),
                                  tilt = sum_list ts / real (length ts),
                                  faceWidth = sum_list ws / real (length ws)\<rparr> \<and>
            2 * median ps = sort ps ! ((length ps - 1) div 2) + sort ps ! (length ps div 2) \<and>
            length ps \<le> 2 * length (filter (\<lambda>x. x \<le> median ps) ps) \<and>
            length ps \<le> 2 * length (filter (\<lambda>x. median ps \<le> x) ps) \<and>
            \<not> isCalibrating s') \<and>
         (\<not> calibrationDue frames \<longrightarrow>
            baselines s' = None \<and> calibration s' = collected frames \<and>
            state s' = Awake \<and> confidence s' = 0.15)"
proof -
  define earlier where "earlier = butlast frames"
  obtain f now cap rnd where l: "last frames = (f, now, cap, rnd)" by (cases "last frames") auto
  have split: "frames = earlier @ [(f, now, cap, rnd)]"
    using assms(3) l unfolding earlier_def by (metis append_butlast_last_id)
  have len: "length earlier < length frames" using split by simp
  have prev: "\<forall>k. 0 < k \<and> k \<le> length earlier \<longrightarrow> \<not> calibrationDue (take k earlier)"
  proof (intro allI impI)
    fix k assume k: "0 < k \<and> k \<le> length earlier"
    then have "k < length frames" using len by simp
    then have "\<not> calibrationDue (take k frames)" using assms(4) by simp
    moreover have "take k frames = take k earlier" using k by (subst split) simp
    ultimately show "\<not> calibrationDue (take k earlier)" by simp
  qed
  note inv = collected_run[OF assms(1) prev]
  have c: "calibration (run (faceFrames earlier) s0) = collected earlier" using inv by simp
  have b: "baselines (run (faceFrames earlier) s0) = None" using inv assms(2) by simp
  have st: "s' = handleLandmarks (Some f) now cap rnd (run (faceFrames earlier) s0)"
    unfolding assms(5) by (subst split) (simp add: faceFrames_snoc run_snoc)
  have ne: "ps \<noteq> []" "es \<noteq> []" "ts \<noteq> []" "ws \<noteq> []" using assms(3,6-9) by simp_all
  show ?thesis
  proof (cases "calibrationDue frames")
    case True
    then have "calibrationDue (earlier @ [(f, now, cap, rnd)])" using split by simp
    from collected_step(1)[OF c st refl this]
    have "baselines s' = Some \<lparr>pitch = median ps, ear = average es, tilt = average ts,
                                faceWidth = average ws\<rparr>"
      and "\<not> collecting (calibration s')" and "\<not> isCalibrating s'"
      unfolding assms(6-9) split by simp_all
    then show ?thesis
      using True ne median_bounds[OF ne(1)] median_middle[OF ne(1)]
      by (simp add: average_nonempty)
  next
    case False
    then have "\<not> calibrationDue (earlier @ [(f, now, cap, rnd)])" using split by simp
    from collected_step(2)[OF c st refl this]
    have "calibration s' = collected frames" and "baselines s' = None"
      and "state s' = Awake" and "confidence s' = 0.15"
      using b unfolding split by simp_all
    then show ?thesis using False by (simp add: collected_def)
  qed
qed

theorem calibration_completes_with_median_and_means_witness:
  "calibrationDue (calibrationFrames 50 90) \<and>
   baselines (run (SetActiveEvent True # faceFrames (calibrationFrames 50 90)) initialDetector)
     = Some \<lparr>pitch = 11 / 2, ear = 27 / 100, tilt = 5 / 2, faceWidth = 7 / 25\<rparr> \<and>
   \<not> collecting (calibration
        (run (SetActiveEvent True # faceFrames (calibrationFrames 50 90)) initialDetector)) \<and>
   length (calibrationFrames 50 89) = 89 \<and>
   fst (snd (last (calibrationFrames 50 89))) - fst (snd (hd (calibrationFrames 50 89))) = 4400 \<and>
   baselines (run (interruptedStart @ faceFrames (calibrationFrames 50 89)) initialDetector) = None \<and>
   collecting (calibration
        (run (interruptedStart @ faceFrames (calibrationFrames 50 89)) initialDetector)) \<and>
   length (calibrationFrames 33 90) = 90 \<and>
   fst (snd (last (calibrationFrames 33 90))) - fst (snd (hd (calibrationFrames 33 90))) = 2937 \<and>
   baselines (run (SetActiveEvent True # faceFrames (calibrationFrames 33 90)) initialDetector) = None"
proof -
  define s0 where "s0 = setActive True initialDetector"
  define s1 where "s1 = run interruptedStart initialDetector"
  have fresh0: "calibration s0 = collected []" "baselines s0 = None"
    unfolding s0_def by (simp_all add: setActive_def resetAlarmState_def updateChallenge_def
      updateRequireAck_def updateAlarmPhrase_def updateActiveAlarms_def collected_def
      emptyCalibration_def initialDetector_def)
  have fresh1: "calibration s1 = collected []" "baselines s1 = None"
    unfolding s1_def interruptedStart_def
    by (simp_all add: session_eval setActive_def handleFace_def collectCalibrationSample_def
      collected_def sampleFrame_def)
  have due: "calibrationDue (calibrationFrames 50 90)"
    and slow: "\<not> calibrationDue (calibrationFrames 50 89)"
    and fast: "\<not> calibrationDue (calibrationFrames 33 90)"
    by (simp_all add: calibrationDue_def calibrationFrames_facts)
  have early: "\<forall>k < length (calibrationFrames spacing 90).
                  \<not> calibrationDue (take k (calibrationFrames spacing 90))"
    and early': "\<forall>k < length (calibrationFrames spacing 89).
                  \<not> calibrationDue (take k (calibrationFrames spacing 89))" for spacing
    by (simp_all add: calibrationDue_def calibrationFrames_facts)
  have ne: "calibrationFrames 50 90 \<noteq> []" "calibrationFrames 50 89 \<noteq> []"
    "calibrationFrames 33 90 \<noteq> []"
    by (simp_all add: calibrationFrames_facts)
  note completes = calibration_completes_with_median_and_means
      [OF fresh0 ne(1) early refl refl refl refl refl]
  note pending = calibration_completes_with_median_and_means
      [OF fresh1 ne(2) early' refl refl refl refl refl]
  note hasty = calibration_completes_with_median_and_means
      [OF fresh0 ne(3) early refl refl refl refl refl]
  have r0: "run (SetActiveEvent True # faceFrames frames) initialDetector = run (faceFrames frames) s0"
    for frames by (simp add: run_Cons s0_def)
  have r1: "run (interruptedStart @ faceFrames frames) initialDetector = run (faceFrames frames) s1"
    for frames by (simp add: run_append s1_def)
  have a1: "baselines (run (faceFrames (calibrationFrames 50 90)) s0)
              = Some \<lparr>pitch = 11 / 2, ear = 27 / 100, tilt = 5 / 2, faceWidth = 7 / 25\<rparr>"
    using completes due by (simp add: calibrationFrames_samples calibrationFrames_facts)
  have a2: "\<not> collecting (calibration (run (faceFrames (calibrationFrames 50 90)) s0))"
    using completes due by blast
  have b1: "baselines (run (faceFrames (calibrationFrames 50 89)) s1) = None"
    and b2: "collecting (calibration (run (faceFrames (calibrationFrames 50 89)) s1))"
    using pending slow by blast+
  have c1: "baselines (run (faceFrames (calibrationFrames 33 90)) s0) = None"
    using hasty fast by blast
  show ?thesis
    unfolding r0 r1 using due a1 a2 b1 b2 c1 by (simp add: calibrationFrames_facts)
qed

end
